theory Spec2Isabelle
  imports Complex_Main
begin

section \<open>Data model (src/unnamed/part_000, the type definitions)\<close>

text \<open>
  A JavaScript number is either a finite double, idealised as an exact real, or NaN.
  Rounding, the sign of zero and the two infinities are outside the model; the one quotient
  of the program that can be infinite is resolved where it is computed (\<open>severity\<close>).
  Arithmetic and comparison follow the language: a sum or product with NaN is NaN, every
  comparison with NaN is false, and \<open>Math.min\<close> of NaN is NaN. Numbers that the program reads
  from typed records of its environment (amounts, statistics of a cached history) are
  \<open>real\<close>; counters that are only incremented are \<open>nat\<close>.
\<close>

datatype number = Num real | NaN

instantiation number :: "{zero, plus, times, ord}"
begin

definition zero_number :: number where
  "0 = Num 0"

definition plus_number :: "number \<Rightarrow> number \<Rightarrow> number" where
  "a + b = (case a of Num x \<Rightarrow> (case b of Num y \<Rightarrow> Num (x + y) | NaN \<Rightarrow> NaN) | NaN \<Rightarrow> NaN)"

definition times_number :: "number \<Rightarrow> number \<Rightarrow> number" where
  "a * b = (case a of Num x \<Rightarrow> (case b of Num y \<Rightarrow> Num (x * y) | NaN \<Rightarrow> NaN) | NaN \<Rightarrow> NaN)"

definition less_eq_number :: "number \<Rightarrow> number \<Rightarrow> bool" where
  "a \<le> b = (case a of Num x \<Rightarrow> (case b of Num y \<Rightarrow> x \<le> y | NaN \<Rightarrow> False) | NaN \<Rightarrow> False)"

definition less_number :: "number \<Rightarrow> number \<Rightarrow> bool" where
  "a < b = (case a of Num x \<Rightarrow> (case b of Num y \<Rightarrow> x < y | NaN \<Rightarrow> False) | NaN \<Rightarrow> False)"

instance ..

end

instance number :: comm_monoid_add
proof
  fix a b c :: number
  show "a + b + c = a + (b + c)"
    by (simp add: plus_number_def split: number.split)
  show "a + b = b + a"
    by (simp add: plus_number_def split: number.split)
  show "0 + a = a"
    by (simp add: plus_number_def zero_number_def split: number.split)
qed

text \<open>\<open>Math.min(a, b)\<close>.\<close>

definition mathMin :: "number \<Rightarrow> number \<Rightarrow> number" where
  "mathMin a b =
     (case a of Num x \<Rightarrow> (case b of Num y \<Rightarrow> Num (min x y) | NaN \<Rightarrow> NaN) | NaN \<Rightarrow> NaN)"

text \<open>
  Generated identifiers (\<open>uuidv4()\<close>), ISO timestamps of "now" and the human-readable
  \<open>reason\<close> strings carry no control flow and are left out of the records; \<open>details\<close>
  keeps the keys that the program reads back or that mark a blocklist hit or a failure.
  The field \<open>method\<close> of a risk factor is named \<open>detectionMethod\<close>, the field \<open>score\<close> of
  an analysis \<open>finalScore\<close>.
\<close>

datatype FraudDetectionMethod = VELOCITY | GEOGRAPHIC | AMOUNT | RECIPIENT | TIME | DEVICE | ML_MODEL

datatype RiskDecision = APPROVE | SUSPICIOUS | REJECT

datatype ConfidenceLevel = HIGH | MEDIUM | LOW

datatype AnalysisStatus = PENDING | COMPLETED | FAILED | TIMEOUT

datatype ReviewPriority = PriorityHIGH | PriorityMEDIUM | PriorityLOW

datatype DetailValue = DNum real | DStr string | DBool bool

record RiskFactor =
  detectionMethod :: FraudDetectionMethod
  score :: number
  weight :: number
  contributedScore :: number
  details :: "(string \<times> DetailValue) list"

record FraudAnalysisResult =
  analysisId :: string
  resTransactionId :: string
  resUserId :: string
  finalScore :: number
  decision :: RiskDecision
  confidence :: ConfidenceLevel
  status :: AnalysisStatus
  riskFactors :: "RiskFactor list"
  modelVersion :: string
  analysisTimeMs :: int
  requiresManualReview :: bool

text \<open>
  A valid JavaScript \<open>Date\<close>: epoch milliseconds and the local calendar fields read by the
  analyzers. Where the program builds a date from a value that may be absent, the date is
  optional and \<open>None\<close> is the "Invalid Date", all of whose fields read NaN.
\<close>

record JsDate =
  getTime :: int
  getHours :: nat
  getDay :: nat
  getMonth :: nat
  getDate :: nat

record Geographic =
  ip :: string
  latitude :: "real option"
  longitude :: "real option"
  country :: "string option"
  city :: "string option"

record DevicePayload =
  fingerprint :: "string option"
  userAgent :: "string option"
  deviceId :: "string option"

text \<open>
  The payload of a \<open>TransactionCreated\<close> event. The consumer validates \<open>transactionId\<close>,
  \<open>userId\<close>, \<open>recipientId\<close> and \<open>amount\<close> only, so \<open>destinationAccountId\<close> is optional
  (\<open>None\<close>: absent or not a string). The declared payload has no \<open>timestamp\<close>, which the
  orchestrator nevertheless reads: \<open>timestamp\<close> is the date \<open>new Date(transaction.timestamp)\<close>,
  invalid (\<open>None\<close>) when the property is absent or does not parse.
\<close>

record Transaction =
  transactionId :: string
  userId :: string
  sourceAccountId :: string
  destinationAccountId :: "string option"
  recipientId :: string
  amount :: real
  currency :: string
  timestamp :: "JsDate option"
  geographic :: "Geographic option"
  device :: "DevicePayload option"

record TransactionCreatedEvent =
  correlationId :: "string option"
  payload :: Transaction

section \<open>Configuration (src/src/config/config.ts)\<close>

text \<open>
  The numeric settings are what \<open>parseFloat\<close> and \<open>parseInt\<close> return for the environment
  variables: any number, NaN for a value that does not parse.
\<close>

record Config =
  suspiciousMin :: number
  rejectMin :: number
  velocityWeightFiveMinute :: number
  velocityWeightOneHour :: number
  velocityWeightTwentyFourHours :: number
  geographicWeight :: number
  amountWeight :: number
  recipientWeight :: number
  timeWeight :: number
  deviceWeight :: number
  processingTimeoutMs :: number
  maxTransfersPerFiveMin :: number
  maxTransfersPerHour :: number
  maxTransfersPerDay :: number
  unusualMultiplier :: number
  largeTransferMin :: number
  impossibleTravelHours :: number
  newRecipientDays :: number
  trustedRecipientMinTransfers :: number
  mlModelVersion :: string
  topicFraudAnalysis :: string
  topicFraudSuspected :: string
  topicFraudManualReview :: string

definition defaultConfig :: Config where
  "defaultConfig = \<lparr>
     suspiciousMin = Num 0.50, rejectMin = Num 0.80,
     velocityWeightFiveMinute = Num 0.15, velocityWeightOneHour = Num 0.10,
     velocityWeightTwentyFourHours = Num 0.08,
     geographicWeight = Num 0.35, amountWeight = Num 0.25, recipientWeight = Num 0.30,
     timeWeight = Num 0.10, deviceWeight = Num 0.20,
     processingTimeoutMs = Num 5000,
     maxTransfersPerFiveMin = Num 3, maxTransfersPerHour = Num 10, maxTransfersPerDay = Num 50,
     unusualMultiplier = Num 5.0, largeTransferMin = Num 10000,
     impossibleTravelHours = Num 2.0,
     newRecipientDays = Num 30, trustedRecipientMinTransfers = Num 5,
     mlModelVersion = ''v2.5'',
     topicFraudAnalysis = ''banking.fraud.analysis'',
     topicFraudSuspected = ''banking.fraud.suspected'',
     topicFraudManualReview = ''banking.fraud.manual_review'' \<rparr>"

section \<open>Aggregation and decision (FraudDetectionService.calculateFinalDecision)\<close>

text \<open>The \<open>forEach\<close> loop that adds every \<open>contributedScore\<close> to \<open>totalScore\<close>, starting at 0.\<close>

definition totalScore :: "RiskFactor list \<Rightarrow> number" where
  "totalScore fs = foldl (\<lambda>acc factor. acc + contributedScore factor) (Num 0) fs"

definition calculateFinalDecision ::
  "Config \<Rightarrow> string \<Rightarrow> Transaction \<Rightarrow> RiskFactor list \<Rightarrow> string \<Rightarrow> FraudAnalysisResult" where
  "calculateFinalDecision cfg aid tx fs mv =
     (let final = mathMin (totalScore fs) (Num 1.0);
          review = (final \<ge> suspiciousMin cfg);
          dec = (if final \<ge> rejectMin cfg then REJECT
                 else if review then SUSPICIOUS
                 else APPROVE)
      in \<lparr> analysisId = aid,
           resTransactionId = transactionId tx,
           resUserId = userId tx,
           finalScore = final,
           decision = dec,
           confidence = HIGH,
           status = COMPLETED,
           riskFactors = fs,
           modelVersion = mv,
           analysisTimeMs = 0,
           requiresManualReview = review \<rparr>)"

section \<open>Collaborators: cache, database, broker\<close>

text \<open>The cached history of a user, as typed by \<open>UserTransactionHistory\<close>.\<close>

record Statistics =
  totalTransactions :: nat
  averageAmount :: real
  maxAmount :: real
  standardDeviation :: real
  accountCreatedAt :: JsDate

record HistoryTransaction =
  txAmount :: real
  txRecipientId :: string
  txTimestamp :: JsDate
  txCountry :: "string option"

record UserTransactionHistory =
  transactions :: "HistoryTransaction list"
  statistics :: Statistics

record DeviceInfo =
  trustScore :: real

record RecipientInfo =
  isNew :: bool
  firstTransactionAt :: "JsDate option"
  recipientTotalTransactions :: nat
  riskScore :: real
  accountAge :: "real option"
  isVerified :: bool
  recipientCountry :: "string option"

datatype BlocklistType = TypeACCOUNT | TypeDEVICE | TypeIP | TypeRECIPIENT | TypeEMAIL | TypePHONE

text \<open>The cached \<open>BlocklistEntry\<close> and the persisted \<open>FraudBlocklist\<close> row.\<close>

record BlocklistEntry =
  entryId :: string
  entryType :: BlocklistType
  entryValue :: string
  entryReason :: string
  entryIsActive :: bool

record FraudBlocklist =
  rowId :: string
  rowType :: BlocklistType
  rowValue :: string
  valueHash :: string
  rowReason :: string
  isActive :: bool
  matchCount :: nat

datatype VelocityWindow = FiveMin | OneHour | TwentyFourHours

record CachedAnalysis =
  cachedDecision :: RiskDecision
  cachedScore :: number

text \<open>
  \<open>CacheService\<close> (src/src/models/ModelPerformance.ts, second document). Every method
  starts with \<open>if (!this.redis || !this.isConnected) return ...\<close> and wraps the Redis call
  in a \<open>try\<close>/\<open>catch\<close> that returns the same neutral value: \<open>redisConnected\<close> stands for
  "the client is connected and the command succeeds". An absent velocity key reads as 0.
  Expiry of keys is a step of the environment between two calls, not of the service.
\<close>

record CacheService =
  redisConnected :: bool
  userHistoryKeys :: "string \<rightharpoonup> UserTransactionHistory"
  deviceKeys :: "string \<rightharpoonup> DeviceInfo"
  recipientKeys :: "string \<rightharpoonup> RecipientInfo"
  blocklistKeys :: "BlocklistType \<times> string \<rightharpoonup> BlocklistEntry"
  velocityCountKeys :: "string \<times> VelocityWindow \<Rightarrow> nat"
  velocityAmountKeys :: "string \<times> VelocityWindow \<Rightarrow> real"
  analysisKeys :: "string \<rightharpoonup> CachedAnalysis"

datatype FraudEventType =
  FraudAnalysisComplete | FraudSuspected | FraudRejected
  | ManualReviewRequired | ManualReviewComplete | BlocklistMatch

record ManualReviewRequest =
  reviewAnalysisId :: string
  reviewTransactionId :: string
  reviewUserId :: string
  fraudScore :: number
  reviewRiskFactors :: "RiskFactor list"
  priority :: ReviewPriority

record BlocklistMatchPayload =
  matchTransactionId :: string
  matchUserId :: string
  blocklistType :: string
  blocklistId :: string
  matchReason :: string

datatype EventPayload =
  AnalysisPayload FraudAnalysisResult
  | ReviewPayload ManualReviewRequest
  | MatchPayload BlocklistMatchPayload

record KafkaMessage =
  topic :: string
  messageKey :: string
  eventType :: FraudEventType
  eventCorrelationId :: "string option"
  eventPayload :: EventPayload

text \<open>
  \<open>UAResult\<close> is what \<open>ua-parser-js\<close> returns for a user agent: browser name, the major
  version \<open>parseInt(version.split('.')[0], 10)\<close> when a version is reported and its head
  is a number, and OS name.
\<close>

record UAResult =
  browserName :: "string option"
  browserMajor :: "int option"
  osName :: "string option"

record MLModelService =
  isLoaded :: bool
  loadedVersion :: string

text \<open>
  The world the service runs in: the external pure functions (SHA-256 as hex, the user-agent
  parser), the process-wide singletons, the database, the broker, and the facts about the
  file system that \<open>loadModel\<close> consults. The database is two tables and three answers:
  \<open>databaseUp\<close> stands for "the query \<open>FraudBlocklist.findOne\<close> succeeds",
  \<open>recordMatchSucceeds\<close> for "the \<open>save()\<close> of a matched blocklist row succeeds", and
  \<open>acceptsAnalysisRow\<close> for "\<open>FraudAnalysis.create\<close> accepts these values": the columns
  \<open>id\<close>, \<open>transaction_id\<close> and \<open>user_id\<close> are of type UUID, \<open>score\<close> carries the
  validators \<open>min: 0.0\<close> and \<open>max: 1.0\<close>, \<open>model_version\<close> holds 50 characters, and how
  the library and the database read these declarations is theirs to say. The unique index
  on \<open>transaction_id\<close> is part of the model (\<open>saveAnalysis\<close>).
  \<open>producerConnected\<close> stands for \<open>this.producer && this.isConnected\<close> and a successful
  \<open>send\<close>.
\<close>

record World =
  sha256 :: "string \<Rightarrow> string"
  uaParser :: "string \<Rightarrow> UAResult"
  cacheService :: CacheService
  databaseUp :: bool
  recordMatchSucceeds :: bool
  acceptsAnalysisRow :: "FraudAnalysisResult \<Rightarrow> bool"
  fraudBlocklistTable :: "FraudBlocklist list"
  fraudAnalysisTable :: "FraudAnalysisResult list"
  producerConnected :: bool
  producedMessages :: "KafkaMessage list"
  mlModelService :: MLModelService
  modelFileExists :: bool
  modelHashValid :: bool
  fallbackModelFileExists :: bool
  inferenceFails :: bool

section \<open>Publishing (src/src/kafka/EventPublisher.ts, FraudDetectionService.publishResult)\<close>

definition publish :: "string \<Rightarrow> KafkaMessage \<Rightarrow> World \<Rightarrow> World" where
  "publish tp ev w =
     (if \<not> producerConnected w then w
      else w\<lparr>producedMessages := producedMessages w @ [ev\<lparr>topic := tp\<rparr>]\<rparr>)"

definition publishAnalysisComplete ::
  "Config \<Rightarrow> FraudAnalysisResult \<Rightarrow> string option \<Rightarrow> World \<Rightarrow> World" where
  "publishAnalysisComplete cfg result cid w =
     publish (topicFraudAnalysis cfg)
       \<lparr> topic = topicFraudAnalysis cfg, messageKey = resTransactionId result,
         eventType = FraudAnalysisComplete, eventCorrelationId = cid,
         eventPayload = AnalysisPayload result \<rparr> w"

definition publishFraudSuspected ::
  "Config \<Rightarrow> FraudAnalysisResult \<Rightarrow> string option \<Rightarrow> World \<Rightarrow> World" where
  "publishFraudSuspected cfg result cid w =
     publish (topicFraudSuspected cfg)
       \<lparr> topic = topicFraudSuspected cfg, messageKey = resTransactionId result,
         eventType = FraudSuspected, eventCorrelationId = cid,
         eventPayload = AnalysisPayload result \<rparr> w"

definition publishManualReviewRequired ::
  "Config \<Rightarrow> ManualReviewRequest \<Rightarrow> string option \<Rightarrow> World \<Rightarrow> World" where
  "publishManualReviewRequired cfg request cid w =
     publish (topicFraudManualReview cfg)
       \<lparr> topic = topicFraudManualReview cfg, messageKey = reviewTransactionId request,
         eventType = ManualReviewRequired, eventCorrelationId = cid,
         eventPayload = ReviewPayload request \<rparr> w"

text \<open>\<open>publishBlocklistMatch\<close> exists in the publisher; no function of the repository calls it.\<close>

definition publishBlocklistMatch ::
  "Config \<Rightarrow> string \<Rightarrow> string \<Rightarrow> string \<Rightarrow> string \<Rightarrow> string \<Rightarrow> string option \<Rightarrow> World \<Rightarrow> World" where
  "publishBlocklistMatch cfg tid uid btype bid rsn cid w =
     publish (topicFraudSuspected cfg)
       \<lparr> topic = topicFraudSuspected cfg, messageKey = tid,
         eventType = BlocklistMatch, eventCorrelationId = cid,
         eventPayload = MatchPayload
           \<lparr> matchTransactionId = tid, matchUserId = uid, blocklistType = btype,
             blocklistId = bid, matchReason = rsn \<rparr> \<rparr> w"

definition reviewRequestOf :: "FraudAnalysisResult \<Rightarrow> ManualReviewRequest" where
  "reviewRequestOf result =
     \<lparr> reviewAnalysisId = analysisId result,
       reviewTransactionId = resTransactionId result,
       reviewUserId = resUserId result,
       fraudScore = finalScore result,
       reviewRiskFactors = riskFactors result,
       priority = (if finalScore result > Num 0.8 then PriorityHIGH else PriorityMEDIUM) \<rparr>"

definition publishResult ::
  "Config \<Rightarrow> FraudAnalysisResult \<Rightarrow> string option \<Rightarrow> World \<Rightarrow> World" where
  "publishResult cfg result cid w =
     (if decision result = REJECT then publishFraudSuspected cfg result cid w
      else if decision result = SUSPICIOUS \<or> requiresManualReview result then
        publishManualReviewRequired cfg (reviewRequestOf result) cid
          (publishFraudSuspected cfg result cid w)
      else publishAnalysisComplete cfg result cid w)"

text \<open>
  \<open>saveAnalysis\<close>: \<open>FraudAnalysis.create\<close> inside a \<open>try\<close>/\<open>catch\<close> that only logs. The row
  is inserted when the database is reachable and accepts the values, and no row of the
  table has the same \<open>transaction_id\<close> (the unique index).
\<close>

definition saveAnalysis :: "FraudAnalysisResult \<Rightarrow> World \<Rightarrow> World" where
  "saveAnalysis result w =
     (if databaseUp w \<and> acceptsAnalysisRow w result
         \<and> resTransactionId result \<notin> set (map resTransactionId (fraudAnalysisTable w))
      then w\<lparr>fraudAnalysisTable := fraudAnalysisTable w @ [result]\<rparr>
      else w)"

section \<open>Rule checks\<close>

text \<open>
  Every rule of an analyzer returns \<open>{ detected, score, reason }\<close>, and \<open>analyze\<close> adds the
  score to its running total when \<open>detected\<close> is set.
\<close>

record Check =
  detected :: bool
  checkScore :: number

definition notDetected :: Check where
  "notDetected = \<lparr> detected = False, checkScore = Num 0 \<rparr>"

definition detectedWith :: "real \<Rightarrow> Check" where
  "detectedWith s = \<lparr> detected = True, checkScore = Num s \<rparr>"

definition addCheck :: "Check \<Rightarrow> number \<Rightarrow> number" where
  "addCheck c raw = (if detected c then raw + checkScore c else raw)"

text \<open>What a rule adds to the analyzer's raw score.\<close>

definition contribution :: "Check \<Rightarrow> number" where
  "contribution c = addCheck c (Num 0)"

text \<open>The factor returned by every analyzer's \<open>catch\<close> block.\<close>

definition analysisUnavailable :: "FraudDetectionMethod \<Rightarrow> number \<Rightarrow> RiskFactor" where
  "analysisUnavailable m w =
     \<lparr> detectionMethod = m, score = Num 0, weight = w, contributedScore = Num 0,
       details = [(''error'', DStr ''Analysis failed'')] \<rparr>"

section \<open>AmountAnalyzer (src/src/services/AmountAnalyzer.ts)\<close>

definition getDefaultStats :: "int \<Rightarrow> Statistics" where
  "getDefaultStats now =
     \<lparr> totalTransactions = 0, averageAmount = 0, maxAmount = 0, standardDeviation = 0,
       accountCreatedAt = \<lparr> getTime = now, getHours = 0, getDay = 0, getMonth = 0, getDate = 1 \<rparr> \<rparr>"

definition checkUnusualAmount :: "Config \<Rightarrow> real \<Rightarrow> Statistics \<Rightarrow> Check" where
  "checkUnusualAmount cfg amt stats =
     (if totalTransactions stats < 5 \<or> averageAmount stats = 0 then notDetected
      else let ratio = amt / averageAmount stats in
        if Num ratio \<ge> unusualMultiplier cfg * Num 2 then detectedWith 0.20
        else if Num ratio \<ge> unusualMultiplier cfg then detectedWith 0.12
        else notDetected)"

definition checkExceedsMax :: "real \<Rightarrow> Statistics \<Rightarrow> Check" where
  "checkExceedsMax amt stats =
     (if totalTransactions stats < 3 \<or> maxAmount stats = 0 then notDetected
      else if amt > maxAmount stats * 2 then detectedWith 0.15
      else if amt > maxAmount stats * 1.5 then detectedWith 0.08
      else notDetected)"

definition checkAbsoluteLarge :: "Config \<Rightarrow> real \<Rightarrow> Check" where
  "checkAbsoluteLarge cfg amt =
     (if Num amt \<ge> largeTransferMin cfg * Num 10 then detectedWith 0.12
      else if Num amt \<ge> largeTransferMin cfg * Num 5 then detectedWith 0.08
      else if Num amt \<ge> largeTransferMin cfg then detectedWith 0.04
      else notDetected)"

definition roundThresholds :: "real list" where
  "roundThresholds = [1000, 2000, 5000, 10000, 20000, 50000, 100000]"

definition checkRoundNumber :: "real \<Rightarrow> Check" where
  "checkRoundNumber amt =
     (if amt \<in> set roundThresholds then detectedWith 0.05
      else if amt \<ge> 500 \<and> amt / 100 = of_int \<lfloor>amt / 100\<rfloor> then detectedWith 0.03
      else notDetected)"

definition checkBelowReportingThreshold :: "real \<Rightarrow> Check" where
  "checkBelowReportingThreshold amt =
     (if amt \<ge> 9000 \<and> amt < 10000 then detectedWith 0.15
      else if amt \<ge> 4800 \<and> amt < 5000 then detectedWith 0.08
      else if amt \<ge> 2900 \<and> amt < 3000 then detectedWith 0.05
      else notDetected)"

text \<open>\<open>checkZScore\<close> divides by \<open>standardDeviation\<close>; its only caller guards the call.\<close>

definition checkZScore :: "real \<Rightarrow> Statistics \<Rightarrow> Check" where
  "checkZScore amt stats =
     (let zScore = (amt - averageAmount stats) / standardDeviation stats in
        if zScore \<ge> 4 then detectedWith 0.18
        else if zScore \<ge> 3 then detectedWith 0.12
        else if zScore \<ge> 2 then detectedWith 0.06
        else notDetected)"

definition msPerDay :: real where
  "msPerDay = 1000 * 60 * 60 * 24"

definition isNewAccount :: "int \<Rightarrow> Statistics \<Rightarrow> bool" where
  "isNewAccount now stats =
     (real_of_int (now - getTime (accountCreatedAt stats)) / msPerDay < 30)"

text \<open>The z-score rule as \<open>analyze\<close> applies it: only under \<open>standardDeviation > 0\<close>.\<close>

definition zScoreRule :: "real \<Rightarrow> Statistics \<Rightarrow> Check" where
  "zScoreRule amt stats =
     (if standardDeviation stats > 0 then checkZScore amt stats else notDetected)"

definition newAccountLarge :: "int \<Rightarrow> real \<Rightarrow> Statistics \<Rightarrow> Check" where
  "newAccountLarge now amt stats =
     (if isNewAccount now stats \<and> amt > 1000 then detectedWith 0.08 else notDetected)"

definition amountRawScore :: "Config \<Rightarrow> int \<Rightarrow> real \<Rightarrow> Statistics \<Rightarrow> number" where
  "amountRawScore cfg now amt stats =
     mathMin (addCheck (newAccountLarge now amt stats)
           (addCheck (zScoreRule amt stats)
             (addCheck (checkBelowReportingThreshold amt)
               (addCheck (checkRoundNumber amt)
                 (addCheck (checkAbsoluteLarge cfg amt)
                   (addCheck (checkExceedsMax amt stats)
                     (addCheck (checkUnusualAmount cfg amt stats) (Num 0)))))))) (Num 0.40)"

definition amountAnalyze ::
  "Config \<Rightarrow> int \<Rightarrow> real \<Rightarrow> UserTransactionHistory option \<Rightarrow> RiskFactor" where
  "amountAnalyze cfg now amt userHistory =
     (let stats = (case userHistory of None \<Rightarrow> getDefaultStats now | Some h \<Rightarrow> statistics h);
          raw = amountRawScore cfg now amt stats
      in \<lparr> detectionMethod = AMOUNT, score = raw, weight = amountWeight cfg,
           contributedScore = raw * amountWeight cfg, details = [] \<rparr>)"

section \<open>VelocityAnalyzer (src/src/services/AmountAnalyzer.ts, second document)\<close>

definition getVelocity :: "CacheService \<Rightarrow> string \<Rightarrow> VelocityWindow \<Rightarrow> nat \<times> real" where
  "getVelocity cs uid win =
     (if \<not> redisConnected cs then (0, 0)
      else (velocityCountKeys cs (uid, win), velocityAmountKeys cs (uid, win)))"

definition incrementVelocity ::
  "string \<Rightarrow> VelocityWindow \<Rightarrow> real \<Rightarrow> CacheService \<Rightarrow> CacheService" where
  "incrementVelocity uid win amt cs =
     (if \<not> redisConnected cs then cs
      else cs\<lparr> velocityCountKeys := (velocityCountKeys cs)((uid, win) := velocityCountKeys cs (uid, win) + 1),
               velocityAmountKeys := (velocityAmountKeys cs)((uid, win) := velocityAmountKeys cs (uid, win) + amt) \<rparr>)"

record VelocityData =
  transactionsFiveMin :: nat
  transactionsOneHour :: nat
  transactionsTwentyFourHours :: nat
  amountFiveMin :: real
  amountOneHour :: real
  amountTwentyFourHours :: real
  uniqueRecipientsFiveMin :: nat

definition getVelocityData :: "CacheService \<Rightarrow> string \<Rightarrow> VelocityData" where
  "getVelocityData cs uid =
     \<lparr> transactionsFiveMin = fst (getVelocity cs uid FiveMin),
       transactionsOneHour = fst (getVelocity cs uid OneHour),
       transactionsTwentyFourHours = fst (getVelocity cs uid TwentyFourHours),
       amountFiveMin = snd (getVelocity cs uid FiveMin),
       amountOneHour = snd (getVelocity cs uid OneHour),
       amountTwentyFourHours = snd (getVelocity cs uid TwentyFourHours),
       uniqueRecipientsFiveMin = 0 \<rparr>"

text \<open>
  \<open>Math.min(count / max, 2.0)\<close> for a count and a configured maximum. Over a maximum of 0 a
  positive count gives \<open>Infinity\<close>, whose minimum with 2.0 is 2.0, and a count of 0 gives
  \<open>0 / 0\<close>, which is NaN, as is its minimum with 2.0.
\<close>

definition severity :: "nat \<Rightarrow> number \<Rightarrow> number" where
  "severity n maxN =
     (case maxN of
        NaN \<Rightarrow> NaN
      | Num m \<Rightarrow> if m = 0 then (if n = 0 then NaN else Num 2.0)
                 else Num (min (real n / m) 2.0))"

text \<open>One window of \<open>analyze\<close>: \<open>if (count >= max) totalScore += weight * severity\<close>.\<close>

definition windowScore :: "nat \<Rightarrow> number \<Rightarrow> number \<Rightarrow> number \<Rightarrow> number" where
  "windowScore n maxN w raw =
     (if Num (real n) \<ge> maxN then raw + w * severity n maxN else raw)"

definition checkAmountSpike :: "VelocityData \<Rightarrow> real \<Rightarrow> Check" where
  "checkAmountSpike vd currentAmount =
     (if transactionsTwentyFourHours vd > 0 then
        (let avgDailyAmount = amountTwentyFourHours vd / real (transactionsTwentyFourHours vd);
             recentTotalWithCurrent = amountFiveMin vd + currentAmount
         in if recentTotalWithCurrent > avgDailyAmount * 10 then detectedWith 0.12
            else notDetected)
      else notDetected)"

definition checkRapidDiverseTransfers :: "VelocityData \<Rightarrow> Check" where
  "checkRapidDiverseTransfers vd =
     (if transactionsFiveMin vd \<ge> 3 \<and> uniqueRecipientsFiveMin vd \<ge> 3 then detectedWith 0.10
      else notDetected)"

definition velocityRawScore :: "Config \<Rightarrow> VelocityData \<Rightarrow> real \<Rightarrow> number" where
  "velocityRawScore cfg vd amt =
     mathMin (addCheck (checkRapidDiverseTransfers vd)
           (addCheck (checkAmountSpike vd amt)
             (windowScore (transactionsTwentyFourHours vd) (maxTransfersPerDay cfg)
                 (velocityWeightTwentyFourHours cfg)
               (windowScore (transactionsOneHour vd) (maxTransfersPerHour cfg)
                   (velocityWeightOneHour cfg)
                 (windowScore (transactionsFiveMin vd) (maxTransfersPerFiveMin cfg)
                   (velocityWeightFiveMinute cfg) (Num 0)))))) (Num 0.45)"

definition velocityDetails :: "VelocityData \<Rightarrow> real \<Rightarrow> (string \<times> DetailValue) list" where
  "velocityDetails vd amt =
     [(''transactionsFiveMin'', DNum (real (transactionsFiveMin vd + 1))),
      (''transactionsOneHour'', DNum (real (transactionsOneHour vd + 1))),
      (''transactionsTwentyFourHours'', DNum (real (transactionsTwentyFourHours vd + 1))),
      (''amountFiveMin'', DNum (amountFiveMin vd + amt)),
      (''amountOneHour'', DNum (amountOneHour vd + amt)),
      (''amountTwentyFourHours'', DNum (amountTwentyFourHours vd + amt))]"

text \<open>\<open>analyze\<close> reads the three windows first and increments them before scoring.\<close>

definition velocityAnalyze ::
  "Config \<Rightarrow> string \<Rightarrow> real \<Rightarrow> CacheService \<Rightarrow> RiskFactor \<times> CacheService" where
  "velocityAnalyze cfg uid amt cs =
     (let vd = getVelocityData cs uid;
          cs' = incrementVelocity uid TwentyFourHours amt
                  (incrementVelocity uid OneHour amt (incrementVelocity uid FiveMin amt cs));
          raw = velocityRawScore cfg vd amt
      in (\<lparr> detectionMethod = VELOCITY, score = raw, weight = Num 1.0, contributedScore = raw,
            details = velocityDetails vd amt \<rparr>, cs'))"

section \<open>GeographicAnalyzer (src/unnamed/part_003, second document)\<close>

text \<open>\<open>GeoLocation\<close>; a JavaScript string is truthy when it is not empty, a number when not 0.\<close>

record GeoLocation =
  geoIp :: "string option"
  geoCountry :: "string option"
  geoCity :: "string option"
  geoLatitude :: "real option"
  geoLongitude :: "real option"

definition truthyString :: "string option \<Rightarrow> bool" where
  "truthyString v = (case v of None \<Rightarrow> False | Some s \<Rightarrow> s \<noteq> [])"

definition truthyNumber :: "real option \<Rightarrow> bool" where
  "truthyNumber v = (case v of None \<Rightarrow> False | Some x \<Rightarrow> x \<noteq> 0)"

definition msPerHour :: real where
  "msPerHour = 1000 * 60 * 60"

text \<open>
  \<open>checkImpossibleTravel\<close>: the first history transaction that carries a country, and the
  hours between it and now.
\<close>

definition checkImpossibleTravel ::
  "Config \<Rightarrow> int \<Rightarrow> GeoLocation \<Rightarrow> UserTransactionHistory \<Rightarrow> Check" where
  "checkImpossibleTravel cfg now loc h =
     (if \<not> truthyNumber (geoLatitude loc) \<or> \<not> truthyNumber (geoLongitude loc)
      then notDetected
      else case find (\<lambda>tx. txCountry tx \<noteq> None) (transactions h) of
        None \<Rightarrow> notDetected
      | Some recentTx \<Rightarrow>
          if truthyString (txCountry recentTx) \<and> truthyString (geoCountry loc)
             \<and> txCountry recentTx \<noteq> geoCountry loc
             \<and> Num (real_of_int (now - getTime (txTimestamp recentTx)) / msPerHour)
                 < impossibleTravelHours cfg
          then detectedWith 0.35
          else notDetected)"

definition checkNewCountry :: "GeoLocation \<Rightarrow> string list \<Rightarrow> Check" where
  "checkNewCountry loc knownCountries =
     (if \<not> truthyString (geoCountry loc) then notDetected
      else if the (geoCountry loc) \<notin> set knownCountries \<and> length knownCountries > 0
        then detectedWith 0.15
      else notDetected)"

definition highRiskCountries :: "(string \<times> real) list" where
  "highRiskCountries =
     [(''NG'', 0.12), (''RU'', 0.10), (''CN'', 0.08), (''VN'', 0.08),
      (''IN'', 0.05), (''PH'', 0.06), (''UA'', 0.08), (''RO'', 0.07)]"

text \<open>
  The table of \<open>checkHighRiskCountry\<close> is an object literal indexed by the country string,
  so besides its own eight keys it answers to the property names that every object
  inherits from \<open>Object.prototype\<close>. Such a lookup returns a function (for \<open>__proto__\<close>,
  the prototype itself): a truthy value without \<open>score\<close>. The rule is then detected with
  the score \<open>undefined\<close>, and \<open>totalScore += undefined\<close> makes the total NaN.
\<close>

definition objectPrototypeKeys :: "string list" where
  "objectPrototypeKeys =
     [''constructor'', ''__defineGetter__'', ''__defineSetter__'', ''hasOwnProperty'',
      ''__lookupGetter__'', ''__lookupSetter__'', ''isPrototypeOf'', ''propertyIsEnumerable'',
      ''toString'', ''valueOf'', ''__proto__'', ''toLocaleString'']"

definition checkHighRiskCountry :: "GeoLocation \<Rightarrow> Check" where
  "checkHighRiskCountry loc =
     (if \<not> truthyString (geoCountry loc) then notDetected
      else case map_of highRiskCountries (the (geoCountry loc)) of
        Some riskScoreOfCountry \<Rightarrow> detectedWith riskScoreOfCountry
      | None \<Rightarrow>
          if the (geoCountry loc) \<in> set objectPrototypeKeys
          then \<lparr> detected = True, checkScore = NaN \<rparr>
          else notDetected)"

definition checkVPNIndicators :: Check where
  "checkVPNIndicators = notDetected"

definition geographicRawScore ::
  "Config \<Rightarrow> int \<Rightarrow> GeoLocation \<Rightarrow> UserTransactionHistory option \<Rightarrow> string list \<Rightarrow> number" where
  "geographicRawScore cfg now loc userHistory knownCountries =
     (let t1 = (case userHistory of
                  None \<Rightarrow> Num 0
                | Some h \<Rightarrow> if length (transactions h) > 0
                            then addCheck (checkImpossibleTravel cfg now loc h) (Num 0) else Num 0);
          t2 = addCheck (checkNewCountry loc knownCountries) t1;
          t3 = addCheck (checkHighRiskCountry loc) t2;
          t4 = (if truthyString (geoIp loc) then addCheck checkVPNIndicators t3 else t3)
      in mathMin t4 (Num 0.50))"

definition geographicAnalyze ::
  "Config \<Rightarrow> int \<Rightarrow> GeoLocation \<Rightarrow> UserTransactionHistory option \<Rightarrow> string list \<Rightarrow> RiskFactor" where
  "geographicAnalyze cfg now loc userHistory knownCountries =
     (let raw = geographicRawScore cfg now loc userHistory knownCountries
      in \<lparr> detectionMethod = GEOGRAPHIC, score = raw, weight = geographicWeight cfg,
           contributedScore = raw * geographicWeight cfg, details = [] \<rparr>)"

section \<open>TimeAnalyzer (src/src/services/TimeAnalyzer.ts, first document)\<close>

text \<open>
  The calendar fields of the transaction's date as \<open>analyze\<close> reads them: \<open>getHours()\<close>,
  \<open>getDay()\<close>, \<open>getMonth()\<close> and \<open>getDate()\<close> of an invalid date are NaN.
\<close>

definition ofNat :: "nat \<Rightarrow> number" where
  "ofNat n = Num (real n)"

definition hoursOf :: "JsDate option \<Rightarrow> number" where
  "hoursOf d = (case d of None \<Rightarrow> NaN | Some t \<Rightarrow> ofNat (getHours t))"

definition dayOf :: "JsDate option \<Rightarrow> number" where
  "dayOf d = (case d of None \<Rightarrow> NaN | Some t \<Rightarrow> ofNat (getDay t))"

definition monthOf :: "JsDate option \<Rightarrow> number" where
  "monthOf d = (case d of None \<Rightarrow> NaN | Some t \<Rightarrow> ofNat (getMonth t))"

definition dateOf :: "JsDate option \<Rightarrow> number" where
  "dateOf d = (case d of None \<Rightarrow> NaN | Some t \<Rightarrow> ofNat (getDate t))"

text \<open>
  \<open>getMinHourDistance\<close>: the loop over the preferred hours, starting from 24; one step is
  \<open>Math.min(Math.abs(hour - prefHour), 24 - Math.abs(hour - prefHour))\<close>.
\<close>

definition hourDistance :: "number \<Rightarrow> nat \<Rightarrow> number" where
  "hourDistance hour prefHour =
     (case hour of
        NaN \<Rightarrow> NaN
      | Num h \<Rightarrow> Num (min \<bar>h - real prefHour\<bar> (24 - \<bar>h - real prefHour\<bar>)))"

definition getMinHourDistance :: "number \<Rightarrow> nat list \<Rightarrow> number" where
  "getMinHourDistance hour preferredHours =
     foldl (\<lambda>minDistance prefHour. mathMin minDistance (hourDistance hour prefHour))
       (Num 24) preferredHours"

text \<open>\<open>preferredHours.includes(hour)\<close> on a list of integers: NaN is not among them.\<close>

definition includesNumber :: "nat list \<Rightarrow> number \<Rightarrow> bool" where
  "includesNumber xs x = (x \<in> set (map ofNat xs))"

definition checkUnusualHour :: "number \<Rightarrow> nat list \<Rightarrow> Check" where
  "checkUnusualHour hour preferredHours =
     (if length preferredHours = 0 then
        (if hour \<ge> Num 1 \<and> hour \<le> Num 5 then detectedWith 0.06 else notDetected)
      else if \<not> includesNumber preferredHours hour then
        (if getMinHourDistance hour preferredHours \<ge> Num 6 then detectedWith 0.10
         else if getMinHourDistance hour preferredHours \<ge> Num 3 then detectedWith 0.05
         else notDetected)
      else notDetected)"

definition checkUnusualDay :: "number \<Rightarrow> nat list \<Rightarrow> Check" where
  "checkUnusualDay day preferredDays =
     (if length preferredDays = 0 then notDetected
      else if \<not> includesNumber preferredDays day then
        (if (day = Num 0 \<or> day = Num 6)
            \<and> \<not> includesNumber preferredDays (Num 0) \<and> \<not> includesNumber preferredDays (Num 6)
         then detectedWith 0.06
         else detectedWith 0.04)
      else notDetected)"

definition checkLateNight :: "number \<Rightarrow> Check" where
  "checkLateNight hour =
     (if hour \<ge> Num 2 \<and> hour \<le> Num 5 then detectedWith 0.08
      else if hour \<ge> Num 0 \<and> hour \<le> Num 1 then detectedWith 0.04
      else notDetected)"

definition checkWeekendPattern :: "number \<Rightarrow> UserTransactionHistory option \<Rightarrow> Check" where
  "checkWeekendPattern day userHistory =
     (case userHistory of
        None \<Rightarrow> notDetected
      | Some h \<Rightarrow>
          if length (transactions h) < 10 then notDetected
          else if \<not> (day = Num 0 \<or> day = Num 6) then notDetected
          else if totalTransactions (statistics h) \<ge> 50
                  \<and> length (filter (\<lambda>tx. getDay (txTimestamp tx) = 0 \<or> getDay (txTimestamp tx) = 6)
                              (transactions h)) = 0
            then detectedWith 0.08
          else notDetected)"

text \<open>Months are 0-indexed: New Year's Day, Independence Day, Christmas, New Year's Eve.\<close>

definition holidays :: "(nat \<times> nat) list" where
  "holidays = [(0, 1), (6, 4), (11, 25), (11, 31)]"

definition checkHoliday :: "JsDate option \<Rightarrow> Check" where
  "checkHoliday ts =
     (if list_ex (\<lambda>holiday. monthOf ts = ofNat (fst holiday) \<and> dateOf ts = ofNat (snd holiday))
           holidays
      then detectedWith 0.04 else notDetected)"

definition checkActivityBurst :: "int \<Rightarrow> number \<Rightarrow> UserTransactionHistory option \<Rightarrow> Check" where
  "checkActivityBurst now hour userHistory =
     (case userHistory of
        None \<Rightarrow> notDetected
      | Some h \<Rightarrow>
          if hour \<ge> Num 1 \<and> hour \<le> Num 5
             \<and> length (filter (\<lambda>tx. getTime (txTimestamp tx) > now - 60 * 60 * 1000)
                         (transactions h)) \<ge> 3
          then detectedWith 0.10
          else notDetected)"

definition timeRawScore ::
  "int \<Rightarrow> JsDate option \<Rightarrow> UserTransactionHistory option \<Rightarrow> nat list \<Rightarrow> nat list \<Rightarrow> number" where
  "timeRawScore now ts userHistory preferredHours preferredDays =
     mathMin (addCheck (checkActivityBurst now (hoursOf ts) userHistory)
           (addCheck (checkHoliday ts)
             (addCheck (checkWeekendPattern (dayOf ts) userHistory)
               (addCheck (checkLateNight (hoursOf ts))
                 (addCheck (checkUnusualDay (dayOf ts) preferredDays)
                   (addCheck (checkUnusualHour (hoursOf ts) preferredHours) (Num 0))))))) (Num 0.25)"

definition timeAnalyze ::
  "Config \<Rightarrow> int \<Rightarrow> JsDate option \<Rightarrow> UserTransactionHistory option \<Rightarrow> nat list \<Rightarrow> nat list
     \<Rightarrow> RiskFactor" where
  "timeAnalyze cfg now ts userHistory preferredHours preferredDays =
     (let raw = timeRawScore now ts userHistory preferredHours preferredDays
      in \<lparr> detectionMethod = TIME, score = raw, weight = timeWeight cfg,
           contributedScore = raw * timeWeight cfg, details = [] \<rparr>)"

text \<open>
  \<open>buildPreferredHours\<close> and \<open>buildPreferredDays\<close>: the hours (days) that hold at least
  10% (5%) of the history's transactions, for a history of at least 10 transactions.
\<close>

definition buildPreferredHours :: "UserTransactionHistory option \<Rightarrow> nat list" where
  "buildPreferredHours userHistory =
     (case userHistory of
        None \<Rightarrow> []
      | Some h \<Rightarrow>
          if length (transactions h) < 10 then []
          else filter
                 (\<lambda>hour. real (length (filter (\<lambda>tx. getHours (txTimestamp tx) = hour) (transactions h)))
                           \<ge> real (length (transactions h)) * 0.1)
                 [0..<24])"

definition buildPreferredDays :: "UserTransactionHistory option \<Rightarrow> nat list" where
  "buildPreferredDays userHistory =
     (case userHistory of
        None \<Rightarrow> []
      | Some h \<Rightarrow>
          if length (transactions h) < 10 then []
          else filter
                 (\<lambda>day. real (length (filter (\<lambda>tx. getDay (txTimestamp tx) = day) (transactions h)))
                          \<ge> real (length (transactions h)) * 0.05)
                 [0..<7])"

section \<open>Cache lookups used by the analyzers (CacheService)\<close>

text \<open>\<open>hashValue\<close> of the cache service: the first 16 hex characters of the SHA-256.\<close>

definition cacheHashValue :: "World \<Rightarrow> string \<Rightarrow> string" where
  "cacheHashValue w v = take 16 (sha256 w v)"

text \<open>
  \<open>isInBlocklist\<close> hashes the value inside its \<open>try\<close>: a value that is not a string makes
  the hash throw, and the method returns \<open>null\<close>.
\<close>

definition isInBlocklist :: "World \<Rightarrow> BlocklistType \<Rightarrow> string option \<Rightarrow> BlocklistEntry option" where
  "isInBlocklist w ty v =
     (if \<not> redisConnected (cacheService w) then None
      else case v of
        None \<Rightarrow> None
      | Some s \<Rightarrow> blocklistKeys (cacheService w) (ty, cacheHashValue w s))"

definition addToBlocklistCache :: "BlocklistEntry \<Rightarrow> World \<Rightarrow> World" where
  "addToBlocklistCache entry w =
     (if \<not> redisConnected (cacheService w) then w
      else w\<lparr>cacheService := (cacheService w)
             \<lparr>blocklistKeys := (blocklistKeys (cacheService w))
                ((entryType entry, cacheHashValue w (entryValue entry)) \<mapsto> entry)\<rparr>\<rparr>)"

definition getRecipientInfo :: "World \<Rightarrow> string \<Rightarrow> RecipientInfo option" where
  "getRecipientInfo w rid =
     (if \<not> redisConnected (cacheService w) then None else recipientKeys (cacheService w) rid)"

definition setRecipientInfo :: "string \<Rightarrow> RecipientInfo \<Rightarrow> World \<Rightarrow> World" where
  "setRecipientInfo rid info w =
     (if \<not> redisConnected (cacheService w) then w
      else w\<lparr>cacheService := (cacheService w)
             \<lparr>recipientKeys := (recipientKeys (cacheService w))(rid \<mapsto> info)\<rparr>\<rparr>)"

definition getDeviceInfo :: "World \<Rightarrow> string \<Rightarrow> DeviceInfo option" where
  "getDeviceInfo w fp =
     (if \<not> redisConnected (cacheService w) then None
      else deviceKeys (cacheService w) (cacheHashValue w fp))"

definition setDeviceInfo :: "string \<Rightarrow> DeviceInfo \<Rightarrow> World \<Rightarrow> World" where
  "setDeviceInfo fp info w =
     (if \<not> redisConnected (cacheService w) then w
      else w\<lparr>cacheService := (cacheService w)
             \<lparr>deviceKeys := (deviceKeys (cacheService w))(cacheHashValue w fp \<mapsto> info)\<rparr>\<rparr>)"

definition getUserHistory :: "World \<Rightarrow> string \<Rightarrow> UserTransactionHistory option" where
  "getUserHistory w uid =
     (if \<not> redisConnected (cacheService w) then None else userHistoryKeys (cacheService w) uid)"

definition getCachedAnalysis :: "World \<Rightarrow> string \<Rightarrow> CachedAnalysis option" where
  "getCachedAnalysis w tid =
     (if \<not> redisConnected (cacheService w) then None else analysisKeys (cacheService w) tid)"

definition cacheAnalysis :: "string \<Rightarrow> CachedAnalysis \<Rightarrow> World \<Rightarrow> World" where
  "cacheAnalysis tid res w =
     (if \<not> redisConnected (cacheService w) then w
      else w\<lparr>cacheService := (cacheService w)
             \<lparr>analysisKeys := (analysisKeys (cacheService w))(tid \<mapsto> res)\<rparr>\<rparr>)"

text \<open>
  \<open>FraudBlocklist.recordMatch\<close>: \<open>matchCount += 1\<close> on the row, then \<open>save()\<close>. The
  function is the effect of a \<open>save()\<close> that succeeds; its callers ask \<open>recordMatchSucceeds\<close>.
\<close>

definition recordMatch :: "FraudBlocklist \<Rightarrow> World \<Rightarrow> World" where
  "recordMatch row w =
     w\<lparr>fraudBlocklistTable :=
         map (\<lambda>r. if rowId r = rowId row then r\<lparr>matchCount := matchCount r + 1\<rparr> else r)
             (fraudBlocklistTable w)\<rparr>"

definition entryOfRow :: "FraudBlocklist \<Rightarrow> BlocklistType \<Rightarrow> bool \<Rightarrow> BlocklistEntry" where
  "entryOfRow row ty act =
     \<lparr> entryId = rowId row, entryType = ty, entryValue = rowValue row,
       entryReason = rowReason row, entryIsActive = act \<rparr>"

section \<open>RecipientAnalyzer (src/src/services/RecipientAnalyzer.ts)\<close>

definition cachedActive :: "BlocklistEntry option \<Rightarrow> bool" where
  "cachedActive e = (case e of None \<Rightarrow> False | Some b \<Rightarrow> entryIsActive b)"

text \<open>
  \<open>checkBlocklist\<close>: the cache under RECIPIENT, the cache under ACCOUNT, then the two
  hashes and one database query for an active row whose hash is one of them; a row found
  is cached and its match is recorded. Everything is inside one \<open>try\<close> whose \<open>catch\<close>
  reports "not detected": this is the answer when the account is not a string (its hash
  throws before the query), when the query fails, and when the \<open>save()\<close> of the match fails
  (after the row has been cached).
\<close>

definition recipientCheckBlocklist :: "string \<Rightarrow> string option \<Rightarrow> World \<Rightarrow> bool \<times> World" where
  "recipientCheckBlocklist rid acc w =
     (if cachedActive (isInBlocklist w TypeRECIPIENT (Some rid)) then (True, w)
      else if cachedActive (isInBlocklist w TypeACCOUNT acc) then (True, w)
      else case acc of
        None \<Rightarrow> (False, w)
      | Some account \<Rightarrow>
          if \<not> databaseUp w then (False, w)
          else case find (\<lambda>r. valueHash r \<in> {sha256 w rid, sha256 w account} \<and> isActive r)
                      (fraudBlocklistTable w) of
            Some row \<Rightarrow>
              (let w1 = addToBlocklistCache (entryOfRow row (rowType row) (isActive row)) w
               in if recordMatchSucceeds w1 then (True, recordMatch row w1) else (False, w1))
          | None \<Rightarrow> (False, w))"

definition unknownRecipient :: RecipientInfo where
  "unknownRecipient =
     \<lparr> isNew = True, firstTransactionAt = None, recipientTotalTransactions = 0,
       riskScore = 0.2, accountAge = None, isVerified = False, recipientCountry = None \<rparr>"

definition computeRecipientInfo ::
  "Config \<Rightarrow> string \<Rightarrow> UserTransactionHistory option \<Rightarrow> RecipientInfo" where
  "computeRecipientInfo cfg rid userHistory =
     (case userHistory of
        None \<Rightarrow> unknownRecipient
      | Some h \<Rightarrow>
          (let recipientTx = filter (\<lambda>tx. txRecipientId tx = rid) (transactions h) in
           case recipientTx of
             [] \<Rightarrow> unknownRecipient
           | tx0 # _ \<Rightarrow>
               \<lparr> isNew = False,
                 firstTransactionAt = Some (txTimestamp
                   (foldl (\<lambda>earliest tx.
                       if getTime (txTimestamp tx) < getTime (txTimestamp earliest) then tx else earliest)
                     tx0 recipientTx)),
                 recipientTotalTransactions = length recipientTx,
                 riskScore = (if ofNat (length recipientTx) \<ge> trustedRecipientMinTransfers cfg then 0.05
                              else if length recipientTx \<ge> 2 then 0.10 else 0.2),
                 accountAge = None, isVerified = True, recipientCountry = None \<rparr>))"

definition checkNewRecipient ::
  "Config \<Rightarrow> int \<Rightarrow> string \<Rightarrow> RecipientInfo option \<Rightarrow> string list \<Rightarrow> Check" where
  "checkNewRecipient cfg now rid recipientInfo trustedRecipients =
     (if rid \<in> set trustedRecipients then notDetected
      else case recipientInfo of
        None \<Rightarrow> detectedWith 0.15
      | Some info \<Rightarrow>
          if isNew info then detectedWith 0.15
          else (case firstTransactionAt info of
                  None \<Rightarrow> notDetected
                | Some firstAt \<Rightarrow>
                    if Num (real_of_int (now - getTime firstAt) / msPerDay) < newRecipientDays cfg
                       \<and> recipientTotalTransactions info < 3
                    then detectedWith 0.10
                    else notDetected))"

definition countRecentNewRecipients :: "int \<Rightarrow> UserTransactionHistory \<Rightarrow> nat" where
  "countRecentNewRecipients now h =
     (let oneDayAgo = now - 24 * 60 * 60 * 1000;
          recentRecipients =
            remdups (map txRecipientId
              (filter (\<lambda>tx. getTime (txTimestamp tx) > oneDayAgo) (transactions h)));
          establishedRecipients =
            set (map txRecipientId
              (filter (\<lambda>tx. getTime (txTimestamp tx) \<le> oneDayAgo) (transactions h)))
      in length (filter (\<lambda>recipient. recipient \<notin> establishedRecipients) recentRecipients))"

definition recipientHighRiskCountries :: "string list" where
  "recipientHighRiskCountries = [''NG'', ''RU'', ''VN'', ''UA'', ''RO'']"

text \<open>
  The part of \<open>analyze\<close> after the blocklist check. A statement \<open>if (c) totalScore += x\<close>
  is written \<open>totalScore + (if c then x else 0)\<close>.
\<close>

definition recipientRawScore ::
  "Config \<Rightarrow> int \<Rightarrow> string \<Rightarrow> RecipientInfo option \<Rightarrow> UserTransactionHistory option
     \<Rightarrow> string list \<Rightarrow> number" where
  "recipientRawScore cfg now rid recipientInfo userHistory trustedRecipients =
     (let isNewRecipient = checkNewRecipient cfg now rid recipientInfo trustedRecipients;
          t1 = addCheck isNewRecipient (Num 0);
          t2 = t1 + Num (case recipientInfo of
                       Some info \<Rightarrow> if riskScore info > 0.3 then riskScore info * 0.2 else 0
                     | None \<Rightarrow> 0);
          t3 = t2 + Num (case recipientInfo of
                       Some info \<Rightarrow>
                         (case accountAge info of
                            Some age \<Rightarrow> if age < 30 then 0.10 else 0
                          | None \<Rightarrow> 0)
                     | None \<Rightarrow> 0);
          t4 = t3 + Num (case recipientInfo of
                       Some info \<Rightarrow>
                         if truthyString (recipientCountry info)
                            \<and> the (recipientCountry info) \<in> set recipientHighRiskCountries
                         then 0.08 else 0
                     | None \<Rightarrow> 0);
          t5 = t4 + Num (case recipientInfo of
                       Some info \<Rightarrow> if \<not> isVerified info then 0.05 else 0
                     | None \<Rightarrow> 0);
          t6 = t5 + Num (case userHistory of
                       Some h \<Rightarrow>
                         if detected isNewRecipient \<and> countRecentNewRecipients now h \<ge> 3
                         then 0.12 else 0
                     | None \<Rightarrow> 0)
      in mathMin t6 (Num 0.45))"


definition recipientAnalyze ::
  "Config \<Rightarrow> int \<Rightarrow> string \<Rightarrow> string option \<Rightarrow> UserTransactionHistory option \<Rightarrow> string list
     \<Rightarrow> World \<Rightarrow> RiskFactor \<times> World" where
  "recipientAnalyze cfg now rid acc userHistory trustedRecipients w =
     (case recipientCheckBlocklist rid acc w of
        (True, w1) \<Rightarrow>
          (\<lparr> detectionMethod = RECIPIENT, score = Num 1.0, weight = recipientWeight cfg,
             contributedScore = Num 1.0, details = [(''blocked'', DBool True)] \<rparr>, w1)
      | (False, w1) \<Rightarrow>
          (case getRecipientInfo w1 rid of
             Some info \<Rightarrow>
               (let raw = recipientRawScore cfg now rid (Some info) userHistory trustedRecipients
                in (\<lparr> detectionMethod = RECIPIENT, score = raw, weight = recipientWeight cfg,
                      contributedScore = raw * recipientWeight cfg, details = [] \<rparr>, w1))
           | None \<Rightarrow>
               (let info = computeRecipientInfo cfg rid userHistory;
                    raw = recipientRawScore cfg now rid (Some info) userHistory trustedRecipients
                in (\<lparr> detectionMethod = RECIPIENT, score = raw, weight = recipientWeight cfg,
                      contributedScore = raw * recipientWeight cfg, details = [] \<rparr>,
                    setRecipientInfo rid info w1))))"

section \<open>DeviceAnalyzer (src/unnamed/part_003, third document)\<close>

text \<open>
  \<open>analyze(userId, transactionId, deviceFingerprint, userAgent, knownDevices, userHistory)\<close>
  declares \<open>knownDevices: string[]\<close>. The orchestrator's call passes a seventh argument,
  \<open>deviceId\<close>, before \<open>knownDevices\<close>; JavaScript binds by position, so there the parameter
  \<open>knownDevices\<close> holds \<open>transaction.device?.deviceId\<close> (a string or \<open>undefined\<close>) and
  \<open>userHistory\<close> holds the empty array. The model covers the values both parameters can hold:
  \<open>includes\<close> and \<open>length\<close> exist on arrays and on strings and raise a TypeError on
  \<open>undefined\<close>; an array is truthy and has no \<open>statistics\<close>. A raised TypeError is \<open>None\<close>.
\<close>

datatype KnownDevices = DeviceArray "string list" | DeviceString string | DeviceUndefined

datatype HistoryArgument = HistoryNull | HistoryObject UserTransactionHistory | HistoryEmptyArray

fun includesString :: "string \<Rightarrow> string \<Rightarrow> bool" where
  "includesString [] p = (p = [])"
| "includesString (c # s) p = (take (length p) (c # s) = p \<or> includesString s p)"

definition knownIncludes :: "KnownDevices \<Rightarrow> string \<Rightarrow> bool option" where
  "knownIncludes k fp =
     (case k of
        DeviceArray xs \<Rightarrow> Some (fp \<in> set xs)
      | DeviceString s \<Rightarrow> Some (includesString s fp)
      | DeviceUndefined \<Rightarrow> None)"

definition knownLength :: "KnownDevices \<Rightarrow> nat option" where
  "knownLength k =
     (case k of
        DeviceArray xs \<Rightarrow> Some (length xs)
      | DeviceString s \<Rightarrow> Some (length s)
      | DeviceUndefined \<Rightarrow> None)"

definition toLowerChar :: "char \<Rightarrow> char" where
  "toLowerChar c =
     (if 65 \<le> (of_char c :: nat) \<and> (of_char c :: nat) \<le> 90
      then char_of ((of_char c :: nat) + 32) else c)"

definition toLowerCase :: "string \<Rightarrow> string" where
  "toLowerCase s = map toLowerChar s"

text \<open>
  \<open>checkBlocklist\<close> of the device analyzer: the cache under DEVICE, then the database; the
  match of a row found is recorded before the row is cached. A failed query and a failed
  \<open>save()\<close> are caught and reported as "not detected".
\<close>

definition deviceCheckBlocklist :: "string \<Rightarrow> World \<Rightarrow> bool \<times> World" where
  "deviceCheckBlocklist fp w =
     (if cachedActive (isInBlocklist w TypeDEVICE (Some fp)) then (True, w)
      else if \<not> databaseUp w then (False, w)
      else case find (\<lambda>r. rowType r = TypeDEVICE \<and> valueHash r = sha256 w fp \<and> isActive r)
                  (fraudBlocklistTable w) of
        Some row \<Rightarrow>
          if recordMatchSucceeds w
          then (True, addToBlocklistCache (entryOfRow row TypeDEVICE True) (recordMatch row w))
          else (False, w)
      | None \<Rightarrow> (False, w))"

definition checkNewDevice :: "string option \<Rightarrow> KnownDevices \<Rightarrow> Check option" where
  "checkNewDevice deviceFingerprint knownDevices =
     (if \<not> truthyString deviceFingerprint then Some notDetected
      else case knownIncludes knownDevices (the deviceFingerprint) of
        None \<Rightarrow> None
      | Some isKnown \<Rightarrow>
          if \<not> isKnown \<and> the (knownLength knownDevices) > 0 then Some (detectedWith 0.12)
          else if \<not> isKnown \<and> the (knownLength knownDevices) = 0 then Some (detectedWith 0.06)
          else Some notDetected)"

definition headlessPatterns :: "string list" where
  "headlessPatterns =
     [''HeadlessChrome'', ''PhantomJS'', ''Selenium'', ''puppeteer'', ''playwright'',
      ''crawl'', ''bot'', ''spider'']"

definition analyzeUserAgent :: "World \<Rightarrow> string \<Rightarrow> Check" where
  "analyzeUserAgent w ua =
     (let result = uaParser w ua in
      if \<exists>pattern \<in> set headlessPatterns. includesString (toLowerCase ua) (toLowerCase pattern)
        then detectedWith 0.25
      else if browserMajor result \<noteq> None \<and> browserName result = Some ''Chrome''
              \<and> the (browserMajor result) < 70 then detectedWith 0.08
      else if browserMajor result \<noteq> None \<and> browserName result = Some ''Firefox''
              \<and> the (browserMajor result) < 60 then detectedWith 0.08
      else if osName result = Some ''Linux'' \<and> browserName result \<noteq> Some ''Firefox''
              \<and> browserName result \<noteq> Some ''Chrome'' then detectedWith 0.05
      else if length ua < 20 then detectedWith 0.15
      else notDetected)"

definition proxyPatterns :: "string list" where
  "proxyPatterns = [''proxy'', ''vpn'', ''tor'', ''anonymous'']"

definition checkProxyIndicators :: "string \<Rightarrow> Check" where
  "checkProxyIndicators ua =
     (if \<exists>pattern \<in> set proxyPatterns. includesString (toLowerCase ua) pattern
      then detectedWith 0.10 else notDetected)"

text \<open>
  \<open>checkDevicePattern\<close>: the conjunction is evaluated left to right and stops at the first
  false operand, so \<open>userHistory.statistics.totalTransactions\<close> is read only when
  \<open>knownDevices.length <= 2\<close>.
\<close>

definition checkDevicePattern ::
  "string option \<Rightarrow> KnownDevices \<Rightarrow> HistoryArgument \<Rightarrow> Check option" where
  "checkDevicePattern deviceFingerprint knownDevices userHistory =
     (if userHistory = HistoryNull \<or> \<not> truthyString deviceFingerprint then Some notDetected
      else case knownLength knownDevices of
        None \<Rightarrow> None
      | Some n \<Rightarrow>
          if \<not> n \<le> 2 then Some notDetected
          else (case userHistory of
                  HistoryObject h \<Rightarrow>
                    if \<not> totalTransactions (statistics h) \<ge> 50 then Some notDetected
                    else if \<not> the (knownIncludes knownDevices (the deviceFingerprint))
                      then Some (detectedWith 0.10)
                    else Some notDetected
                | _ \<Rightarrow> None))"

definition checkFingerprintQuality :: "string \<Rightarrow> Check" where
  "checkFingerprintQuality fp =
     (if length fp < 16 then detectedWith 0.15
      else if card (set fp) < 4 then detectedWith 0.20
      else if (fp \<noteq> [] \<and> (\<forall>c \<in> set fp. c = hd fp)) \<or> fp = replicate (length fp) CHR ''0''
        then detectedWith 0.25
      else notDetected)"

definition createDeviceInfo :: DeviceInfo where
  "createDeviceInfo = \<lparr> trustScore = 0.5 \<rparr>"

definition deviceFactor :: "Config \<Rightarrow> number \<Rightarrow> RiskFactor" where
  "deviceFactor cfg raw =
     \<lparr> detectionMethod = DEVICE, score = raw, weight = deviceWeight cfg,
       contributedScore = raw * deviceWeight cfg, details = [] \<rparr>"

text \<open>
  The part of \<open>analyze\<close> after the blocklist check, with the device record in hand, up to
  the construction of the factor, whose \<open>details\<close> read \<open>knownDevices.length\<close>.
\<close>

definition deviceRawScore ::
  "World \<Rightarrow> string option \<Rightarrow> string option \<Rightarrow> KnownDevices \<Rightarrow> HistoryArgument
     \<Rightarrow> DeviceInfo option \<Rightarrow> Check \<Rightarrow> number option" where
  "deviceRawScore w deviceFingerprint ua knownDevices userHistory deviceInfo isNewDevice =
     (let t1 = addCheck isNewDevice (Num 0);
          t2 = t1 + Num (case deviceInfo of
                       Some info \<Rightarrow> if trustScore info < 0.5 then (1 - trustScore info) * 0.15 else 0
                     | None \<Rightarrow> 0);
          t3 = (if truthyString ua then addCheck (analyzeUserAgent w (the ua)) t2 else t2);
          t4 = (if truthyString ua then addCheck (checkProxyIndicators (the ua)) t3 else t3)
      in case checkDevicePattern deviceFingerprint knownDevices userHistory of
           None \<Rightarrow> None
         | Some devicePattern \<Rightarrow>
             (let t5 = addCheck devicePattern t4;
                  t6 = (if truthyString deviceFingerprint
                        then addCheck (checkFingerprintQuality (the deviceFingerprint)) t5 else t5)
              in case knownLength knownDevices of
                   None \<Rightarrow> None
                 | Some knownDeviceCount \<Rightarrow> Some (mathMin t6 (Num 0.40))))"

definition deviceAnalyze ::
  "Config \<Rightarrow> string option \<Rightarrow> string option \<Rightarrow> KnownDevices \<Rightarrow> HistoryArgument
     \<Rightarrow> World \<Rightarrow> RiskFactor \<times> World" where
  "deviceAnalyze cfg deviceFingerprint ua knownDevices userHistory w =
     (if \<not> truthyString deviceFingerprint \<and> \<not> truthyString ua then
        (\<lparr> detectionMethod = DEVICE, score = Num 0.12, weight = deviceWeight cfg,
           contributedScore = Num 0.12 * deviceWeight cfg,
           details = [(''hasFingerprint'', DBool False), (''hasUserAgent'', DBool False)] \<rparr>, w)
      else
        (let (blocked, w1) =
               (if truthyString deviceFingerprint
                then deviceCheckBlocklist (the deviceFingerprint) w else (False, w))
         in if blocked then
              (\<lparr> detectionMethod = DEVICE, score = Num 1.0, weight = deviceWeight cfg,
                 contributedScore = Num 1.0, details = [(''blocked'', DBool True)] \<rparr>, w1)
            else case checkNewDevice deviceFingerprint knownDevices of
              None \<Rightarrow> (analysisUnavailable DEVICE (deviceWeight cfg), w1)
            | Some isNewDevice \<Rightarrow>
                (let (deviceInfo, w2) =
                       (if truthyString deviceFingerprint then
                          (case getDeviceInfo w1 (the deviceFingerprint) of
                             Some info \<Rightarrow> (Some info, w1)
                           | None \<Rightarrow> (Some createDeviceInfo,
                                       setDeviceInfo (the deviceFingerprint) createDeviceInfo w1))
                        else (None, w1))
                 in case deviceRawScore w2 deviceFingerprint ua knownDevices userHistory
                           deviceInfo isNewDevice of
                      None \<Rightarrow> (analysisUnavailable DEVICE (deviceWeight cfg), w2)
                    | Some raw \<Rightarrow> (deviceFactor cfg raw, w2))))"

section \<open>MLModelService (src/unnamed/part_003, first document)\<close>

text \<open>
  \<open>MLFeatures\<close> is an object of 26 numeric properties: a function from the property name.
  \<open>featureOrder\<close> is the order of \<open>featuresToArray\<close>, which is also the list returned by
  \<open>getFeatureNames\<close>.
\<close>

datatype FeatureName =
  TxCountFiveMin | TxCountOneHour | TxCountTwentyFourHours
  | AmountFiveMin | AmountOneHour | AmountTwentyFourHours
  | Amount | AmountRatioToAvg | AmountRatioToMax | AmountZScore
  | IsNewCountry | DistanceFromLastTx | ImpossibleTravel
  | HourOfDay | DayOfWeek | IsUnusualHour | TimeSinceLastTx
  | IsNewRecipient | RecipientRiskScore | RecipientTxCount
  | IsNewDevice | DeviceTrustScore
  | AccountAge | TotalTxCount | AvgTxAmount | PreviousFraudFlags

type_synonym MLFeatures = "FeatureName \<Rightarrow> number"

definition featureOrder :: "FeatureName list" where
  "featureOrder =
     [TxCountFiveMin, TxCountOneHour, TxCountTwentyFourHours,
      AmountFiveMin, AmountOneHour, AmountTwentyFourHours,
      Amount, AmountRatioToAvg, AmountRatioToMax, AmountZScore,
      IsNewCountry, DistanceFromLastTx, ImpossibleTravel,
      HourOfDay, DayOfWeek, IsUnusualHour, TimeSinceLastTx,
      IsNewRecipient, RecipientRiskScore, RecipientTxCount,
      IsNewDevice, DeviceTrustScore,
      AccountAge, TotalTxCount, AvgTxAmount, PreviousFraudFlags]"

definition featuresToArray :: "MLFeatures \<Rightarrow> number list" where
  "featuresToArray features = map features featureOrder"

text \<open>
  \<open>features[i] || 0\<close>: an index past the end reads \<open>undefined\<close>; \<open>undefined\<close>, NaN and 0
  are replaced by 0.
\<close>

definition featureAt :: "number list \<Rightarrow> nat \<Rightarrow> real" where
  "featureAt features i =
     (if i < length features then (case features ! i of Num x \<Rightarrow> x | NaN \<Rightarrow> 0) else 0)"

text \<open>
  \<open>RuleBasedModel.predict\<close>, with the indices the source reads: 0, 1, 7, 12, 15, 18, 23.
  A statement \<open>if (c) score += x\<close> is written \<open>score + (if c then x else 0)\<close>.
\<close>

definition ruleBasedPredict :: "number list \<Rightarrow> real \<times> real" where
  "ruleBasedPredict features =
     (let velocity5m = featureAt features 0;
          velocity1h = featureAt features 1;
          amountRatio = featureAt features 7;
          impossibleTravel = featureAt features 12;
          isNewRecipient = featureAt features 15;
          isNewDevice = featureAt features 18;
          prevFraudFlags = featureAt features 23;
          s1 = (if velocity5m > 3 then 0.15 else 0);
          s2 = s1 + (if velocity1h > 10 then 0.10 else 0);
          s3 = s2 + (if amountRatio > 5 then 0.20 else 0);
          s4 = s3 + (if impossibleTravel > 0 then 0.30 else 0);
          s5 = s4 + (if isNewRecipient > 0 then 0.10 else 0);
          s6 = s5 + (if isNewDevice > 0 then 0.10 else 0);
          s7 = s6 + (if prevFraudFlags > 0 then 0.15 * min prevFraudFlags 3 else 0)
      in (min s7 0.95, 0.7))"

text \<open>
  \<open>loadModel\<close> installs the rule-based model on every path: when the model file is absent,
  when it is present (the ONNX load is simulated), and in the \<open>catch\<close> block after a failed
  hash validation. Only the version string differs.
\<close>

definition loadModel :: "Config \<Rightarrow> World \<Rightarrow> World" where
  "loadModel cfg w =
     w\<lparr>mlModelService :=
         \<lparr> isLoaded = True,
           loadedVersion =
             (if \<not> modelFileExists w then ''rule-based-v1''
              else if \<not> modelHashValid w then
                (if fallbackModelFileExists w then ''fallback-rule-based-v1'' else ''rule-based-v1'')
              else mlModelVersion cfg) \<rparr>\<rparr>"

record Prediction =
  predictedScore :: real
  predictedConfidence :: real
  predictedVersion :: string

text \<open>\<open>predict\<close>: \<open>None\<close> is the thrown "Model not loaded"; a failed or timed-out inference
  is caught and answered with the neutral prediction.\<close>

definition mlPredict :: "World \<Rightarrow> MLFeatures \<Rightarrow> Prediction option" where
  "mlPredict w features =
     (if \<not> isLoaded (mlModelService w) then None
      else if inferenceFails w then
        Some \<lparr> predictedScore = 0.5, predictedConfidence = 0.1,
               predictedVersion = loadedVersion (mlModelService w) @ ''-error'' \<rparr>
      else
        Some \<lparr> predictedScore = fst (ruleBasedPredict (featuresToArray features)),
               predictedConfidence = snd (ruleBasedPredict (featuresToArray features)),
               predictedVersion = loadedVersion (mlModelService w) \<rparr>)"

section \<open>Orchestrator (src/src/services/TimeAnalyzer.ts, second document)\<close>

text \<open>\<open>x as number || fallback\<close> on a \<open>details\<close> entry.\<close>

definition detailNumberOr :: "(string \<times> DetailValue) list \<Rightarrow> string \<Rightarrow> real \<Rightarrow> real" where
  "detailNumberOr ds k fallback =
     (case map_of ds k of Some (DNum x) \<Rightarrow> (if x = 0 then fallback else x) | _ \<Rightarrow> fallback)"

definition constructMLFeatures ::
  "Transaction \<Rightarrow> RiskFactor list \<Rightarrow> UserTransactionHistory option \<Rightarrow> MLFeatures" where
  "constructMLFeatures tx fs userHistory =
     (let vdetails = (case find (\<lambda>r. detectionMethod r = VELOCITY) fs of
                        Some velocityFactor \<Rightarrow> details velocityFactor | None \<Rightarrow> [])
      in (\<lambda>name. case name of
            TxCountFiveMin \<Rightarrow> Num (detailNumberOr vdetails ''transactionsFiveMin'' 0)
          | TxCountOneHour \<Rightarrow> Num (detailNumberOr vdetails ''transactionsOneHour'' 0)
          | TxCountTwentyFourHours \<Rightarrow> Num (detailNumberOr vdetails ''transactionsTwentyFourHours'' 0)
          | Amount \<Rightarrow> Num (amount tx)
          | AmountFiveMin \<Rightarrow> Num (detailNumberOr vdetails ''amountFiveMin'' (amount tx))
          | AmountOneHour \<Rightarrow> Num (detailNumberOr vdetails ''amountOneHour'' (amount tx))
          | AmountTwentyFourHours \<Rightarrow> Num (detailNumberOr vdetails ''amountTwentyFourHours'' (amount tx))
          | AmountRatioToAvg \<Rightarrow> Num 1
          | AmountRatioToMax \<Rightarrow> Num 1
          | AmountZScore \<Rightarrow> Num 0
          | IsNewCountry \<Rightarrow> Num 0
          | DistanceFromLastTx \<Rightarrow> Num 0
          | ImpossibleTravel \<Rightarrow> Num 0
          | HourOfDay \<Rightarrow> hoursOf (timestamp tx)
          | DayOfWeek \<Rightarrow> dayOf (timestamp tx)
          | IsUnusualHour \<Rightarrow> Num 0
          | TimeSinceLastTx \<Rightarrow> Num 0
          | IsNewRecipient \<Rightarrow> Num 0
          | RecipientRiskScore \<Rightarrow> Num 0
          | RecipientTxCount \<Rightarrow> Num 0
          | IsNewDevice \<Rightarrow> Num 0
          | DeviceTrustScore \<Rightarrow> Num 1
          | AccountAge \<Rightarrow> Num 365
          | TotalTxCount \<Rightarrow>
              (case userHistory of Some h \<Rightarrow> ofNat (totalTransactions (statistics h)) | None \<Rightarrow> Num 0)
          | AvgTxAmount \<Rightarrow>
              (case userHistory of Some h \<Rightarrow> Num (averageAmount (statistics h)) | None \<Rightarrow> Num 0)
          | PreviousFraudFlags \<Rightarrow> Num 0))"

definition currentLocationOf :: "Transaction \<Rightarrow> GeoLocation" where
  "currentLocationOf tx =
     (case geographic tx of
        None \<Rightarrow> \<lparr> geoIp = None, geoCountry = None, geoCity = None,
                  geoLatitude = None, geoLongitude = None \<rparr>
      | Some g \<Rightarrow>
          \<lparr> geoIp = Some (ip g),
            geoCountry = (if truthyString (country g) then country g else None),
            geoCity = (if truthyString (city g) then city g else None),
            geoLatitude = (if truthyNumber (latitude g) then latitude g else None),
            geoLongitude = (if truthyNumber (longitude g) then longitude g else None) \<rparr>)"

definition mlFactor :: "Prediction \<Rightarrow> RiskFactor" where
  "mlFactor mlResult =
     \<lparr> detectionMethod = ML_MODEL, score = Num (predictedScore mlResult), weight = Num 0.3,
       contributedScore = Num (predictedScore mlResult * 0.3),
       details = [(''confidence'', DNum (predictedConfidence mlResult)),
                  (''modelVersion'', DStr (predictedVersion mlResult))] \<rparr>"

text \<open>
  Step 3 of \<open>processTransaction\<close>: the six analyzers behind \<open>Promise.allSettled\<close>, in the order
  of the array. Each analyzer writes only its own keys and rows, so running them one after
  the other stands for their interleavings. Every analyzer catches its own exceptions, so
  \<open>safeAnalyze\<close> never yields \<open>null\<close>. The known-device, known-country and trusted-recipient
  lists are empty in this version of the source.
\<close>

definition deviceFingerprintOf :: "Transaction \<Rightarrow> string option" where
  "deviceFingerprintOf tx = (case device tx of None \<Rightarrow> None | Some d \<Rightarrow> fingerprint d)"

definition userAgentOf :: "Transaction \<Rightarrow> string option" where
  "userAgentOf tx = (case device tx of None \<Rightarrow> None | Some d \<Rightarrow> userAgent d)"

text \<open>\<open>transaction.device?.deviceId\<close>, which the call binds to the parameter \<open>knownDevices\<close>.\<close>

definition deviceIdArgument :: "Transaction \<Rightarrow> KnownDevices" where
  "deviceIdArgument tx =
     (case device tx of
        None \<Rightarrow> DeviceUndefined
      | Some d \<Rightarrow> (case deviceId d of None \<Rightarrow> DeviceUndefined | Some i \<Rightarrow> DeviceString i))"

definition runAnalyzers ::
  "Config \<Rightarrow> int \<Rightarrow> Transaction \<Rightarrow> UserTransactionHistory option \<Rightarrow> World
     \<Rightarrow> RiskFactor list \<times> World" where
  "runAnalyzers cfg now tx userHistory w =
     (let amountF = amountAnalyze cfg now (amount tx) userHistory;
          (velocityF, cs1) = velocityAnalyze cfg (userId tx) (amount tx) (cacheService w);
          w1 = w\<lparr>cacheService := cs1\<rparr>;
          (deviceF, w2) =
             deviceAnalyze cfg (deviceFingerprintOf tx) (userAgentOf tx) (deviceIdArgument tx)
               HistoryEmptyArray w1;
          geographicF = geographicAnalyze cfg now (currentLocationOf tx) userHistory [];
          (recipientF, w3) =
             recipientAnalyze cfg now (recipientId tx) (destinationAccountId tx) userHistory [] w2;
          timeF = timeAnalyze cfg now (timestamp tx) userHistory
                    (buildPreferredHours userHistory) (buildPreferredDays userHistory)
      in ([amountF, velocityF, deviceF, geographicF, recipientF, timeF], w3))"

text \<open>\<open>if (!mlModelService.isModelReady()) await mlModelService.loadModel()\<close>.\<close>

definition ensureModelLoaded :: "Config \<Rightarrow> World \<Rightarrow> World" where
  "ensureModelLoaded cfg w = (if \<not> isLoaded (mlModelService w) then loadModel cfg w else w)"

datatype PipelineError = ModelNotLoaded

text \<open>
  Steps 2 to 5: the analysis that is persisted and published, and the world after the
  analyzers and the model load. \<open>Inl\<close> is the exception that \<open>predict\<close> throws on a model
  that is not loaded; \<open>processTransaction\<close> logs it and throws it again.
\<close>

definition analyse ::
  "Config \<Rightarrow> int \<Rightarrow> string \<Rightarrow> Transaction \<Rightarrow> World
     \<Rightarrow> PipelineError + FraudAnalysisResult \<times> World" where
  "analyse cfg now aid tx w =
     (let userHistory = getUserHistory w (userId tx);
          (factors, w1) = runAnalyzers cfg now tx userHistory w;
          mlFeatures = constructMLFeatures tx factors userHistory;
          w2 = ensureModelLoaded cfg w1
      in case mlPredict w2 mlFeatures of
           None \<Rightarrow> Inl ModelNotLoaded
         | Some mlResult \<Rightarrow>
             Inr (calculateFinalDecision cfg aid tx (factors @ [mlFactor mlResult])
                    (if predictedVersion mlResult = [] then ''unknown''
                     else predictedVersion mlResult),
                  w2))"

text \<open>
  \<open>processTransaction\<close>. On success it returns the world and, unless the idempotency check
  hit, the analysis object as it stands when the function resolves: \<open>analysisTimeMs\<close> is
  assigned the measured duration only after the result has been saved, published and cached.
\<close>

definition processTransaction ::
  "Config \<Rightarrow> int \<Rightarrow> int \<Rightarrow> int \<Rightarrow> string \<Rightarrow> TransactionCreatedEvent \<Rightarrow> World
     \<Rightarrow> PipelineError + FraudAnalysisResult option \<times> World" where
  "processTransaction cfg startTime now endTime aid event w =
     (case getCachedAnalysis w (transactionId (payload event)) of
        Some cachedResult \<Rightarrow> Inr (None, w)
      | None \<Rightarrow>
          (case analyse cfg now aid (payload event) w of
             Inl err \<Rightarrow> Inl err
           | Inr (finalResult, w1) \<Rightarrow>
               (let w2 = saveAnalysis finalResult w1;
                    w3 = publishResult cfg finalResult (correlationId event) w2;
                    w4 = cacheAnalysis (transactionId (payload event))
                           \<lparr> cachedDecision = decision finalResult,
                             cachedScore = finalScore finalResult \<rparr> w3
                in Inr (Some (finalResult\<lparr>analysisTimeMs := endTime - startTime\<rparr>), w4))))"

section \<open>EventConsumer (src/unnamed/part_002)\<close>

text \<open>
  A parsed JSON value; an object is the list of its distinct keys with their values.
  \<open>JSON.parse\<close> itself is a parameter of the model: \<open>None\<close> is a thrown SyntaxError.
\<close>

datatype Json =
  JNull | JBool bool | JNumber real | JString string | JArray "Json list"
  | JObject "(string \<times> Json) list"

definition truthy :: "Json \<Rightarrow> bool" where
  "truthy v =
     (case v of JNull \<Rightarrow> False | JBool b \<Rightarrow> b | JNumber x \<Rightarrow> x \<noteq> 0
      | JString s \<Rightarrow> s \<noteq> [] | JArray xs \<Rightarrow> True | JObject kvs \<Rightarrow> True)"

text \<open>Reading a property of a value that is not \<open>null\<close>: \<open>None\<close> is \<open>undefined\<close>.\<close>

definition property :: "Json \<Rightarrow> string \<Rightarrow> Json option" where
  "property v k = (case v of JObject kvs \<Rightarrow> map_of kvs k | _ \<Rightarrow> None)"

definition nonEmptyString :: "Json option \<Rightarrow> bool" where
  "nonEmptyString v = (case v of Some (JString s) \<Rightarrow> s \<noteq> [] | _ \<Rightarrow> False)"

definition positiveNumber :: "Json option \<Rightarrow> bool" where
  "positiveNumber v = (case v of Some (JNumber x) \<Rightarrow> \<not> x \<le> 0 | _ \<Rightarrow> False)"

definition validateEvent :: "Json \<Rightarrow> bool" where
  "validateEvent event =
     (if \<not> truthy event then False
      else case property event ''payload'' of
        None \<Rightarrow> False
      | Some pl \<Rightarrow>
          if \<not> truthy pl then False
          else if \<not> nonEmptyString (property pl ''transactionId'') then False
          else if \<not> nonEmptyString (property pl ''userId'') then False
          else if \<not> positiveNumber (property pl ''amount'') then False
          else if \<not> nonEmptyString (property pl ''recipientId'') then False
          else True)"

datatype LogLevel = LogDebug | LogInfo | LogWarn | LogError

type_synonym LogLine = "LogLevel \<times> string"

text \<open>\<open>parseMessage\<close>: \<open>None\<close> is the returned \<open>null\<close>, for a message without value and for
  a value that \<open>JSON.parse\<close> rejects (which is also logged as an error).\<close>

definition parseMessage ::
  "(string \<Rightarrow> Json option) \<Rightarrow> string option \<Rightarrow> LogLine list \<times> Json option" where
  "parseMessage jsonParse msgValue =
     (case msgValue of
        None \<Rightarrow> ([], None)
      | Some rawValue \<Rightarrow>
          (case jsonParse rawValue of
             None \<Rightarrow> ([(LogError, ''Failed to parse message'')], None)
           | Some event \<Rightarrow> ([], Some event)))"

text \<open>
  \<open>handleMessage\<close>. The handler is the function registered with \<open>setHandler\<close> (or none); it
  transforms the state of the pipeline behind it or throws. The result is the log lines
  written and either the exception thrown to KafkaJS (\<open>Inl\<close>, which triggers a retry of the
  message) or the state after a normal return.
\<close>

definition handleMessage ::
  "(string \<Rightarrow> Json option) \<Rightarrow> (Json \<Rightarrow> 's \<Rightarrow> 'e + 's) option \<Rightarrow> string option \<Rightarrow> 's
     \<Rightarrow> LogLine list \<times> ('e + 's)" where
  "handleMessage jsonParse messageHandler msgValue st =
     (case parseMessage jsonParse msgValue of
        (logs, None) \<Rightarrow> (logs @ [(LogWarn, ''Failed to parse message'')], Inr st)
      | (logs, Some event) \<Rightarrow>
          if \<not> truthy event then (logs @ [(LogWarn, ''Failed to parse message'')], Inr st)
          else if \<not> validateEvent event then
            (logs @ [(LogWarn, ''Invalid event structure'')], Inr st)
          else (case messageHandler of
                  None \<Rightarrow>
                    (logs @ [(LogInfo, ''Fraud analysis started''), (LogDebug, ''Message processed'')],
                     Inr st)
                | Some handler \<Rightarrow>
                    (case handler event st of
                       Inr st' \<Rightarrow>
                         (logs @ [(LogInfo, ''Fraud analysis started''),
                                  (LogDebug, ''Message processed'')], Inr st')
                     | Inl err \<Rightarrow>
                         (logs @ [(LogInfo, ''Fraud analysis started''),
                                  (LogError, ''Error processing message'')], Inl err))))"

section \<open>States of the world named by the properties\<close>

text \<open>
  An active blocklist entry that the lookup of \<open>RecipientAnalyzer.checkBlocklist\<close> can see,
  stated on the stores themselves. In the cache: the client is connected and the key of
  the type and the first 16 hex characters of the value's SHA-256 holds an active entry.
  In the table: an active row whose hash is that of the recipient or of the account.
\<close>

definition cacheHoldsActive :: "World \<Rightarrow> BlocklistType \<Rightarrow> string \<Rightarrow> bool" where
  "cacheHoldsActive w ty v =
     (redisConnected (cacheService w)
      \<and> (case blocklistKeys (cacheService w) (ty, take 16 (sha256 w v)) of
            None \<Rightarrow> False
          | Some entry \<Rightarrow> entryIsActive entry))"

definition tableHoldsActive :: "World \<Rightarrow> string \<Rightarrow> string \<Rightarrow> bool" where
  "tableHoldsActive w rid account =
     list_ex (\<lambda>r. isActive r \<and> (valueHash r = sha256 w rid \<or> valueHash r = sha256 w account))
       (fraudBlocklistTable w)"

text \<open>
  The entry is found: it is in the cache under RECIPIENT for the recipient or under ACCOUNT
  for the account, or the account is a string, the table holds the row, the query succeeds
  and so does the update of the row's match count.
\<close>

definition matchesActiveEntry :: "World \<Rightarrow> string \<Rightarrow> string option \<Rightarrow> bool" where
  "matchesActiveEntry w rid acc =
     (cacheHoldsActive w TypeRECIPIENT rid
      \<or> (case acc of
            None \<Rightarrow> False
          | Some account \<Rightarrow>
              cacheHoldsActive w TypeACCOUNT account
              \<or> (databaseUp w \<and> recordMatchSucceeds w \<and> tableHoldsActive w rid account)))"

text \<open>The country of a location is a property name inherited from \<open>Object.prototype\<close>.\<close>

definition inheritedCountryName :: "GeoLocation \<Rightarrow> bool" where
  "inheritedCountryName loc =
     (case geoCountry loc of None \<Rightarrow> False | Some c \<Rightarrow> c \<in> set objectPrototypeKeys)"

text \<open>What the analyzers leave alone: everything but their own cache keys and blocklist rows.\<close>

definition untouchedByAnalyzers :: "World \<Rightarrow> World \<Rightarrow> bool" where
  "untouchedByAnalyzers w w' =
     (sha256 w' = sha256 w \<and> uaParser w' = uaParser w
      \<and> databaseUp w' = databaseUp w
      \<and> recordMatchSucceeds w' = recordMatchSucceeds w
      \<and> acceptsAnalysisRow w' = acceptsAnalysisRow w
      \<and> fraudAnalysisTable w' = fraudAnalysisTable w
      \<and> producerConnected w' = producerConnected w
      \<and> producedMessages w' = producedMessages w
      \<and> mlModelService w' = mlModelService w
      \<and> modelFileExists w' = modelFileExists w
      \<and> modelHashValid w' = modelHashValid w
      \<and> fallbackModelFileExists w' = fallbackModelFileExists w
      \<and> inferenceFails w' = inferenceFails w
      \<and> redisConnected (cacheService w') = redisConnected (cacheService w)
      \<and> analysisKeys (cacheService w') = analysisKeys (cacheService w)
      \<and> userHistoryKeys (cacheService w') = userHistoryKeys (cacheService w))"

text \<open>What a run of \<open>processTransaction\<close> produced: the analysis, and the world it left.\<close>

definition producedAnalysis ::
  "PipelineError + FraudAnalysisResult option \<times> World \<Rightarrow> FraudAnalysisResult option" where
  "producedAnalysis outcome = (case outcome of Inl err \<Rightarrow> None | Inr (r, w) \<Rightarrow> r)"

definition worldAfter :: "PipelineError + FraudAnalysisResult option \<times> World \<Rightarrow> World option" where
  "worldAfter outcome = (case outcome of Inl err \<Rightarrow> None | Inr (r, w) \<Rightarrow> Some w)"

text \<open>The analyses carried by a list of messages, in order.\<close>

definition publishedAnalyses :: "KafkaMessage list \<Rightarrow> FraudAnalysisResult list" where
  "publishedAnalyses ms =
     concat (map (\<lambda>m. case eventPayload m of AnalysisPayload r \<Rightarrow> [r] | _ \<Rightarrow> []) ms)"

text \<open>The factors of a complete analysis: one of each analyzer, in the order of the calls,
  then the one of the ML scorer.\<close>

definition allMethods :: "FraudDetectionMethod list" where
  "allMethods = [AMOUNT, VELOCITY, DEVICE, GEOGRAPHIC, RECIPIENT, TIME, ML_MODEL]"

section \<open>Definitions in the words of the specification\<close>

text \<open>
  The confidence rule of the specification (section 4.11), for comparison with the field
  that \<open>calculateFinalDecision\<close> writes: HIGH when the ML factor is present with its own
  confidence at least 0.8 and at least three rule-based factors are non-zero, MEDIUM when
  the ML confidence is at least 0.5, LOW otherwise.
\<close>

definition mlConfidenceOf :: "RiskFactor list \<Rightarrow> real option" where
  "mlConfidenceOf fs =
     (case find (\<lambda>f. detectionMethod f = ML_MODEL) fs of
        None \<Rightarrow> None
      | Some f \<Rightarrow> (case map_of (details f) ''confidence'' of Some (DNum c) \<Rightarrow> Some c | _ \<Rightarrow> None))"

definition specConfidence :: "RiskFactor list \<Rightarrow> ConfidenceLevel" where
  "specConfidence fs =
     (case mlConfidenceOf fs of
        None \<Rightarrow> LOW
      | Some c \<Rightarrow>
          if c \<ge> 0.8 \<and> length (filter (\<lambda>f. detectionMethod f \<noteq> ML_MODEL \<and> score f \<noteq> Num 0) fs) \<ge> 3
          then HIGH
          else if c \<ge> 0.5 then MEDIUM
          else LOW)"

text \<open>
  The rule-based fallback of the specification (section 4.8), over the named features:
  the sum of the seven contributions, capped at 0.95.
\<close>

definition specRuleBasedScore :: "MLFeatures \<Rightarrow> number" where
  "specRuleBasedScore f =
     mathMin (Num 0.95)
       ((if f TxCountFiveMin > Num 3 then Num 0.15 else Num 0)
        + (if f TxCountOneHour > Num 10 then Num 0.10 else Num 0)
        + (if f AmountRatioToAvg > Num 5 then Num 0.20 else Num 0)
        + (if f ImpossibleTravel > Num 0 then Num 0.30 else Num 0)
        + (if f IsNewRecipient > Num 0 then Num 0.10 else Num 0)
        + (if f IsNewDevice > Num 0 then Num 0.10 else Num 0)
        + Num 0.15 * mathMin (f PreviousFraudFlags) (Num 3))"

section \<open>Sample inputs\<close>

definition onlyNewRecipient :: MLFeatures where
  "onlyNewRecipient = (\<lambda>name. if name = IsNewRecipient then Num 1 else Num 0)"

definition onlyTotalTxCount :: MLFeatures where
  "onlyTotalTxCount = (\<lambda>name. if name = TotalTxCount then Num 50 else Num 0)"

text \<open>
  An event as the declared payload type has it: identifiers in UUID form, no \<open>timestamp\<close>
  property (so the date the orchestrator builds is invalid), no location and no device.
\<close>

definition sampleTransaction :: Transaction where
  "sampleTransaction =
     \<lparr> transactionId = ''00000000-0000-4000-8000-000000000001'',
       userId = ''00000000-0000-4000-8000-000000000002'',
       sourceAccountId = ''acc-1'',
       destinationAccountId = Some ''acc-2'', recipientId = ''rcp-1'', amount = 110,
       currency = ''USD'', timestamp = None, geographic = None, device = None \<rparr>"

definition sampleEvent :: TransactionCreatedEvent where
  "sampleEvent = \<lparr> correlationId = None, payload = sampleTransaction \<rparr>"

text \<open>The same event sent with a timestamp (a Wednesday at noon) and from a location whose
  country reads \<open>constructor\<close>.\<close>

definition wednesdayNoon :: JsDate where
  "wednesdayNoon = \<lparr> getTime = 0, getHours = 12, getDay = 3, getMonth = 2, getDate = 10 \<rparr>"

definition constructorEvent :: TransactionCreatedEvent where
  "constructorEvent =
     \<lparr> correlationId = None,
       payload = sampleTransaction
         \<lparr> timestamp := Some wednesdayNoon,
           geographic := Some \<lparr> ip = ''203.0.113.7'', latitude = None, longitude = None,
                                country = Some ''constructor'', city = None \<rparr> \<rparr> \<rparr>"

text \<open>The ML factor of a rule-based prediction of 0: confidence 0.7.\<close>

definition ruleBasedFactor :: RiskFactor where
  "ruleBasedFactor =
     mlFactor \<lparr> predictedScore = 0, predictedConfidence = 0.7,
               predictedVersion = ''rule-based-v1'' \<rparr>"

text \<open>A user with three transactions, the largest of 100.\<close>

definition threeTransactions :: Statistics where
  "threeTransactions =
     \<lparr> totalTransactions = 3, averageAmount = 50, maxAmount = 100, standardDeviation = 10,
       accountCreatedAt = \<lparr> getTime = 0, getHours = 0, getDay = 0, getMonth = 0, getDate = 1 \<rparr> \<rparr>"

text \<open>
  The canonical text form of a UUID: 8-4-4-4-12 hexadecimal digits. The sample database
  accepts an analysis row whose three identifiers have this form.
\<close>

definition hexDigit :: "char \<Rightarrow> bool" where
  "hexDigit c = (c \<in> set ''0123456789abcdefABCDEF'')"

definition uuidSyntax :: "string \<Rightarrow> bool" where
  "uuidSyntax s =
     list_all2 (\<lambda>c p. if p = CHR ''-'' then c = CHR ''-'' else hexDigit c)
       s ''xxxxxxxx-xxxx-xxxx-xxxx-xxxxxxxxxxxx''"

definition identifiersAreUuids :: "FraudAnalysisResult \<Rightarrow> bool" where
  "identifiersAreUuids row =
     (uuidSyntax (analysisId row) \<and> uuidSyntax (resTransactionId row) \<and> uuidSyntax (resUserId row))"

definition firstAnalysisId :: string where
  "firstAnalysisId = ''00000000-0000-4000-8000-0000000000a1''"

definition secondAnalysisId :: string where
  "secondAnalysisId = ''00000000-0000-4000-8000-0000000000a2''"

text \<open>
  A connected, empty cache and a world around it: database and producer up, no model file
  (so \<open>loadModel\<close> serves the rule-based model as \<open>rule-based-v1\<close>). The model is parametric
  in the hash function and the user-agent parser; the sample world takes the identity and
  a parser that recognises nothing.
\<close>

definition sampleCache :: CacheService where
  "sampleCache =
     \<lparr> redisConnected = True, userHistoryKeys = Map.empty, deviceKeys = Map.empty,
       recipientKeys = Map.empty, blocklistKeys = Map.empty,
       velocityCountKeys = (\<lambda>k. 0), velocityAmountKeys = (\<lambda>k. 0),
       analysisKeys = Map.empty \<rparr>"

definition sampleWorld :: World where
  "sampleWorld =
     \<lparr> sha256 = (\<lambda>s. s),
       uaParser = (\<lambda>s. \<lparr> browserName = None, browserMajor = None, osName = None \<rparr>),
       cacheService = sampleCache, databaseUp = True, recordMatchSucceeds = True,
       acceptsAnalysisRow = identifiersAreUuids,
       fraudBlocklistTable = [], fraudAnalysisTable = [],
       producerConnected = True, producedMessages = [],
       mlModelService = \<lparr> isLoaded = False, loadedVersion = [] \<rparr>,
       modelFileExists = False, modelHashValid = True, fallbackModelFileExists = False,
       inferenceFails = False \<rparr>"

text \<open>The sample world with an active blocklist row for the recipient of the sample event,
  and the same world while the blocklist query fails.\<close>

definition blockedRow :: FraudBlocklist where
  "blockedRow =
     \<lparr> rowId = ''bl-1'', rowType = TypeRECIPIENT, rowValue = ''rcp-1'', valueHash = ''rcp-1'',
       rowReason = ''confirmed fraud'', isActive = True, matchCount = 0 \<rparr>"

definition blockedWorld :: World where
  "blockedWorld = sampleWorld\<lparr>fraudBlocklistTable := [blockedRow]\<rparr>"

definition unreachableWorld :: World where
  "unreachableWorld = blockedWorld\<lparr>databaseUp := False\<rparr>"

text \<open>
  A stand-in for \<open>JSON.parse\<close> on four message bodies: one that is no JSON, the
  object without properties, an event whose amount is negative, and a valid event.
\<close>

definition negativeAmountEvent :: Json where
  "negativeAmountEvent =
     JObject [(''payload'', JObject [(''transactionId'', JString ''tx-1''),
                                     (''userId'', JString ''user-1''),
                                     (''recipientId'', JString ''rcp-1''),
                                     (''amount'', JNumber (- 5))])]"

definition validEvent :: Json where
  "validEvent =
     JObject [(''payload'', JObject [(''transactionId'', JString ''tx-1''),
                                     (''userId'', JString ''user-1''),
                                     (''recipientId'', JString ''rcp-1''),
                                     (''amount'', JNumber 110)])]"

definition sampleJsonParse :: "string \<Rightarrow> Json option" where
  "sampleJsonParse raw =
     (if raw = ''empty object'' then Some (JObject [])
      else if raw = ''negative amount'' then Some negativeAmountEvent
      else if raw = ''valid'' then Some validEvent
      else None)"

text \<open>A handler that counts its invocations.\<close>

definition countingHandler :: "Json \<Rightarrow> nat \<Rightarrow> string + nat" where
  "countingHandler event n = Inr (Suc n)"

text \<open>
  The invariant of the data model on one risk factor, and the shape of a blocklist
  short-circuit factor.
\<close>

abbreviation blocklistOverride :: "RiskFactor \<Rightarrow> bool" where
  "blocklistOverride f \<equiv>
     (map_of (details f) ''blocked'' = Some (DBool True) \<and> score f = Num 1
      \<and> contributedScore f = Num 1)"

abbreviation factorInvariant :: "RiskFactor \<Rightarrow> bool" where
  "factorInvariant f \<equiv>
     (0 \<le> score f \<and> 0 \<le> weight f
      \<and> (contributedScore f = score f * weight f \<or> blocklistOverride f))"

text \<open>
  Runs of the pipeline on the sample event: on the sample world, on the world with the
  blocklisted recipient, on that world while the blocklist query fails, and a run that
  takes 6000 ms between the two clock readings; and a run of the event from
  \<open>constructor\<close> on the world with the blocklisted recipient.
\<close>

definition sampleRun :: "PipelineError + FraudAnalysisResult option \<times> World" where
  "sampleRun = processTransaction defaultConfig 0 0 10 firstAnalysisId sampleEvent sampleWorld"

definition blockedRun :: "PipelineError + FraudAnalysisResult option \<times> World" where
  "blockedRun = processTransaction defaultConfig 0 0 10 firstAnalysisId sampleEvent blockedWorld"

definition unreachableRun :: "PipelineError + FraudAnalysisResult option \<times> World" where
  "unreachableRun =
     processTransaction defaultConfig 0 0 10 firstAnalysisId sampleEvent unreachableWorld"

definition constructorRun :: "PipelineError + FraudAnalysisResult option \<times> World" where
  "constructorRun =
     processTransaction defaultConfig 0 0 10 firstAnalysisId constructorEvent blockedWorld"

definition lateRun :: "PipelineError + FraudAnalysisResult option \<times> World" where
  "lateRun = processTransaction defaultConfig 0 0 6000 firstAnalysisId sampleEvent sampleWorld"

text \<open>Three factors as the analyzers return them under the default configuration.\<close>

definition blockedRecipientFactor :: RiskFactor where
  "blockedRecipientFactor =
     \<lparr> detectionMethod = RECIPIENT, score = Num 1.0, weight = Num 0.30,
       contributedScore = Num 1.0, details = [(''blocked'', DBool True)] \<rparr>"

definition busyVelocityFactor :: RiskFactor where
  "busyVelocityFactor =
     \<lparr> detectionMethod = VELOCITY, score = Num 0.45, weight = Num 1.0,
       contributedScore = Num 0.45, details = [] \<rparr>"

definition newRecipientFactor :: RiskFactor where
  "newRecipientFactor =
     \<lparr> detectionMethod = RECIPIENT, score = Num 0.20, weight = Num 0.30,
       contributedScore = Num 0.06, details = [] \<rparr>"

section \<open>Arithmetic of JavaScript numbers\<close>

lemma number_arith [simp]:
  "Num a + Num b = Num (a + b)" "NaN + x = NaN" "x + NaN = NaN"
  "Num a * Num b = Num (a * b)" "NaN * x = NaN" "x * NaN = NaN"
  by (simp_all add: plus_number_def times_number_def split: number.split)

lemma number_order [simp]:
  "(Num a \<le> Num b) = (a \<le> b)" "(NaN \<le> x) = False" "(x \<le> NaN) = False"
  "(Num a < Num b) = (a < b)" "(NaN < x) = False" "(x < NaN) = False"
  by (simp_all add: less_eq_number_def less_number_def split: number.split)

lemma number_zero [simp]: "(0::number) = Num 0"
  by (simp add: zero_number_def)

lemma mathMin_simps [simp]:
  "mathMin (Num a) (Num b) = Num (min a b)" "mathMin NaN x = NaN" "mathMin x NaN = NaN"
  by (simp_all add: mathMin_def split: number.split)

lemma mathMin_commute: "mathMin a b = mathMin b a"
  by (cases a; cases b) (simp_all add: min.commute)

lemma nonneg_number: "(0 \<le> x) = (\<exists>r. x = Num r \<and> 0 \<le> r)"
  by (cases x) simp_all

lemma positive_number: "(0 < x) = (\<exists>r. x = Num r \<and> 0 < r)"
  by (cases x) simp_all

lemma add_nonneg_number: "0 \<le> a \<Longrightarrow> 0 \<le> b \<Longrightarrow> 0 \<le> a + (b::number)"
  by (cases a; cases b) simp_all

lemma mult_nonneg_number: "0 \<le> a \<Longrightarrow> 0 \<le> b \<Longrightarrow> 0 \<le> a * (b::number)"
  by (cases a; cases b) simp_all

lemma mathMin_nonneg: "0 \<le> a \<Longrightarrow> 0 \<le> b \<Longrightarrow> 0 \<le> mathMin a b"
  by (cases a; cases b) simp_all

section \<open>Properties of the aggregation\<close>

lemma totalScore_sum_list: "totalScore fs = sum_list (map contributedScore fs)"
proof -
  have "foldl (\<lambda>acc factor. acc + contributedScore factor) a fs
          = a + sum_list (map contributedScore fs)" for a
    by (induction fs arbitrary: a) (simp_all add: add.assoc del: number_zero)
  from this [of "Num 0"] show ?thesis
    by (simp add: totalScore_def del: number_zero flip: zero_number_def)
qed

lemma calc_finalScore:
  "finalScore (calculateFinalDecision cfg aid tx fs mv)
     = mathMin (Num 1) (sum_list (map contributedScore fs))"
  by (simp add: calculateFinalDecision_def Let_def totalScore_sum_list mathMin_commute)

lemma calc_fields:
  "riskFactors (calculateFinalDecision cfg aid tx fs mv) = fs"
  "status (calculateFinalDecision cfg aid tx fs mv) = COMPLETED"
  "analysisId (calculateFinalDecision cfg aid tx fs mv) = aid"
  "resTransactionId (calculateFinalDecision cfg aid tx fs mv) = transactionId tx"
  "resUserId (calculateFinalDecision cfg aid tx fs mv) = userId tx"
  "analysisTimeMs (calculateFinalDecision cfg aid tx fs mv) = 0"
  by (simp_all add: calculateFinalDecision_def Let_def)

lemma calc_decision:
  "decision (calculateFinalDecision cfg aid tx fs mv) =
     (if finalScore (calculateFinalDecision cfg aid tx fs mv) \<ge> rejectMin cfg then REJECT
      else if finalScore (calculateFinalDecision cfg aid tx fs mv) \<ge> suspiciousMin cfg then SUSPICIOUS
      else APPROVE)"
  "requiresManualReview (calculateFinalDecision cfg aid tx fs mv) =
     (finalScore (calculateFinalDecision cfg aid tx fs mv) \<ge> suspiciousMin cfg)"
  by (simp_all add: calculateFinalDecision_def Let_def)

section \<open>Confidence\<close>

text \<open>
  C6 (as amended). The reported confidence is HIGH for every analysis: the field is the
  constant \<open>'HIGH'\<close>, whatever the ML confidence and the number of non-zero factors.
\<close>

theorem confidence_always_high:
  "confidence (calculateFinalDecision cfg aid tx fs mv) = HIGH"
  by (simp add: calculateFinalDecision_def Let_def)

text \<open>
  C6 as stated fails: with the factor of the rule-based model (confidence 0.7, below 0.8)
  as the only factor, the rule of the specification gives MEDIUM and the code reports HIGH.
\<close>

theorem confidence_counterexample:
  "confidence (calculateFinalDecision defaultConfig firstAnalysisId sampleTransaction
       [ruleBasedFactor] ''rule-based-v1'') = HIGH
   \<and> specConfidence [ruleBasedFactor] = MEDIUM"
  by (simp add: calculateFinalDecision_def Let_def specConfidence_def mlConfidenceOf_def
        ruleBasedFactor_def mlFactor_def)

section \<open>The rule-based fallback model\<close>

lemma featureAt_array:
  "featureAt (featuresToArray f) 0 = (case f TxCountFiveMin of Num x \<Rightarrow> x | NaN \<Rightarrow> 0)"
  "featureAt (featuresToArray f) 1 = (case f TxCountOneHour of Num x \<Rightarrow> x | NaN \<Rightarrow> 0)"
  "featureAt (featuresToArray f) 7 = (case f AmountRatioToAvg of Num x \<Rightarrow> x | NaN \<Rightarrow> 0)"
  "featureAt (featuresToArray f) 12 = (case f ImpossibleTravel of Num x \<Rightarrow> x | NaN \<Rightarrow> 0)"
  "featureAt (featuresToArray f) 15 = (case f IsUnusualHour of Num x \<Rightarrow> x | NaN \<Rightarrow> 0)"
  "featureAt (featuresToArray f) 18 = (case f RecipientRiskScore of Num x \<Rightarrow> x | NaN \<Rightarrow> 0)"
  "featureAt (featuresToArray f) 23 = (case f TotalTxCount of Num x \<Rightarrow> x | NaN \<Rightarrow> 0)"
  by (simp_all add: featureAt_def featuresToArray_def featureOrder_def)

text \<open>
  On a vector built by \<open>featuresToArray\<close>, the indices 15, 18 and 23 hold \<open>isUnusualHour\<close>,
  \<open>recipientRiskScore\<close> and \<open>totalTxCount\<close>: these are the features the model reads under
  the names \<open>isNewRecipient\<close>, \<open>isNewDevice\<close> and \<open>prevFraudFlags\<close>.
\<close>

lemma rule_based_reads:
  assumes "\<And>name. f name = Num (g name)"
  shows "ruleBasedPredict (featuresToArray f) =
     (min ((if g TxCountFiveMin > 3 then 0.15 else 0)
        + (if g TxCountOneHour > 10 then 0.10 else 0)
        + (if g AmountRatioToAvg > 5 then 0.20 else 0)
        + (if g ImpossibleTravel > 0 then 0.30 else 0)
        + (if g IsUnusualHour > 0 then 0.10 else 0)
        + (if g RecipientRiskScore > 0 then 0.10 else 0)
        + (if g TotalTxCount > 0 then 0.15 * min (g TotalTxCount) 3 else 0)) 0.95, 0.7)"
  unfolding ruleBasedPredict_def Let_def featureAt_array assms number.case ..

text \<open>
  C7, at the failing inputs. A vector whose only non-zero feature is \<open>isNewRecipient = 1\<close>
  scores 0 where the claim gives 0.10; a vector whose only non-zero feature is
  \<open>totalTxCount = 50\<close> scores 0.45 where the claim gives 0.
\<close>

theorem rule_based_wrong_indices:
  "ruleBasedPredict (featuresToArray onlyNewRecipient) = (0, 0.7)
   \<and> specRuleBasedScore onlyNewRecipient = Num 0.10
   \<and> ruleBasedPredict (featuresToArray onlyTotalTxCount) = (0.45, 0.7)
   \<and> specRuleBasedScore onlyTotalTxCount = Num 0"
proof -
  have 1: "onlyNewRecipient name = Num (if name = IsNewRecipient then 1 else 0)" for name
    by (simp add: onlyNewRecipient_def)
  have 2: "onlyTotalTxCount name = Num (if name = TotalTxCount then 50 else 0)" for name
    by (simp add: onlyTotalTxCount_def)
  have c: "ruleBasedPredict (featuresToArray onlyNewRecipient) = (0, 0.7)"
    "ruleBasedPredict (featuresToArray onlyTotalTxCount) = (0.45, 0.7)"
    by (simp_all add: rule_based_reads [OF 1] rule_based_reads [OF 2])
  have s: "specRuleBasedScore onlyNewRecipient = Num 0.10"
    "specRuleBasedScore onlyTotalTxCount = Num 0"
    by (simp_all add: specRuleBasedScore_def onlyNewRecipient_def onlyTotalTxCount_def)
  from c s show ?thesis by simp
qed

section \<open>History guards of the amount rules\<close>

lemma contribution_simps:
  "contribution notDetected = Num 0"
  "contribution (detectedWith x) = Num x"
  by (simp_all add: contribution_def addCheck_def notDetected_def detectedWith_def)

text \<open>
  C8 as stated fails: for a user with three transactions (fewer than five) the
  exceeds-historical-max rule adds 0.15 and the z-score rule adds 0.18 to an amount of 300.
\<close>

theorem insufficient_history_counterexample:
  "totalTransactions threeTransactions < 5
   \<and> contribution (checkExceedsMax 300 threeTransactions) = Num 0.15
   \<and> contribution (zScoreRule 300 threeTransactions) = Num 0.18"
  by (simp add: threeTransactions_def checkExceedsMax_def zScoreRule_def checkZScore_def
        contribution_simps)

text \<open>
  C8 (as amended). Each history-dependent rule has its own guard: the ratio-to-average
  rule contributes 0 when the user has fewer than 5 transactions or a zero average, the
  exceeds-historical-max rule when the user has fewer than 3 transactions or a zero
  maximum, and the z-score rule when the standard deviation is not positive (whatever the
  number of transactions).
\<close>

theorem amount_history_guards:
  "(totalTransactions s < 5 \<or> averageAmount s = 0 \<longrightarrow> contribution (checkUnusualAmount cfg a s) = Num 0)
   \<and> (totalTransactions s < 3 \<or> maxAmount s = 0 \<longrightarrow> contribution (checkExceedsMax a s) = Num 0)
   \<and> (standardDeviation s \<le> 0 \<longrightarrow> contribution (zScoreRule a s) = Num 0)"
  by (auto simp add: checkUnusualAmount_def checkExceedsMax_def zScoreRule_def contribution_simps)

theorem amount_history_guards_witness:
  "contribution (checkUnusualAmount defaultConfig 300 (getDefaultStats 0)) = Num 0
   \<and> contribution (checkExceedsMax 300 (getDefaultStats 0)) = Num 0
   \<and> contribution (zScoreRule 300 (getDefaultStats 0)) = Num 0"
  using amount_history_guards [of "getDefaultStats 0" defaultConfig 300]
  by (simp add: getDefaultStats_def)

section \<open>Selectors of the sample inputs\<close>

lemma cfg:
  "suspiciousMin defaultConfig = Num 0.5" "rejectMin defaultConfig = Num 0.8"
  "velocityWeightFiveMinute defaultConfig = Num 0.15"
  "velocityWeightOneHour defaultConfig = Num 0.10"
  "velocityWeightTwentyFourHours defaultConfig = Num 0.08"
  "geographicWeight defaultConfig = Num 0.35" "amountWeight defaultConfig = Num 0.25"
  "recipientWeight defaultConfig = Num 0.30" "timeWeight defaultConfig = Num 0.10"
  "deviceWeight defaultConfig = Num 0.20" "processingTimeoutMs defaultConfig = Num 5000"
  "maxTransfersPerFiveMin defaultConfig = Num 3" "maxTransfersPerHour defaultConfig = Num 10"
  "maxTransfersPerDay defaultConfig = Num 50" "unusualMultiplier defaultConfig = Num 5"
  "largeTransferMin defaultConfig = Num 10000" "impossibleTravelHours defaultConfig = Num 2"
  "newRecipientDays defaultConfig = Num 30" "trustedRecipientMinTransfers defaultConfig = Num 5"
  "mlModelVersion defaultConfig = ''v2.5''"
  "topicFraudAnalysis defaultConfig = ''banking.fraud.analysis''"
  "topicFraudSuspected defaultConfig = ''banking.fraud.suspected''"
  "topicFraudManualReview defaultConfig = ''banking.fraud.manual_review''"
  by (simp_all add: defaultConfig_def)

lemma sampleWorld_simps:
  "sha256 sampleWorld = (\<lambda>s. s)"
  "cacheService sampleWorld = sampleCache"
  "databaseUp sampleWorld = True"
  "recordMatchSucceeds sampleWorld = True"
  "acceptsAnalysisRow sampleWorld = identifiersAreUuids"
  "fraudBlocklistTable sampleWorld = []"
  "fraudAnalysisTable sampleWorld = []"
  "producerConnected sampleWorld = True"
  "producedMessages sampleWorld = []"
  "mlModelService sampleWorld = \<lparr> isLoaded = False, loadedVersion = [] \<rparr>"
  "modelFileExists sampleWorld = False"
  "inferenceFails sampleWorld = False"
  by (simp_all add: sampleWorld_def)

lemma blockedWorld_simps:
  "sha256 blockedWorld = (\<lambda>s. s)"
  "cacheService blockedWorld = sampleCache"
  "databaseUp blockedWorld = True"
  "recordMatchSucceeds blockedWorld = True"
  "acceptsAnalysisRow blockedWorld = identifiersAreUuids"
  "fraudBlocklistTable blockedWorld = [blockedRow]"
  "fraudAnalysisTable blockedWorld = []"
  "producerConnected blockedWorld = True"
  "producedMessages blockedWorld = []"
  "mlModelService blockedWorld = \<lparr> isLoaded = False, loadedVersion = [] \<rparr>"
  "modelFileExists blockedWorld = False"
  "inferenceFails blockedWorld = False"
  by (simp_all add: blockedWorld_def sampleWorld_simps)

lemma unreachableWorld_simps:
  "sha256 unreachableWorld = (\<lambda>s. s)"
  "cacheService unreachableWorld = sampleCache"
  "databaseUp unreachableWorld = False"
  "recordMatchSucceeds unreachableWorld = True"
  "acceptsAnalysisRow unreachableWorld = identifiersAreUuids"
  "fraudBlocklistTable unreachableWorld = [blockedRow]"
  "fraudAnalysisTable unreachableWorld = []"
  "producerConnected unreachableWorld = True"
  "producedMessages unreachableWorld = []"
  "mlModelService unreachableWorld = \<lparr> isLoaded = False, loadedVersion = [] \<rparr>"
  "modelFileExists unreachableWorld = False"
  "inferenceFails unreachableWorld = False"
  by (simp_all add: unreachableWorld_def blockedWorld_simps)

lemma sampleCache_simps:
  "redisConnected sampleCache = True"
  "userHistoryKeys sampleCache = Map.empty"
  "deviceKeys sampleCache = Map.empty"
  "recipientKeys sampleCache = Map.empty"
  "blocklistKeys sampleCache = Map.empty"
  "velocityCountKeys sampleCache = (\<lambda>k. 0)"
  "velocityAmountKeys sampleCache = (\<lambda>k. 0)"
  "analysisKeys sampleCache = Map.empty"
  by (simp_all add: sampleCache_def)

lemma sampleTransaction_simps:
  "transactionId sampleTransaction = ''00000000-0000-4000-8000-000000000001''"
  "userId sampleTransaction = ''00000000-0000-4000-8000-000000000002''"
  "destinationAccountId sampleTransaction = Some ''acc-2''"
  "recipientId sampleTransaction = ''rcp-1''"
  "amount sampleTransaction = 110"
  "timestamp sampleTransaction = None"
  "geographic sampleTransaction = None" "device sampleTransaction = None"
  by (simp_all add: sampleTransaction_def)

lemma constructorEvent_simps:
  "transactionId (payload constructorEvent) = ''00000000-0000-4000-8000-000000000001''"
  "userId (payload constructorEvent) = ''00000000-0000-4000-8000-000000000002''"
  "destinationAccountId (payload constructorEvent) = Some ''acc-2''"
  "recipientId (payload constructorEvent) = ''rcp-1''"
  "amount (payload constructorEvent) = 110"
  "timestamp (payload constructorEvent) = Some wednesdayNoon"
  "geographic (payload constructorEvent) =
     Some \<lparr> ip = ''203.0.113.7'', latitude = None, longitude = None,
            country = Some ''constructor'', city = None \<rparr>"
  "device (payload constructorEvent) = None"
  "correlationId constructorEvent = None"
  by (simp_all add: constructorEvent_def sampleTransaction_def)

section \<open>The invariant of a risk factor\<close>

lemma addCheck_nonneg: "0 \<le> acc \<Longrightarrow> 0 \<le> checkScore c \<Longrightarrow> 0 \<le> addCheck c acc"
  unfolding addCheck_def by (cases "detected c") (simp_all only: if_True if_False add_nonneg_number)

lemma check_simps:
  "checkScore notDetected = Num 0" "checkScore (detectedWith x) = Num x"
  "detected notDetected = False" "detected (detectedWith x) = True"
  by (simp_all add: notDetected_def detectedWith_def)

lemma amount_checks_nonneg:
  "0 \<le> checkScore (checkUnusualAmount cfg a s)"
  "0 \<le> checkScore (checkExceedsMax a s)"
  "0 \<le> checkScore (checkAbsoluteLarge cfg a)"
  "0 \<le> checkScore (checkRoundNumber a)"
  "0 \<le> checkScore (checkBelowReportingThreshold a)"
  "0 \<le> checkScore (zScoreRule a s)"
  "0 \<le> checkScore (newAccountLarge now a s)"
  by (simp_all add: checkUnusualAmount_def checkExceedsMax_def checkAbsoluteLarge_def
        checkRoundNumber_def checkBelowReportingThreshold_def zScoreRule_def checkZScore_def
        newAccountLarge_def check_simps Let_def)

lemma nonneg_literals:
  "(0::number) \<le> Num 0" "(0::number) \<le> Num 0.40" "(0::number) \<le> Num 0.45"
  "(0::number) \<le> Num 0.50" "(0::number) \<le> Num 0.25" "(0::number) \<le> Num 0.12"
  "(0::number) \<le> Num 1" "(0::number) \<le> Num 0.3"
  by simp_all

lemma amountRawScore_nonneg: "0 \<le> amountRawScore cfg now a s"
  unfolding amountRawScore_def
  by (intro mathMin_nonneg addCheck_nonneg amount_checks_nonneg nonneg_literals)

lemma product_invariant:
  "0 \<le> raw \<Longrightarrow> 0 \<le> wt \<Longrightarrow>
   factorInvariant \<lparr> detectionMethod = m, score = raw, weight = wt,
                     contributedScore = raw * wt, details = ds \<rparr>"
  by simp

lemma amount_invariant:
  "0 \<le> amountWeight cfg \<Longrightarrow> factorInvariant (amountAnalyze cfg now a h)"
  unfolding amountAnalyze_def Let_def by (rule product_invariant [OF amountRawScore_nonneg])

lemma severity_nonneg: "0 < m \<Longrightarrow> 0 \<le> severity n m"
  by (cases m) (simp_all add: severity_def)

lemma windowScore_nonneg:
  "0 \<le> acc \<Longrightarrow> 0 \<le> w \<Longrightarrow> 0 < m \<Longrightarrow> 0 \<le> windowScore n m w acc"
  unfolding windowScore_def
  by (cases "Num (real n) \<ge> m")
     (simp_all only: if_True if_False add_nonneg_number mult_nonneg_number severity_nonneg)

lemma velocity_checks_nonneg:
  "0 \<le> checkScore (checkAmountSpike vd a)"
  "0 \<le> checkScore (checkRapidDiverseTransfers vd)"
  by (simp_all add: checkAmountSpike_def checkRapidDiverseTransfers_def check_simps Let_def)

lemma velocityRawScore_nonneg:
  assumes "0 \<le> velocityWeightFiveMinute cfg" "0 \<le> velocityWeightOneHour cfg"
    "0 \<le> velocityWeightTwentyFourHours cfg"
    and "0 < maxTransfersPerFiveMin cfg" "0 < maxTransfersPerHour cfg"
    "0 < maxTransfersPerDay cfg"
  shows "0 \<le> velocityRawScore cfg vd a"
  unfolding velocityRawScore_def
  by (intro mathMin_nonneg addCheck_nonneg velocity_checks_nonneg windowScore_nonneg assms
        nonneg_literals)

lemma velocity_factor:
  "fst (velocityAnalyze cfg uid a cs) =
     \<lparr> detectionMethod = VELOCITY, score = velocityRawScore cfg (getVelocityData cs uid) a,
       weight = Num 1, contributedScore = velocityRawScore cfg (getVelocityData cs uid) a,
       details = velocityDetails (getVelocityData cs uid) a \<rparr>"
  by (simp add: velocityAnalyze_def Let_def)

lemma velocity_invariant:
  assumes "0 \<le> velocityWeightFiveMinute cfg" "0 \<le> velocityWeightOneHour cfg"
    "0 \<le> velocityWeightTwentyFourHours cfg"
    and "0 < maxTransfersPerFiveMin cfg" "0 < maxTransfersPerHour cfg"
    "0 < maxTransfersPerDay cfg"
  shows "factorInvariant (fst (velocityAnalyze cfg uid a cs))"
proof -
  from velocityRawScore_nonneg [OF assms, of "getVelocityData cs uid" a]
  obtain r where "velocityRawScore cfg (getVelocityData cs uid) a = Num r" "0 \<le> r"
    unfolding nonneg_number by blast
  then show ?thesis by (simp add: velocity_factor)
qed

lemma geographic_checks_nonneg:
  "0 \<le> checkScore (checkImpossibleTravel cfg now loc h)"
  "0 \<le> checkScore (checkNewCountry loc known)"
  "0 \<le> checkScore checkVPNIndicators"
  by (simp_all add: checkImpossibleTravel_def checkNewCountry_def checkVPNIndicators_def
        check_simps split: option.split)

lemma highRisk_nonneg:
  assumes "\<not> inheritedCountryName loc"
  shows "0 \<le> checkScore (checkHighRiskCountry loc)"
proof -
  have "map_of highRiskCountries c = Some x \<Longrightarrow> 0 \<le> x" for c x
    by (auto simp add: highRiskCountries_def split: if_splits)
  with assms show ?thesis
    by (auto simp add: checkHighRiskCountry_def inheritedCountryName_def truthyString_def
          check_simps split: option.splits)
qed

lemma geographicRawScore_nonneg:
  assumes "\<not> inheritedCountryName loc"
  shows "0 \<le> geographicRawScore cfg now loc h known"
proof -
  have t1: "0 \<le> (case h of None \<Rightarrow> Num 0
                  | Some hh \<Rightarrow> if length (transactions hh) > 0
                      then addCheck (checkImpossibleTravel cfg now loc hh) (Num 0) else Num 0)"
  proof (cases h)
    case None
    then show ?thesis by simp
  next
    case (Some hh)
    have "0 \<le> addCheck (checkImpossibleTravel cfg now loc hh) (Num 0)"
      by (intro addCheck_nonneg geographic_checks_nonneg nonneg_literals)
    with Some show ?thesis by simp
  qed
  have t3: "0 \<le> addCheck (checkHighRiskCountry loc) (addCheck (checkNewCountry loc known)
      (case h of None \<Rightarrow> Num 0
                  | Some hh \<Rightarrow> if length (transactions hh) > 0
                      then addCheck (checkImpossibleTravel cfg now loc hh) (Num 0) else Num 0))"
    by (intro addCheck_nonneg geographic_checks_nonneg highRisk_nonneg assms t1)
  have t4: "0 \<le> addCheck checkVPNIndicators (addCheck (checkHighRiskCountry loc)
      (addCheck (checkNewCountry loc known)
      (case h of None \<Rightarrow> Num 0
                  | Some hh \<Rightarrow> if length (transactions hh) > 0
                      then addCheck (checkImpossibleTravel cfg now loc hh) (Num 0) else Num 0)))"
    by (intro addCheck_nonneg geographic_checks_nonneg t3)
  show ?thesis
    unfolding geographicRawScore_def Let_def
    by (cases "truthyString (geoIp loc)")
       (simp_all only: if_True if_False mathMin_nonneg t3 t4 nonneg_literals)
qed

lemma geographic_invariant:
  "0 \<le> geographicWeight cfg \<Longrightarrow> \<not> inheritedCountryName loc \<Longrightarrow>
   factorInvariant (geographicAnalyze cfg now loc h known)"
  unfolding geographicAnalyze_def Let_def
  by (rule product_invariant [OF geographicRawScore_nonneg])

lemma time_checks_nonneg:
  "0 \<le> checkScore (checkUnusualHour hour ph)"
  "0 \<le> checkScore (checkUnusualDay day pd)"
  "0 \<le> checkScore (checkLateNight hour)"
  "0 \<le> checkScore (checkWeekendPattern day h)"
  "0 \<le> checkScore (checkHoliday ts)"
  "0 \<le> checkScore (checkActivityBurst now hour h)"
  by (simp_all add: checkUnusualHour_def checkUnusualDay_def checkLateNight_def
        checkWeekendPattern_def checkHoliday_def checkActivityBurst_def check_simps
        split: option.split)

lemma timeRawScore_nonneg: "0 \<le> timeRawScore now ts h ph pd"
  unfolding timeRawScore_def
  by (intro mathMin_nonneg addCheck_nonneg time_checks_nonneg nonneg_literals)

lemma time_invariant:
  "0 \<le> timeWeight cfg \<Longrightarrow> factorInvariant (timeAnalyze cfg now ts h ph pd)"
  unfolding timeAnalyze_def Let_def by (rule product_invariant [OF timeRawScore_nonneg])

lemma checkNewRecipient_nonneg: "0 \<le> checkScore (checkNewRecipient cfg now rid info trusted)"
  by (simp add: checkNewRecipient_def check_simps split: option.split)

lemma recipientRawScore_nonneg: "0 \<le> recipientRawScore cfg now rid info h trusted"
  unfolding recipientRawScore_def Let_def
  by (intro mathMin_nonneg add_nonneg_number addCheck_nonneg checkNewRecipient_nonneg
        nonneg_literals)
     (simp_all split: option.split)

lemma recipient_blocked:
  "fst (recipientCheckBlocklist rid acc w) \<Longrightarrow>
   fst (recipientAnalyze cfg now rid acc h trusted w) =
     \<lparr> detectionMethod = RECIPIENT, score = Num 1, weight = recipientWeight cfg,
       contributedScore = Num 1, details = [(''blocked'', DBool True)] \<rparr>"
  by (cases "recipientCheckBlocklist rid acc w") (simp add: recipientAnalyze_def)

lemma recipient_not_blocked:
  "\<not> fst (recipientCheckBlocklist rid acc w) \<Longrightarrow>
   \<exists>info. fst (recipientAnalyze cfg now rid acc h trusted w) =
     \<lparr> detectionMethod = RECIPIENT,
       score = recipientRawScore cfg now rid (Some info) h trusted,
       weight = recipientWeight cfg,
       contributedScore = recipientRawScore cfg now rid (Some info) h trusted * recipientWeight cfg,
       details = [] \<rparr>"
  by (cases "recipientCheckBlocklist rid acc w")
     (auto simp add: recipientAnalyze_def Let_def split: option.split)

lemma recipient_invariant:
  assumes "0 \<le> recipientWeight cfg"
  shows "factorInvariant (fst (recipientAnalyze cfg now rid acc h trusted w))"
proof (cases "fst (recipientCheckBlocklist rid acc w)")
  case True
  then show ?thesis using assms by (simp add: recipient_blocked)
next
  case False
  from recipient_not_blocked [OF this] obtain info where
    f: "fst (recipientAnalyze cfg now rid acc h trusted w) =
       \<lparr> detectionMethod = RECIPIENT,
         score = recipientRawScore cfg now rid (Some info) h trusted,
         weight = recipientWeight cfg,
         contributedScore = recipientRawScore cfg now rid (Some info) h trusted * recipientWeight cfg,
         details = [] \<rparr>" by blast
  show ?thesis
    unfolding f by (rule product_invariant [OF recipientRawScore_nonneg assms])
qed

lemma device_checks_nonneg:
  "0 \<le> checkScore (analyzeUserAgent w ua)"
  "0 \<le> checkScore (checkProxyIndicators ua)"
  "0 \<le> checkScore (checkFingerprintQuality fp)"
  by (simp_all add: analyzeUserAgent_def checkProxyIndicators_def checkFingerprintQuality_def
        check_simps Let_def)

lemma checkNewDevice_nonneg: "checkNewDevice fp kd = Some c \<Longrightarrow> 0 \<le> checkScore c"
  by (auto simp add: checkNewDevice_def check_simps split: if_splits option.splits)

lemma checkDevicePattern_nonneg: "checkDevicePattern fp kd h = Some c \<Longrightarrow> 0 \<le> checkScore c"
  by (auto simp add: checkDevicePattern_def check_simps
      split: if_splits option.splits HistoryArgument.splits)

lemma deviceRawScore_nonneg:
  assumes "deviceRawScore w fp ua kd h info c = Some raw" and "0 \<le> checkScore c"
  shows "0 \<le> raw"
proof -
  let ?t2 = "addCheck c (Num 0) + Num (case info of
                       Some i \<Rightarrow> if trustScore i < 0.5 then (1 - trustScore i) * 0.15 else 0
                     | None \<Rightarrow> 0)"
  let ?t3 = "(if truthyString ua then addCheck (analyzeUserAgent w (the ua)) ?t2 else ?t2)"
  let ?t4 = "(if truthyString ua then addCheck (checkProxyIndicators (the ua)) ?t3 else ?t3)"
  have i: "0 \<le> Num (case info of
                       Some i \<Rightarrow> if trustScore i < 0.5 then (1 - trustScore i) * 0.15 else 0
                     | None \<Rightarrow> 0)"
    by (simp split: option.split)
  have t2: "0 \<le> ?t2"
    by (intro add_nonneg_number addCheck_nonneg assms nonneg_literals i)
  have t4: "0 \<le> ?t4"
  proof (cases "truthyString ua")
    case True
    have "0 \<le> addCheck (checkProxyIndicators (the ua)) (addCheck (analyzeUserAgent w (the ua)) ?t2)"
      by (intro addCheck_nonneg t2 device_checks_nonneg)
    with True show ?thesis by (simp only: if_True)
  next
    case False
    with t2 show ?thesis by (simp only: if_False)
  qed
  from assms(1) obtain dp where dp: "checkDevicePattern fp kd h = Some dp"
    and raw: "raw = mathMin (if truthyString fp
                        then addCheck (checkFingerprintQuality (the fp)) (addCheck dp ?t4)
                        else addCheck dp ?t4) (Num 0.40)"
    by (auto simp add: deviceRawScore_def Let_def split: option.splits)
  have t5: "0 \<le> addCheck dp ?t4"
    using t4 checkDevicePattern_nonneg [OF dp] by (rule addCheck_nonneg)
  have t6: "0 \<le> addCheck (checkFingerprintQuality (the fp)) (addCheck dp ?t4)"
    by (intro addCheck_nonneg t5 device_checks_nonneg)
  show ?thesis
    unfolding raw
    by (cases "truthyString fp") (simp_all only: if_True if_False mathMin_nonneg t5 t6 nonneg_literals)
qed

lemma device_invariant:
  assumes "0 \<le> deviceWeight cfg"
  shows "factorInvariant (fst (deviceAnalyze cfg fp ua kd h w))"
proof (cases "\<not> truthyString fp \<and> \<not> truthyString ua")
  case True
  have "factorInvariant \<lparr> detectionMethod = DEVICE, score = Num 0.12, weight = deviceWeight cfg,
           contributedScore = Num 0.12 * deviceWeight cfg,
           details = [(''hasFingerprint'', DBool False), (''hasUserAgent'', DBool False)] \<rparr>"
    by (rule product_invariant [OF nonneg_literals(6) assms])
  with True show ?thesis by (simp add: deviceAnalyze_def)
next
  case False
  obtain blocked w1 where b: "(if truthyString fp then deviceCheckBlocklist (the fp) w else (False, w))
                               = (blocked, w1)" by fastforce
  have un: "factorInvariant (analysisUnavailable DEVICE (deviceWeight cfg))"
    using assms by (cases "deviceWeight cfg") (simp_all add: analysisUnavailable_def)
  show ?thesis
  proof (cases blocked)
    case True
    then show ?thesis using False b assms by (simp add: deviceAnalyze_def)
  next
    case nb: False
    show ?thesis
    proof (cases "checkNewDevice fp kd")
      case None
      then show ?thesis using False b nb un assms
        by (simp add: deviceAnalyze_def)
    next
      case (Some c)
      obtain info w2 where i: "(if truthyString fp then
                          (case getDeviceInfo w1 (the fp) of
                             Some info \<Rightarrow> (Some info, w1)
                           | None \<Rightarrow> (Some createDeviceInfo,
                                       setDeviceInfo (the fp) createDeviceInfo w1))
                        else (None, w1)) = (info, w2)" by fastforce
      show ?thesis
      proof (cases "deviceRawScore w2 fp ua kd h info c")
        case None
        then show ?thesis using False b nb Some i un assms
          by (simp add: deviceAnalyze_def)
      next
        case (Some raw)
        have "factorInvariant (deviceFactor cfg raw)"
          unfolding deviceFactor_def
          by (rule product_invariant
                [OF deviceRawScore_nonneg [OF Some checkNewDevice_nonneg [OF \<open>checkNewDevice fp kd = Some c\<close>]]
                    assms])
        then show ?thesis using False b nb \<open>checkNewDevice fp kd = Some c\<close> i Some assms
          by (simp add: deviceAnalyze_def)
      qed
    qed
  qed
qed

lemma ruleBasedPredict_nonneg: "0 \<le> fst (ruleBasedPredict xs)"
  unfolding ruleBasedPredict_def Let_def fst_conv
  by (intro min.boundedI add_nonneg_nonneg) simp_all

lemma mlPredict_nonneg: "mlPredict w f = Some p \<Longrightarrow> 0 \<le> predictedScore p"
  by (auto simp add: mlPredict_def ruleBasedPredict_nonneg split: if_splits)

lemma ml_invariant: "mlPredict w f = Some p \<Longrightarrow> factorInvariant (mlFactor p)"
  by (simp add: mlFactor_def mlPredict_nonneg)

lemma unavailable_invariant: "0 \<le> wt \<Longrightarrow> factorInvariant (analysisUnavailable m wt)"
  by (cases wt) (simp_all add: analysisUnavailable_def)

lemma take16: "take 16 ''rcp-1'' = ''rcp-1''" "take 16 ''acc-2'' = ''acc-2''"
  by simp_all

lemma blocked_check:
  "fst (recipientCheckBlocklist ''rcp-1'' (Some ''acc-2'') blockedWorld)"
  by (simp add: recipientCheckBlocklist_def cachedActive_def isInBlocklist_def
        addToBlocklistCache_def blockedWorld_simps sampleCache_simps blockedRow_def)

text \<open>
  C10 as stated fails on the blocklist short-circuit: for the blocked recipient of the
  sample world the factor has score 1 and weight 0.30, and its contributed score is 1,
  not 0.30.
\<close>

theorem blocklist_factor_counterexample:
  "score (fst (recipientAnalyze defaultConfig 0 ''rcp-1'' (Some ''acc-2'') None [] blockedWorld))
     = Num 1
   \<and> weight (fst (recipientAnalyze defaultConfig 0 ''rcp-1'' (Some ''acc-2'') None [] blockedWorld))
     = Num 0.30
   \<and> contributedScore
       (fst (recipientAnalyze defaultConfig 0 ''rcp-1'' (Some ''acc-2'') None [] blockedWorld))
     = Num 1"
  using recipient_blocked [OF blocked_check] by (simp add: cfg)

text \<open>
  C10 (as amended). With non-negative configured weights and positive configured velocity
  maxima, every factor returned by the six analyzers, by their \<open>catch\<close> blocks and by the
  ML scorer has a non-negative raw score and weight, and its contributed score is the
  product of the two, with two exceptions. The blocklist short-circuit factors of the
  recipient and device analyzers carry raw score 1 and contributed score 1 whatever the
  weight. The geographic factor is exempt when the country of the location is a property
  name inherited from \<open>Object.prototype\<close>: its scores are then NaN.
\<close>

theorem risk_factor_invariant:
  assumes "0 \<le> amountWeight cfg" and "0 \<le> geographicWeight cfg" and "0 \<le> recipientWeight cfg"
    and "0 \<le> timeWeight cfg" and "0 \<le> deviceWeight cfg"
    and "0 \<le> velocityWeightFiveMinute cfg" and "0 \<le> velocityWeightOneHour cfg"
    and "0 \<le> velocityWeightTwentyFourHours cfg"
    and "0 < maxTransfersPerFiveMin cfg" and "0 < maxTransfersPerHour cfg"
    and "0 < maxTransfersPerDay cfg"
  shows "factorInvariant (amountAnalyze cfg now amt userHistory)
    \<and> factorInvariant (fst (velocityAnalyze cfg uid amt cs))
    \<and> factorInvariant (fst (deviceAnalyze cfg fp ua knownDevices historyArg w))
    \<and> (\<not> inheritedCountryName loc
         \<longrightarrow> factorInvariant (geographicAnalyze cfg now loc userHistory knownCountries))
    \<and> factorInvariant (fst (recipientAnalyze cfg now rid acc userHistory trusted w))
    \<and> factorInvariant (timeAnalyze cfg now ts userHistory preferredHours preferredDays)
    \<and> (mlPredict w features = Some prediction \<longrightarrow> factorInvariant (mlFactor prediction))
    \<and> (0 \<le> wt \<longrightarrow> factorInvariant (analysisUnavailable m wt))"
proof -
  have a: "factorInvariant (amountAnalyze cfg now amt userHistory)"
    by (rule amount_invariant [OF assms(1)])
  have v: "factorInvariant (fst (velocityAnalyze cfg uid amt cs))"
    by (rule velocity_invariant [OF assms(6,7,8,9,10,11)])
  have d: "factorInvariant (fst (deviceAnalyze cfg fp ua knownDevices historyArg w))"
    by (rule device_invariant [OF assms(5)])
  have g: "\<not> inheritedCountryName loc
         \<longrightarrow> factorInvariant (geographicAnalyze cfg now loc userHistory knownCountries)"
    by (rule impI) (rule geographic_invariant [OF assms(2)])
  have r: "factorInvariant (fst (recipientAnalyze cfg now rid acc userHistory trusted w))"
    by (rule recipient_invariant [OF assms(3)])
  have t: "factorInvariant (timeAnalyze cfg now ts userHistory preferredHours preferredDays)"
    by (rule time_invariant [OF assms(4)])
  have ml: "mlPredict w features = Some prediction \<longrightarrow> factorInvariant (mlFactor prediction)"
    by (rule impI) (rule ml_invariant)
  have un: "0 \<le> wt \<longrightarrow> factorInvariant (analysisUnavailable m wt)"
    by (rule impI) (rule unavailable_invariant)
  from a v d g r t ml un show ?thesis by simp
qed

lemma default_weights:
  "0 \<le> amountWeight defaultConfig" "0 \<le> geographicWeight defaultConfig"
  "0 \<le> timeWeight defaultConfig" "0 \<le> deviceWeight defaultConfig"
  "0 \<le> velocityWeightFiveMinute defaultConfig" "0 \<le> velocityWeightOneHour defaultConfig"
  "0 \<le> velocityWeightTwentyFourHours defaultConfig"
  "0 < maxTransfersPerFiveMin defaultConfig" "0 < maxTransfersPerHour defaultConfig"
  "0 < maxTransfersPerDay defaultConfig"
  "rejectMin defaultConfig \<le> Num 1"
  by (simp_all add: cfg)

lemma default_recipientWeight: "0 \<le> recipientWeight defaultConfig"
  by (simp add: cfg)

lemma sample_location:
  "currentLocationOf sampleTransaction =
     \<lparr> geoIp = None, geoCountry = None, geoCity = None, geoLatitude = None, geoLongitude = None \<rparr>"
  "\<not> inheritedCountryName (currentLocationOf sampleTransaction)"
  by (simp_all add: currentLocationOf_def inheritedCountryName_def sampleTransaction_simps)

theorem risk_factor_invariant_witness:
  "factorInvariant (amountAnalyze defaultConfig 0 110 None)
   \<and> factorInvariant (fst (velocityAnalyze defaultConfig ''u'' 110 sampleCache))
   \<and> factorInvariant (fst (deviceAnalyze defaultConfig None None DeviceUndefined HistoryEmptyArray
        blockedWorld))
   \<and> factorInvariant (geographicAnalyze defaultConfig 0 (currentLocationOf sampleTransaction) None [])
   \<and> factorInvariant (fst (recipientAnalyze defaultConfig 0 ''rcp-1'' (Some ''acc-2'') None []
        blockedWorld))
   \<and> factorInvariant (timeAnalyze defaultConfig 0 None None [] [])
   \<and> factorInvariant (mlFactor \<lparr> predictedScore = 0, predictedConfidence = 0.7,
        predictedVersion = ''rule-based-v1'' \<rparr>)
   \<and> factorInvariant (analysisUnavailable DEVICE (Num 0.20))"
proof -
  note w = default_weights(1,2) default_recipientWeight default_weights(3-10)
  have f: "onlyNewRecipient name = Num (if name = IsNewRecipient then 1 else 0)" for name
    by (simp add: onlyNewRecipient_def)
  have p: "mlPredict (loadModel defaultConfig blockedWorld) onlyNewRecipient =
             Some \<lparr> predictedScore = 0, predictedConfidence = 0.7,
                    predictedVersion = ''rule-based-v1'' \<rparr>"
    by (simp add: mlPredict_def loadModel_def blockedWorld_simps rule_based_reads [OF f])
  have u: "(0::number) \<le> Num 0.20" by simp
  note inst = risk_factor_invariant [OF w, where now = 0 and amt = 110 and userHistory = None
      and uid = "''u''" and cs = sampleCache and fp = None and ua = None
      and knownDevices = DeviceUndefined and historyArg = HistoryEmptyArray
      and w = blockedWorld and loc = "currentLocationOf sampleTransaction"
      and knownCountries = "[]" and rid = "''rcp-1''" and acc = "Some ''acc-2''" and trusted = "[]"
      and ts = None and preferredHours = "[]" and preferredDays = "[]"]
  have a: "factorInvariant (amountAnalyze defaultConfig 0 110 None)"
    and v: "factorInvariant (fst (velocityAnalyze defaultConfig ''u'' 110 sampleCache))"
    and d: "factorInvariant (fst (deviceAnalyze defaultConfig None None DeviceUndefined
              HistoryEmptyArray blockedWorld))"
    and g: "factorInvariant (geographicAnalyze defaultConfig 0 (currentLocationOf sampleTransaction)
              None [])"
    and r: "factorInvariant (fst (recipientAnalyze defaultConfig 0 ''rcp-1'' (Some ''acc-2'') None []
              blockedWorld))"
    and t: "factorInvariant (timeAnalyze defaultConfig 0 None None [] [])"
    using inst sample_location(2) by simp_all
  have ml: "factorInvariant (mlFactor \<lparr> predictedScore = 0, predictedConfidence = 0.7,
              predictedVersion = ''rule-based-v1'' \<rparr>)"
    and un: "factorInvariant (analysisUnavailable DEVICE (Num 0.20))"
    using risk_factor_invariant [OF w, where w = "loadModel defaultConfig blockedWorld"
      and features = onlyNewRecipient and wt = "Num 0.20" and m = DEVICE
      and prediction = "\<lparr> predictedScore = 0, predictedConfidence = 0.7,
              predictedVersion = ''rule-based-v1'' \<rparr>"] p u
    by simp_all
  from a v d g r t ml un show ?thesis by simp
qed

section \<open>Where a score is not a number\<close>

text \<open>
  The two places where an analyzer returns NaN. A location whose country is an inherited
  property name makes the geographic score and contribution NaN; a configured maximum of 0
  does the same to the velocity score of a user whose counter is empty.
\<close>

lemma inherited_country_factor:
  assumes "country g = Some ''constructor''"
  shows "score (geographicAnalyze cfg now (currentLocationOf (tx\<lparr>geographic := Some g\<rparr>)) None [])
           = NaN"
    and "contributedScore
           (geographicAnalyze cfg now (currentLocationOf (tx\<lparr>geographic := Some g\<rparr>)) None [])
           = NaN"
  using assms
  by (simp_all add: geographicAnalyze_def geographicRawScore_def currentLocationOf_def
        checkNewCountry_def checkHighRiskCountry_def checkVPNIndicators_def highRiskCountries_def
        objectPrototypeKeys_def truthyString_def addCheck_def check_simps)

lemma zero_maximum_factor:
  "score (fst (velocityAnalyze (defaultConfig\<lparr>maxTransfersPerFiveMin := Num 0\<rparr>) uid 110
       sampleCache)) = NaN"
  by (simp add: velocity_factor velocityRawScore_def getVelocityData_def getVelocity_def
        windowScore_def severity_def checkAmountSpike_def checkRapidDiverseTransfers_def
        sampleCache_simps defaultConfig_def addCheck_def check_simps)

section \<open>What the analyzers leave untouched\<close>

lemma untouched_refl: "untouchedByAnalyzers w w"
  by (simp add: untouchedByAnalyzers_def)

lemma untouched_trans:
  "untouchedByAnalyzers w w1 \<Longrightarrow> untouchedByAnalyzers w1 w2 \<Longrightarrow> untouchedByAnalyzers w w2"
  by (simp add: untouchedByAnalyzers_def)

lemma untouched_primitives:
  "untouchedByAnalyzers w (addToBlocklistCache e w)"
  "untouchedByAnalyzers w (setRecipientInfo rid info w)"
  "untouchedByAnalyzers w (setDeviceInfo fp dinfo w)"
  "untouchedByAnalyzers w (recordMatch row w)"
  by (simp_all add: untouchedByAnalyzers_def addToBlocklistCache_def setRecipientInfo_def
        setDeviceInfo_def recordMatch_def cacheHashValue_def)

lemma untouched_recipientCheck:
  "untouchedByAnalyzers w (snd (recipientCheckBlocklist rid acc w))"
  by (auto simp add: recipientCheckBlocklist_def untouched_refl untouched_primitives(1) Let_def
        intro: untouched_trans [OF untouched_primitives(1) untouched_primitives(4)]
        split: option.split)

lemma untouched_deviceCheck:
  "untouchedByAnalyzers w (snd (deviceCheckBlocklist fp w))"
  by (auto simp add: deviceCheckBlocklist_def untouched_refl
        intro: untouched_trans [OF untouched_primitives(4) untouched_primitives(1)]
        split: option.split)

lemma untouched_recipient:
  "untouchedByAnalyzers w (snd (recipientAnalyze cfg now rid acc h trusted w))"
proof -
  obtain b w1 where c: "recipientCheckBlocklist rid acc w = (b, w1)" by fastforce
  have u: "untouchedByAnalyzers w w1" using untouched_recipientCheck [of w rid acc] c by simp
  show ?thesis
    using u untouched_trans [OF u untouched_primitives(2)]
    by (cases b) (auto simp add: recipientAnalyze_def c Let_def split: option.split)
qed

lemma untouched_device:
  "untouchedByAnalyzers w (snd (deviceAnalyze cfg fp ua kd h w))"
proof (cases "\<not> truthyString fp \<and> \<not> truthyString ua")
  case True
  then show ?thesis by (simp add: deviceAnalyze_def untouched_refl)
next
  case False
  obtain blocked w1 where b: "(if truthyString fp then deviceCheckBlocklist (the fp) w else (False, w))
                               = (blocked, w1)" by fastforce
  have u1: "untouchedByAnalyzers w w1"
    using b untouched_deviceCheck [of w "the fp"] untouched_refl [of w]
    by (auto split: if_splits)
  obtain info w2 where i: "(if truthyString fp then
                          (case getDeviceInfo w1 (the fp) of
                             Some info \<Rightarrow> (Some info, w1)
                           | None \<Rightarrow> (Some createDeviceInfo,
                                       setDeviceInfo (the fp) createDeviceInfo w1))
                        else (None, w1)) = (info, w2)" by fastforce
  have "untouchedByAnalyzers w1 w2"
    using i untouched_primitives(3) [of w1 "the fp" createDeviceInfo] untouched_refl [of w1]
    by (auto split: if_splits option.splits)
  with u1 have u2: "untouchedByAnalyzers w w2" by (rule untouched_trans)
  show ?thesis
    using False b i u1 u2
    by (cases blocked) (auto simp add: deviceAnalyze_def split: option.split)
qed

lemma velocity_cache:
  "redisConnected (snd (velocityAnalyze cfg uid a cs)) = redisConnected cs"
  "analysisKeys (snd (velocityAnalyze cfg uid a cs)) = analysisKeys cs"
  "userHistoryKeys (snd (velocityAnalyze cfg uid a cs)) = userHistoryKeys cs"
  "blocklistKeys (snd (velocityAnalyze cfg uid a cs)) = blocklistKeys cs"
  "recipientKeys (snd (velocityAnalyze cfg uid a cs)) = recipientKeys cs"
  by (simp_all add: velocityAnalyze_def incrementVelocity_def Let_def)

lemma untouched_velocity:
  "untouchedByAnalyzers w (w\<lparr>cacheService := snd (velocityAnalyze cfg uid a (cacheService w))\<rparr>)"
  by (simp add: untouchedByAnalyzers_def velocity_cache)

lemma runAnalyzers_eq:
  "runAnalyzers cfg now tx h w =
     (let w1 = w\<lparr>cacheService := snd (velocityAnalyze cfg (userId tx) (amount tx) (cacheService w))\<rparr>;
          w2 = snd (deviceAnalyze cfg (deviceFingerprintOf tx) (userAgentOf tx) (deviceIdArgument tx)
                 HistoryEmptyArray w1)
      in ([amountAnalyze cfg now (amount tx) h,
           fst (velocityAnalyze cfg (userId tx) (amount tx) (cacheService w)),
           fst (deviceAnalyze cfg (deviceFingerprintOf tx) (userAgentOf tx) (deviceIdArgument tx)
                 HistoryEmptyArray w1),
           geographicAnalyze cfg now (currentLocationOf tx) h [],
           fst (recipientAnalyze cfg now (recipientId tx) (destinationAccountId tx) h [] w2),
           timeAnalyze cfg now (timestamp tx) h (buildPreferredHours h) (buildPreferredDays h)],
          snd (recipientAnalyze cfg now (recipientId tx) (destinationAccountId tx) h [] w2)))"
  by (simp add: runAnalyzers_def Let_def split_def)

lemma untouched_runAnalyzers:
  "untouchedByAnalyzers w (snd (runAnalyzers cfg now tx h w))"
  unfolding runAnalyzers_eq Let_def snd_conv
  by (rule untouched_trans [OF untouched_trans [OF untouched_velocity untouched_device]
        untouched_recipient])

section \<open>The blocklist state and the lookup\<close>

lemma deviceAnalyze_preserves:
  assumes rm: "\<And>w row. Q w \<Longrightarrow> Q (recordMatch row w)"
    and ab: "\<And>w row. Q w \<Longrightarrow> Q (addToBlocklistCache (entryOfRow row TypeDEVICE True) w)"
    and sd: "\<And>w fp i. Q w \<Longrightarrow> Q (setDeviceInfo fp i w)"
    and q: "Q w"
  shows "Q (snd (deviceAnalyze cfg fp ua kd h w))"
proof (cases "\<not> truthyString fp \<and> \<not> truthyString ua")
  case True
  then show ?thesis using q by (simp add: deviceAnalyze_def)
next
  case False
  obtain blocked w1 where b: "(if truthyString fp then deviceCheckBlocklist (the fp) w else (False, w))
                               = (blocked, w1)" by fastforce
  have q1: "Q w1"
    using b q ab [OF rm [OF q]]
    by (auto simp add: deviceCheckBlocklist_def split: if_splits option.splits)
  obtain info w2 where i: "(if truthyString fp then
                          (case getDeviceInfo w1 (the fp) of
                             Some info \<Rightarrow> (Some info, w1)
                           | None \<Rightarrow> (Some createDeviceInfo,
                                       setDeviceInfo (the fp) createDeviceInfo w1))
                        else (None, w1)) = (info, w2)" by fastforce
  have q2: "Q w2"
    using i q1 sd [OF q1] by (auto split: if_splits option.splits)
  show ?thesis
    using False b i q1 q2
    by (cases blocked) (auto simp add: deviceAnalyze_def split: option.split)
qed

lemma list_ex_find: "list_ex P xs = (find P xs \<noteq> None)"
  by (induction xs) simp_all

text \<open>The cache lookup of the code answers exactly for the keys that hold an active entry.\<close>

lemma cached_holds:
  "cachedActive (isInBlocklist w ty (Some v)) = cacheHoldsActive w ty v"
  "cachedActive (isInBlocklist w ty None) = False"
  by (simp_all add: cachedActive_def isInBlocklist_def cacheHoldsActive_def cacheHashValue_def
        split: option.split)

lemma table_find:
  "(find (\<lambda>r. valueHash r \<in> {sha256 w rid, sha256 w account} \<and> isActive r)
      (fraudBlocklistTable w) \<noteq> None) = tableHoldsActive w rid account"
  by (auto simp add: tableHoldsActive_def list_ex_iff find_None_iff)

lemma addToBlocklistCache_environment:
  "recordMatchSucceeds (addToBlocklistCache e w) = recordMatchSucceeds w"
  "databaseUp (addToBlocklistCache e w) = databaseUp w"
  "sha256 (addToBlocklistCache e w) = sha256 w"
  "fraudBlocklistTable (addToBlocklistCache e w) = fraudBlocklistTable w"
  by (simp_all add: addToBlocklistCache_def)

text \<open>
  The lookup of the recipient analyzer detects a blocklisted recipient exactly in the
  states in which an active entry can be found.
\<close>

lemma recipientCheck_matches:
  "fst (recipientCheckBlocklist rid acc w) = matchesActiveEntry w rid acc"
proof (cases acc)
  case None
  then show ?thesis
    by (simp add: recipientCheckBlocklist_def matchesActiveEntry_def cached_holds)
next
  case (Some account)
  show ?thesis
  proof (cases "find (\<lambda>r. valueHash r \<in> {sha256 w rid, sha256 w account} \<and> isActive r)
                  (fraudBlocklistTable w)")
    case None
    with table_find [of w rid account] have "\<not> tableHoldsActive w rid account" by simp
    with None Some show ?thesis
      by (simp add: recipientCheckBlocklist_def matchesActiveEntry_def cached_holds)
  next
    case (Some row)
    with table_find [of w rid account] have "tableHoldsActive w rid account" by simp
    with Some \<open>acc = Some account\<close> show ?thesis
      by (simp add: recipientCheckBlocklist_def matchesActiveEntry_def cached_holds Let_def
            addToBlocklistCache_environment)
  qed
qed

lemma cacheHolds_unchanged:
  "cacheHoldsActive (recordMatch row w) ty v = cacheHoldsActive w ty v"
  "cacheHoldsActive (setDeviceInfo fp i w) ty v = cacheHoldsActive w ty v"
  "cacheHoldsActive (w\<lparr>cacheService := snd (velocityAnalyze cfg uid a (cacheService w))\<rparr>) ty v
     = cacheHoldsActive w ty v"
  "ty \<noteq> TypeDEVICE \<Longrightarrow>
   cacheHoldsActive (addToBlocklistCache (entryOfRow row TypeDEVICE True) w) ty v
     = cacheHoldsActive w ty v"
  by (simp_all add: cacheHoldsActive_def recordMatch_def setDeviceInfo_def addToBlocklistCache_def
        entryOfRow_def velocity_cache)

lemma recordMatch_list_ex:
  "list_ex (\<lambda>r. isActive r \<and> P (valueHash r)) (fraudBlocklistTable (recordMatch row w))
     = list_ex (\<lambda>r. isActive r \<and> P (valueHash r)) (fraudBlocklistTable w)"
proof -
  have "list_ex (\<lambda>r. isActive r \<and> P (valueHash r))
          (map (\<lambda>r. if rowId r = i then r\<lparr>matchCount := matchCount r + 1\<rparr> else r) xs)
        = list_ex (\<lambda>r. isActive r \<and> P (valueHash r)) xs" for i xs
    by (induction xs) auto
  then show ?thesis by (simp add: recordMatch_def)
qed

lemma tableHolds_unchanged:
  "tableHoldsActive (recordMatch row w) rid account = tableHoldsActive w rid account"
  "tableHoldsActive (setDeviceInfo fp i w) rid account = tableHoldsActive w rid account"
  "tableHoldsActive (w\<lparr>cacheService := cs\<rparr>) rid account = tableHoldsActive w rid account"
  "tableHoldsActive (addToBlocklistCache e w) rid account = tableHoldsActive w rid account"
proof -
  have s: "sha256 (recordMatch row w) = sha256 w" by (simp add: recordMatch_def)
  show "tableHoldsActive (recordMatch row w) rid account = tableHoldsActive w rid account"
    unfolding tableHoldsActive_def s
    by (rule recordMatch_list_ex
          [where P = "\<lambda>h. h = sha256 w rid \<or> h = sha256 w account"])
  show "tableHoldsActive (setDeviceInfo fp i w) rid account = tableHoldsActive w rid account"
    "tableHoldsActive (w\<lparr>cacheService := cs\<rparr>) rid account = tableHoldsActive w rid account"
    "tableHoldsActive (addToBlocklistCache e w) rid account = tableHoldsActive w rid account"
    by (simp_all add: tableHoldsActive_def setDeviceInfo_def addToBlocklistCache_def)
qed

lemma environment_unchanged:
  "databaseUp (recordMatch row w) = databaseUp w"
  "recordMatchSucceeds (recordMatch row w) = recordMatchSucceeds w"
  "databaseUp (setDeviceInfo fp i w) = databaseUp w"
  "recordMatchSucceeds (setDeviceInfo fp i w) = recordMatchSucceeds w"
  "databaseUp (addToBlocklistCache e w) = databaseUp w"
  "recordMatchSucceeds (addToBlocklistCache e w) = recordMatchSucceeds w"
  "databaseUp (w\<lparr>cacheService := cs\<rparr>) = databaseUp w"
  "recordMatchSucceeds (w\<lparr>cacheService := cs\<rparr>) = recordMatchSucceeds w"
  by (simp_all add: recordMatch_def setDeviceInfo_def addToBlocklistCache_def)

lemma matches_recordMatch:
  "matchesActiveEntry (recordMatch row w) rid acc = matchesActiveEntry w rid acc"
  unfolding matchesActiveEntry_def
  by (simp only: cacheHolds_unchanged environment_unchanged tableHolds_unchanged)

lemma matches_addDevice:
  "matchesActiveEntry (addToBlocklistCache (entryOfRow row TypeDEVICE True) w) rid acc
     = matchesActiveEntry w rid acc"
  unfolding matchesActiveEntry_def
  by (cases acc) (simp_all add: cacheHolds_unchanged environment_unchanged tableHolds_unchanged)

lemma matches_setDeviceInfo:
  "matchesActiveEntry (setDeviceInfo fp i w) rid acc = matchesActiveEntry w rid acc"
  unfolding matchesActiveEntry_def
  by (simp only: cacheHolds_unchanged environment_unchanged tableHolds_unchanged)

lemma matches_velocity:
  "matchesActiveEntry (w\<lparr>cacheService := snd (velocityAnalyze cfg uid a (cacheService w))\<rparr>) rid acc
     = matchesActiveEntry w rid acc"
  unfolding matchesActiveEntry_def
  by (simp only: cacheHolds_unchanged environment_unchanged tableHolds_unchanged)

lemma matches_device:
  "matchesActiveEntry w rid acc \<Longrightarrow>
   matchesActiveEntry (snd (deviceAnalyze cfg fp ua kd h w)) rid acc"
  by (rule deviceAnalyze_preserves [where Q = "\<lambda>w. matchesActiveEntry w rid acc"])
     (simp_all add: matches_recordMatch matches_addDevice matches_setDeviceInfo)

lemma matches_device_iff:
  "matchesActiveEntry (snd (deviceAnalyze cfg fp ua kd h w)) rid acc = matchesActiveEntry w rid acc"
  by (rule deviceAnalyze_preserves
        [where Q = "\<lambda>w'. matchesActiveEntry w' rid acc = matchesActiveEntry w rid acc"])
     (simp_all add: matches_recordMatch matches_addDevice matches_setDeviceInfo)

section \<open>The structure of a run\<close>

lemma ensureModelLoaded_loaded: "isLoaded (mlModelService (ensureModelLoaded cfg w))"
  by (simp add: ensureModelLoaded_def loadModel_def)

lemma mlPredict_loaded: "isLoaded (mlModelService w) \<Longrightarrow> \<exists>p. mlPredict w f = Some p"
  by (simp add: mlPredict_def)

lemma analyse_eq:
  "\<exists>p mv. mlPredict (ensureModelLoaded cfg (snd (runAnalyzers cfg now tx (getUserHistory w (userId tx)) w)))
             (constructMLFeatures tx (fst (runAnalyzers cfg now tx (getUserHistory w (userId tx)) w))
                (getUserHistory w (userId tx))) = Some p
     \<and> analyse cfg now aid tx w =
         Inr (calculateFinalDecision cfg aid tx
                (fst (runAnalyzers cfg now tx (getUserHistory w (userId tx)) w) @ [mlFactor p]) mv,
              ensureModelLoaded cfg (snd (runAnalyzers cfg now tx (getUserHistory w (userId tx)) w)))"
proof -
  let ?h = "getUserHistory w (userId tx)"
  let ?ra = "runAnalyzers cfg now tx ?h w"
  let ?w2 = "ensureModelLoaded cfg (snd ?ra)"
  from mlPredict_loaded [OF ensureModelLoaded_loaded]
  obtain p where p: "mlPredict ?w2 (constructMLFeatures tx (fst ?ra) ?h) = Some p" by blast
  then have "analyse cfg now aid tx w =
         Inr (calculateFinalDecision cfg aid tx (fst ?ra @ [mlFactor p])
                (if predictedVersion p = [] then ''unknown'' else predictedVersion p), ?w2)"
    by (simp add: analyse_def Let_def split_def)
  with p show ?thesis by blast
qed

lemma process_hit:
  "getCachedAnalysis w (transactionId (payload ev)) = Some m \<Longrightarrow>
   processTransaction cfg t0 now t1 aid ev w = Inr (None, w)"
  by (simp add: processTransaction_def)

lemma process_miss:
  assumes "getCachedAnalysis w (transactionId (payload ev)) = None"
    and "analyse cfg now aid (payload ev) w = Inr (r, w2)"
  shows "processTransaction cfg t0 now t1 aid ev w =
     Inr (Some (r\<lparr>analysisTimeMs := t1 - t0\<rparr>),
          cacheAnalysis (transactionId (payload ev))
            \<lparr> cachedDecision = decision r, cachedScore = finalScore r \<rparr>
            (publishResult cfg r (correlationId ev) (saveAnalysis r w2)))"
  using assms by (simp add: processTransaction_def Let_def)

lemma process_result:
  assumes "processTransaction cfg t0 now t1 aid ev w = Inr (Some r, w')"
  shows "\<exists>p mv. r = (calculateFinalDecision cfg aid (payload ev)
             (fst (runAnalyzers cfg now (payload ev)
                     (getUserHistory w (userId (payload ev))) w) @ [mlFactor p]) mv)
             \<lparr>analysisTimeMs := t1 - t0\<rparr>"
proof -
  from analyse_eq [of cfg now "payload ev" w aid] obtain p mv where
    a: "analyse cfg now aid (payload ev) w =
         Inr (calculateFinalDecision cfg aid (payload ev)
                (fst (runAnalyzers cfg now (payload ev)
                        (getUserHistory w (userId (payload ev))) w) @ [mlFactor p]) mv,
              ensureModelLoaded cfg (snd (runAnalyzers cfg now (payload ev)
                        (getUserHistory w (userId (payload ev))) w)))"
    by blast
  show ?thesis
  proof (cases "getCachedAnalysis w (transactionId (payload ev))")
    case None
    from process_miss [OF None a, where ?t0.0 = t0 and ?t1.0 = t1] assms show ?thesis by auto
  next
    case (Some m)
    from process_hit [OF Some, where cfg = cfg and ?t0.0 = t0 and now = now and ?t1.0 = t1 and aid = aid] assms
    show ?thesis by simp
  qed
qed

section \<open>Score and decision of a processed event\<close>

lemma invariant_contributed_nonneg:
  assumes "0 \<le> score f" and "0 \<le> weight f"
    and "contributedScore f = score f * weight f \<or>
         (map_of (details f) ''blocked'' = Some (DBool True) \<and> score f = Num 1
          \<and> contributedScore f = Num 1)"
  shows "0 \<le> contributedScore f"
  using assms mult_nonneg_number [of "score f" "weight f"] by auto

lemma update_time_fields:
  "finalScore (r\<lparr>analysisTimeMs := t\<rparr>) = finalScore r"
  "decision (r\<lparr>analysisTimeMs := t\<rparr>) = decision r"
  "requiresManualReview (r\<lparr>analysisTimeMs := t\<rparr>) = requiresManualReview r"
  "riskFactors (r\<lparr>analysisTimeMs := t\<rparr>) = riskFactors r"
  "status (r\<lparr>analysisTimeMs := t\<rparr>) = status r"
  "confidence (r\<lparr>analysisTimeMs := t\<rparr>) = confidence r"
  "analysisTimeMs (r\<lparr>analysisTimeMs := t\<rparr>) = t"
  by simp_all

lemma threshold_cases:
  assumes "s \<le> (t::number)"
    and "d = (if f \<ge> t then REJECT else if f \<ge> s then SUSPICIOUS else APPROVE)"
    and "m = (f \<ge> s)"
  shows "(f < s \<longrightarrow> d = APPROVE \<and> \<not> m)
    \<and> (s \<le> f \<and> f < t \<longrightarrow> d = SUSPICIOUS \<and> m)
    \<and> (t \<le> f \<longrightarrow> d = REJECT \<and> m)"
  using assms by (cases s; cases t; cases f) auto

text \<open>
  C1. For every event that \<open>processTransaction\<close> analyses, the final score is the
  minimum of 1 and the sum of the contributed scores of the collected factors, and the
  decision is the threshold function of that score: below \<open>suspiciousMin\<close> APPROVE without
  manual review, from \<open>suspiciousMin\<close> and below \<open>rejectMin\<close> SUSPICIOUS with manual review,
  from \<open>rejectMin\<close> REJECT with manual review. The thresholds are ordered,
  \<open>suspiciousMin \<le> rejectMin\<close>, as the three cases of the claim presuppose. Sum, minimum
  and comparisons are those of JavaScript numbers.
\<close>

theorem final_score_and_decision:
  assumes "suspiciousMin cfg \<le> rejectMin cfg"
    and "processTransaction cfg t0 now t1 aid ev w = Inr (Some r, w')"
  shows "finalScore r = mathMin (Num 1) (sum_list (map contributedScore (riskFactors r)))
    \<and> (finalScore r < suspiciousMin cfg \<longrightarrow> decision r = APPROVE \<and> \<not> requiresManualReview r)
    \<and> (suspiciousMin cfg \<le> finalScore r \<and> finalScore r < rejectMin cfg
          \<longrightarrow> decision r = SUSPICIOUS \<and> requiresManualReview r)
    \<and> (rejectMin cfg \<le> finalScore r \<longrightarrow> decision r = REJECT \<and> requiresManualReview r)"
proof -
  from process_result [OF assms(2)] obtain fs mv where
    r: "r = (calculateFinalDecision cfg aid (payload ev) fs mv)\<lparr>analysisTimeMs := t1 - t0\<rparr>"
    by blast
  have s: "finalScore r = mathMin (Num 1) (sum_list (map contributedScore (riskFactors r)))"
    unfolding r update_time_fields by (simp only: calc_finalScore calc_fields)
  have d: "decision r = (if finalScore r \<ge> rejectMin cfg then REJECT
                         else if finalScore r \<ge> suspiciousMin cfg then SUSPICIOUS else APPROVE)"
    unfolding r update_time_fields by (rule calc_decision(1))
  have m: "requiresManualReview r = (finalScore r \<ge> suspiciousMin cfg)"
    unfolding r update_time_fields by (rule calc_decision(2))
  from s threshold_cases [OF assms(1) d m] show ?thesis by (rule conjI)
qed

section \<open>The blocklist short-circuit in the pipeline\<close>

lemma seven_contributions:
  assumes "0 \<le> a" "0 \<le> v" "0 \<le> d" "0 \<le> g" "0 \<le> t" "0 \<le> m"
  shows "mathMin (Num 1) (sum_list [a, v, d, g, Num 1, t, m]) = Num 1"
proof -
  from assms obtain a' v' d' g' t' m' where
    "a = Num a'" "0 \<le> a'" "v = Num v'" "0 \<le> v'" "d = Num d'" "0 \<le> d'"
    "g = Num g'" "0 \<le> g'" "t = Num t'" "0 \<le> t'" "m = Num m'" "0 \<le> m'"
    unfolding nonneg_number by blast
  then show ?thesis by simp
qed

lemma blocked_pipeline:
  assumes "0 \<le> amountWeight cfg" and "0 \<le> geographicWeight cfg"
    and "0 \<le> timeWeight cfg" and "0 \<le> deviceWeight cfg"
    and "0 \<le> velocityWeightFiveMinute cfg" and "0 \<le> velocityWeightOneHour cfg"
    and "0 \<le> velocityWeightTwentyFourHours cfg"
    and "0 < maxTransfersPerFiveMin cfg" and "0 < maxTransfersPerHour cfg"
    and "0 < maxTransfersPerDay cfg"
    and "rejectMin cfg \<le> Num 1"
    and "\<not> inheritedCountryName (currentLocationOf tx)"
    and "matchesActiveEntry w (recipientId tx) (destinationAccountId tx)"
  shows "\<exists>r w2. analyse cfg now aid tx w = Inr (r, w2) \<and> decision r = REJECT
           \<and> finalScore r = Num 1"
proof -
  let ?h = "getUserHistory w (userId tx)"
  let ?w1 = "w\<lparr>cacheService := snd (velocityAnalyze cfg (userId tx) (amount tx) (cacheService w))\<rparr>"
  let ?w2 = "snd (deviceAnalyze cfg (deviceFingerprintOf tx) (userAgentOf tx) (deviceIdArgument tx)
                 HistoryEmptyArray ?w1)"
  let ?a = "amountAnalyze cfg now (amount tx) ?h"
  let ?v = "fst (velocityAnalyze cfg (userId tx) (amount tx) (cacheService w))"
  let ?d = "fst (deviceAnalyze cfg (deviceFingerprintOf tx) (userAgentOf tx) (deviceIdArgument tx)
                 HistoryEmptyArray ?w1)"
  let ?g = "geographicAnalyze cfg now (currentLocationOf tx) ?h []"
  let ?r = "fst (recipientAnalyze cfg now (recipientId tx) (destinationAccountId tx) ?h [] ?w2)"
  let ?t = "timeAnalyze cfg now (timestamp tx) ?h (buildPreferredHours ?h) (buildPreferredDays ?h)"
  from analyse_eq [of cfg now tx w aid] obtain p mv where
    p: "mlPredict (ensureModelLoaded cfg (snd (runAnalyzers cfg now tx ?h w)))
          (constructMLFeatures tx (fst (runAnalyzers cfg now tx ?h w)) ?h) = Some p"
    and a: "analyse cfg now aid tx w =
         Inr (calculateFinalDecision cfg aid tx (fst (runAnalyzers cfg now tx ?h w) @ [mlFactor p]) mv,
              ensureModelLoaded cfg (snd (runAnalyzers cfg now tx ?h w)))"
    by blast
  have fs: "fst (runAnalyzers cfg now tx ?h w) = [?a, ?v, ?d, ?g, ?r, ?t]"
    by (simp add: runAnalyzers_eq Let_def)
  have "matchesActiveEntry ?w2 (recipientId tx) (destinationAccountId tx)"
    by (rule matches_device) (simp only: matches_velocity assms(13))
  then have "fst (recipientCheckBlocklist (recipientId tx) (destinationAccountId tx) ?w2)"
    by (simp only: recipientCheck_matches)
  from recipient_blocked [OF this] have r1: "contributedScore ?r = Num 1" by simp
  have a0: "0 \<le> contributedScore ?a"
    using amount_invariant [OF assms(1)] by (intro invariant_contributed_nonneg) blast+
  have v0: "0 \<le> contributedScore ?v"
    using velocity_invariant [OF assms(5,6,7,8,9,10)]
    by (intro invariant_contributed_nonneg) blast+
  have d0: "0 \<le> contributedScore ?d"
    using device_invariant [OF assms(4)] by (intro invariant_contributed_nonneg) blast+
  have g0: "0 \<le> contributedScore ?g"
    using geographic_invariant [OF assms(2) assms(12)]
    by (intro invariant_contributed_nonneg) blast+
  have t0: "0 \<le> contributedScore ?t"
    using time_invariant [OF assms(3)] by (intro invariant_contributed_nonneg) blast+
  have m0: "0 \<le> contributedScore (mlFactor p)"
    using ml_invariant [OF p] by (intro invariant_contributed_nonneg) blast+
  have "map contributedScore (fst (runAnalyzers cfg now tx ?h w) @ [mlFactor p])
          = [contributedScore ?a, contributedScore ?v, contributedScore ?d, contributedScore ?g,
             Num 1, contributedScore ?t, contributedScore (mlFactor p)]"
    unfolding fs using r1 by simp
  then have f1: "finalScore (calculateFinalDecision cfg aid tx
                   (fst (runAnalyzers cfg now tx ?h w) @ [mlFactor p]) mv) = Num 1"
    unfolding calc_finalScore by (simp only: seven_contributions [OF a0 v0 d0 g0 t0 m0])
  have "decision (calculateFinalDecision cfg aid tx
                   (fst (runAnalyzers cfg now tx ?h w) @ [mlFactor p]) mv) = REJECT"
    unfolding calc_decision(1) f1 using assms(11) by simp
  with a f1 show ?thesis by blast
qed

text \<open>
  A country that is an inherited property name makes the geographic contribution NaN,
  hence the sum and the final score: every comparison with the thresholds is false and
  the decision is APPROVE without manual review, whatever the other factors are.
\<close>

lemma sum_list_NaN: "NaN \<in> set xs \<Longrightarrow> sum_list xs = NaN"
  by (induction xs) auto

lemma inherited_not_listed:
  "c \<in> set objectPrototypeKeys \<Longrightarrow> map_of highRiskCountries c = None"
  by (auto simp add: objectPrototypeKeys_def highRiskCountries_def)

lemma addCheck_NaN: "addCheck c NaN = NaN"
  by (simp add: addCheck_def)

lemma inherited_geographic:
  assumes "inheritedCountryName loc"
  shows "contributedScore (geographicAnalyze cfg now loc h known) = NaN"
proof -
  from assms obtain c where c: "geoCountry loc = Some c" "c \<in> set objectPrototypeKeys"
    by (auto simp add: inheritedCountryName_def split: option.splits)
  from c(2) have "c \<noteq> []" by (auto simp add: objectPrototypeKeys_def)
  with c have "checkHighRiskCountry loc = \<lparr> detected = True, checkScore = NaN \<rparr>"
    by (simp add: checkHighRiskCountry_def truthyString_def inherited_not_listed)
  then have "geographicRawScore cfg now loc h known = NaN"
    by (simp add: geographicRawScore_def Let_def addCheck_def checkVPNIndicators_def check_simps)
  then show ?thesis by (simp add: geographicAnalyze_def Let_def)
qed

lemma inherited_pipeline:
  assumes "inheritedCountryName (currentLocationOf tx)"
  shows "\<exists>r w2. analyse cfg now aid tx w = Inr (r, w2) \<and> decision r = APPROVE
           \<and> finalScore r = NaN \<and> \<not> requiresManualReview r"
proof -
  let ?h = "getUserHistory w (userId tx)"
  from analyse_eq [of cfg now tx w aid] obtain p mv where
    a: "analyse cfg now aid tx w =
         Inr (calculateFinalDecision cfg aid tx (fst (runAnalyzers cfg now tx ?h w) @ [mlFactor p]) mv,
              ensureModelLoaded cfg (snd (runAnalyzers cfg now tx ?h w)))"
    by blast
  have "NaN \<in> set (map contributedScore (fst (runAnalyzers cfg now tx ?h w) @ [mlFactor p]))"
    by (simp add: runAnalyzers_eq Let_def inherited_geographic [OF assms])
  then have f: "finalScore (calculateFinalDecision cfg aid tx
                   (fst (runAnalyzers cfg now tx ?h w) @ [mlFactor p]) mv) = NaN"
    unfolding calc_finalScore by (simp only: sum_list_NaN mathMin_simps)
  have "decision (calculateFinalDecision cfg aid tx
                   (fst (runAnalyzers cfg now tx ?h w) @ [mlFactor p]) mv) = APPROVE"
    "\<not> requiresManualReview (calculateFinalDecision cfg aid tx
                   (fst (runAnalyzers cfg now tx ?h w) @ [mlFactor p]) mv)"
    unfolding calc_decision f by simp_all
  with a f show ?thesis by blast
qed

section \<open>Effects of a run\<close>

lemma device_method: "detectionMethod (fst (deviceAnalyze cfg fp ua kd h w)) = DEVICE"
  by (rule deviceAnalyze_preserves
        [where Q = "\<lambda>w'. detectionMethod (fst (deviceAnalyze cfg fp ua kd h w)) = DEVICE"])
     (auto simp add: deviceAnalyze_def analysisUnavailable_def deviceFactor_def split_def Let_def
        split: option.split)

lemma recipient_method:
  "detectionMethod (fst (recipientAnalyze cfg now rid acc h trusted w)) = RECIPIENT"
  by (cases "recipientCheckBlocklist rid acc w")
     (auto simp add: recipientAnalyze_def Let_def split: option.split bool.split)

lemma runAnalyzers_methods:
  "map detectionMethod (fst (runAnalyzers cfg now tx h w))
     = [AMOUNT, VELOCITY, DEVICE, GEOGRAPHIC, RECIPIENT, TIME]"
  by (simp add: runAnalyzers_eq Let_def amountAnalyze_def velocity_factor device_method
        geographicAnalyze_def recipient_method timeAnalyze_def)

lemma analyse_frame:
  assumes "analyse cfg now aid tx w = Inr (r, w2)"
  shows "producerConnected w2 = producerConnected w"
    and "producedMessages w2 = producedMessages w"
    and "fraudAnalysisTable w2 = fraudAnalysisTable w"
    and "databaseUp w2 = databaseUp w"
    and "redisConnected (cacheService w2) = redisConnected (cacheService w)"
    and "analysisKeys (cacheService w2) = analysisKeys (cacheService w)"
    and "acceptsAnalysisRow w2 = acceptsAnalysisRow w"
proof -
  let ?ra = "runAnalyzers cfg now tx (getUserHistory w (userId tx)) w"
  from analyse_eq [of cfg now tx w aid] assms have w2: "w2 = ensureModelLoaded cfg (snd ?ra)"
    by auto
  have u: "untouchedByAnalyzers w (snd ?ra)" by (rule untouched_runAnalyzers)
  show "producerConnected w2 = producerConnected w"
    and "producedMessages w2 = producedMessages w"
    and "fraudAnalysisTable w2 = fraudAnalysisTable w"
    and "databaseUp w2 = databaseUp w"
    and "redisConnected (cacheService w2) = redisConnected (cacheService w)"
    and "analysisKeys (cacheService w2) = analysisKeys (cacheService w)"
    and "acceptsAnalysisRow w2 = acceptsAnalysisRow w"
    using u unfolding w2
    by (simp_all add: untouchedByAnalyzers_def ensureModelLoaded_def loadModel_def)
qed

lemma analyse_result:
  assumes "analyse cfg now aid tx w = Inr (r, w2)"
  shows "status r = COMPLETED" and "map detectionMethod (riskFactors r) = allMethods"
    and "resTransactionId r = transactionId tx" and "analysisId r = aid"
    and "resUserId r = userId tx" and "analysisTimeMs r = 0"
proof -
  from analyse_eq [of cfg now tx w aid] assms obtain p mv where
    r: "r = calculateFinalDecision cfg aid tx
              (fst (runAnalyzers cfg now tx (getUserHistory w (userId tx)) w) @ [mlFactor p]) mv"
    by auto
  show "status r = COMPLETED" and "map detectionMethod (riskFactors r) = allMethods"
    and "resTransactionId r = transactionId tx" and "analysisId r = aid"
    and "resUserId r = userId tx" and "analysisTimeMs r = 0"
    unfolding r by (simp_all add: calc_fields runAnalyzers_methods allMethods_def mlFactor_def)
qed

lemma analyse_total: "\<exists>r w2. analyse cfg now aid tx w = Inr (r, w2)"
  using analyse_eq [of cfg now tx w aid] by blast

lemma publish_connected:
  "producerConnected w \<Longrightarrow>
   producedMessages (publish tp m w) = producedMessages w @ [m\<lparr>topic := tp\<rparr>]
   \<and> producerConnected (publish tp m w)"
  by (simp add: publish_def)

lemma publishResult_messages:
  assumes "producerConnected w"
  shows "producedMessages (publishResult cfg r cid w) =
     producedMessages w @
       (if decision r = REJECT then
          [\<lparr> topic = topicFraudSuspected cfg, messageKey = resTransactionId r,
             eventType = FraudSuspected, eventCorrelationId = cid,
             eventPayload = AnalysisPayload r \<rparr>]
        else if decision r = SUSPICIOUS \<or> requiresManualReview r then
          [\<lparr> topic = topicFraudSuspected cfg, messageKey = resTransactionId r,
             eventType = FraudSuspected, eventCorrelationId = cid,
             eventPayload = AnalysisPayload r \<rparr>,
           \<lparr> topic = topicFraudManualReview cfg, messageKey = resTransactionId r,
             eventType = ManualReviewRequired, eventCorrelationId = cid,
             eventPayload = ReviewPayload (reviewRequestOf r) \<rparr>]
        else
          [\<lparr> topic = topicFraudAnalysis cfg, messageKey = resTransactionId r,
             eventType = FraudAnalysisComplete, eventCorrelationId = cid,
             eventPayload = AnalysisPayload r \<rparr>])"
  using assms
  by (simp add: publishResult_def publishFraudSuspected_def publishManualReviewRequired_def
        publishAnalysisComplete_def publish_def reviewRequestOf_def)

lemma publishResult_analyses:
  assumes "producerConnected w"
  shows "\<exists>ms. producedMessages (publishResult cfg r cid w) = producedMessages w @ ms
           \<and> publishedAnalyses ms = [r]"
  unfolding publishResult_messages [OF assms]
  by (simp add: publishedAnalyses_def)

lemma publishResult_frame:
  "cacheService (publishResult cfg r cid w) = cacheService w"
  "fraudAnalysisTable (publishResult cfg r cid w) = fraudAnalysisTable w"
  by (simp_all add: publishResult_def publishFraudSuspected_def publishManualReviewRequired_def
        publishAnalysisComplete_def publish_def)

lemma saveAnalysis_frame:
  "cacheService (saveAnalysis r w) = cacheService w"
  "producerConnected (saveAnalysis r w) = producerConnected w"
  "producedMessages (saveAnalysis r w) = producedMessages w"
  by (simp_all add: saveAnalysis_def)

lemma saveAnalysis_table:
  "fraudAnalysisTable (saveAnalysis r w) = fraudAnalysisTable w @
     (if databaseUp w \<and> acceptsAnalysisRow w r
         \<and> resTransactionId r \<notin> set (map resTransactionId (fraudAnalysisTable w))
      then [r] else [])"
  by (simp add: saveAnalysis_def)

lemma cacheAnalysis_frame:
  "producedMessages (cacheAnalysis tid m w) = producedMessages w"
  "fraudAnalysisTable (cacheAnalysis tid m w) = fraudAnalysisTable w"
  by (simp_all add: cacheAnalysis_def)

lemma cacheAnalysis_marks:
  "redisConnected (cacheService w) \<Longrightarrow> getCachedAnalysis (cacheAnalysis tid m w) tid = Some m"
  by (simp add: cacheAnalysis_def getCachedAnalysis_def)

text \<open>
  What a run without idempotency marker does: it returns the analysis \<open>c\<close> of
  \<open>calculateFinalDecision\<close> with the measured duration written into it afterwards, it has
  tried to insert \<open>c\<close> as it was before that, and it has published \<open>c\<close> as it was before that.
\<close>

lemma run_effects:
  assumes "getCachedAnalysis w (transactionId (payload ev)) = None"
  shows "\<exists>c w'. processTransaction cfg t0 now t1 aid ev w
                   = Inr (Some (c\<lparr>analysisTimeMs := t1 - t0\<rparr>), w')
      \<and> status c = COMPLETED \<and> map detectionMethod (riskFactors c) = allMethods
      \<and> analysisId c = aid \<and> resTransactionId c = transactionId (payload ev)
      \<and> resUserId c = userId (payload ev) \<and> analysisTimeMs c = 0
      \<and> fraudAnalysisTable w' = fraudAnalysisTable w @
           (if databaseUp w \<and> acceptsAnalysisRow w c
               \<and> transactionId (payload ev) \<notin> set (map resTransactionId (fraudAnalysisTable w))
            then [c] else [])
      \<and> (producerConnected w \<longrightarrow>
           (\<exists>ms. producedMessages w' = producedMessages w @ ms \<and> publishedAnalyses ms = [c]))"
proof -
  from analyse_total obtain c w2 where a: "analyse cfg now aid (payload ev) w = Inr (c, w2)"
    by blast
  let ?w' = "cacheAnalysis (transactionId (payload ev))
            \<lparr> cachedDecision = decision c, cachedScore = finalScore c \<rparr>
            (publishResult cfg c (correlationId ev) (saveAnalysis c w2))"
  note pm = process_miss [OF assms a, where ?t0.0 = t0 and ?t1.0 = t1]
  have t: "fraudAnalysisTable ?w' = fraudAnalysisTable w @
           (if databaseUp w \<and> acceptsAnalysisRow w c
               \<and> transactionId (payload ev) \<notin> set (map resTransactionId (fraudAnalysisTable w))
            then [c] else [])"
    by (simp only: cacheAnalysis_frame publishResult_frame saveAnalysis_table
          analyse_frame(3,4,7) [OF a] analyse_result(3) [OF a])
  have m: "\<exists>ms. producedMessages ?w' = producedMessages w @ ms \<and> publishedAnalyses ms = [c]"
    if pc: "producerConnected w"
  proof -
    have "producerConnected (saveAnalysis c w2)"
      using pc analyse_frame(1) [OF a] by (simp only: saveAnalysis_frame)
    from publishResult_analyses [OF this, of cfg c "correlationId ev"]
    show ?thesis
      by (simp only: cacheAnalysis_frame saveAnalysis_frame analyse_frame(2) [OF a])
  qed
  from pm analyse_result [OF a] t m show ?thesis by blast
qed

text \<open>
  C2 (as amended). When the blocklist lookup finds an active entry for the recipient or
  the destination account of a transaction (the entry is in the blocklist cache, or the
  account is a string, the table holds the row, and the query and the update of the match
  count succeed), the recipient analyzer returns a factor with raw score 1 and contributed
  score 1. The pipeline then decides REJECT with final score 1, whatever the other
  analyzers return or however they fail, provided the other contributions are numbers that
  are not negative: the configured weights are not negative, the configured velocity
  maxima are positive, and the country of the event is not a property name inherited from
  \<open>Object.prototype\<close>; and provided \<open>rejectMin \<le> 1\<close> and the event has no idempotency marker.
\<close>

theorem blocklisted_recipient_rejected:
  assumes "0 \<le> amountWeight cfg" and "0 \<le> geographicWeight cfg"
    and "0 \<le> timeWeight cfg" and "0 \<le> deviceWeight cfg"
    and "0 \<le> velocityWeightFiveMinute cfg" and "0 \<le> velocityWeightOneHour cfg"
    and "0 \<le> velocityWeightTwentyFourHours cfg"
    and "0 < maxTransfersPerFiveMin cfg" and "0 < maxTransfersPerHour cfg"
    and "0 < maxTransfersPerDay cfg"
    and "rejectMin cfg \<le> Num 1"
    and "\<not> inheritedCountryName (currentLocationOf (payload ev))"
    and "matchesActiveEntry w (recipientId (payload ev)) (destinationAccountId (payload ev))"
    and "getCachedAnalysis w (transactionId (payload ev)) = None"
  shows "score (fst (recipientAnalyze cfg now (recipientId (payload ev))
                  (destinationAccountId (payload ev)) userHistory trusted w)) = Num 1
    \<and> contributedScore (fst (recipientAnalyze cfg now (recipientId (payload ev))
                  (destinationAccountId (payload ev)) userHistory trusted w)) = Num 1
    \<and> map_option decision (producedAnalysis (processTransaction cfg t0 now t1 aid ev w))
        = Some REJECT
    \<and> map_option finalScore (producedAnalysis (processTransaction cfg t0 now t1 aid ev w))
        = Some (Num 1)"
proof -
  have "fst (recipientCheckBlocklist (recipientId (payload ev)) (destinationAccountId (payload ev)) w)"
    using assms(13) by (simp only: recipientCheck_matches)
  from recipient_blocked [OF this]
  have f: "fst (recipientAnalyze cfg now (recipientId (payload ev))
                  (destinationAccountId (payload ev)) userHistory trusted w) =
     \<lparr> detectionMethod = RECIPIENT, score = Num 1, weight = recipientWeight cfg,
       contributedScore = Num 1, details = [(''blocked'', DBool True)] \<rparr>" .
  from blocked_pipeline [OF assms(1-13)] obtain r w2 where
    a: "analyse cfg now aid (payload ev) w = Inr (r, w2)" and d: "decision r = REJECT"
    and s: "finalScore r = Num 1"
    by blast
  from process_miss [OF assms(14) a] d s
  have "map_option decision (producedAnalysis (processTransaction cfg t0 now t1 aid ev w))
          = Some REJECT"
    "map_option finalScore (producedAnalysis (processTransaction cfg t0 now t1 aid ev w))
          = Some (Num 1)"
    by (simp_all add: producedAnalysis_def)
  with f show ?thesis by simp
qed

text \<open>
  C4. For an event whose transaction has a cached analysis marker, \<open>processTransaction\<close>
  returns normally and leaves the world as it was: no message is published, no row is
  inserted, no velocity counter is incremented. Hence, with the cache connected, a second
  run on the world left by a first run of the same event (the marker not yet expired)
  changes nothing: the messages are those of the first run.
\<close>

theorem idempotent_redelivery:
  "(getCachedAnalysis w (transactionId (payload ev)) \<noteq> None
      \<longrightarrow> processTransaction cfg t0 now t1 aid ev w = Inr (None, w))
   \<and> (redisConnected (cacheService w)
      \<longrightarrow> (\<exists>res w1. processTransaction cfg t0 now t1 aid ev w = Inr (res, w1)
            \<and> processTransaction cfg t0' now' t1' aid' ev w1 = Inr (None, w1)))"
proof (intro conjI impI)
  assume "getCachedAnalysis w (transactionId (payload ev)) \<noteq> None"
  then show "processTransaction cfg t0 now t1 aid ev w = Inr (None, w)"
    using process_hit by fastforce
next
  assume rc: "redisConnected (cacheService w)"
  show "\<exists>res w1. processTransaction cfg t0 now t1 aid ev w = Inr (res, w1)
            \<and> processTransaction cfg t0' now' t1' aid' ev w1 = Inr (None, w1)"
  proof (cases "getCachedAnalysis w (transactionId (payload ev))")
    case (Some m)
    from process_hit [OF Some] show ?thesis by blast
  next
    case None
    from analyse_total obtain r w2 where a: "analyse cfg now aid (payload ev) w = Inr (r, w2)"
      by blast
    let ?m = "\<lparr> cachedDecision = decision r, cachedScore = finalScore r \<rparr>"
    let ?w3 = "publishResult cfg r (correlationId ev) (saveAnalysis r w2)"
    let ?w4 = "cacheAnalysis (transactionId (payload ev)) ?m ?w3"
    have "redisConnected (cacheService ?w3)"
      using rc analyse_frame(5) [OF a] by (simp only: publishResult_frame saveAnalysis_frame)
    then have "getCachedAnalysis ?w4 (transactionId (payload ev)) = Some ?m"
      by (rule cacheAnalysis_marks)
    from process_miss [OF None a] process_hit [OF this] show ?thesis by blast
  qed
qed

text \<open>
  C5 (as amended). The pipeline enforces no deadline. For every event without an
  idempotency marker, whatever the two clock readings \<open>t0\<close> and \<open>t1\<close> and whatever
  \<open>processingTimeoutMs\<close>, the run produces an analysis with status COMPLETED and the factors
  of all six analyzers and of the ML scorer. The analysis it hands to the database (and
  that is inserted unless the database refuses the row) and the analysis it publishes
  (when the producer is connected) have the same status, factors, score and decision.
\<close>

theorem no_deadline_status_completed:
  assumes "getCachedAnalysis w (transactionId (payload ev)) = None"
  shows "\<exists>r c w'. processTransaction cfg t0 now t1 aid ev w = Inr (Some r, w')
      \<and> status r = COMPLETED \<and> map detectionMethod (riskFactors r) = allMethods
      \<and> status c = COMPLETED \<and> riskFactors c = riskFactors r
      \<and> finalScore c = finalScore r \<and> decision c = decision r
      \<and> analysisId c = aid \<and> resTransactionId c = transactionId (payload ev)
      \<and> resUserId c = userId (payload ev)
      \<and> fraudAnalysisTable w' = fraudAnalysisTable w @
           (if databaseUp w \<and> acceptsAnalysisRow w c
               \<and> transactionId (payload ev) \<notin> set (map resTransactionId (fraudAnalysisTable w))
            then [c] else [])
      \<and> (producerConnected w \<longrightarrow>
           (\<exists>ms. producedMessages w' = producedMessages w @ ms \<and> publishedAnalyses ms = [c]))"
proof -
  from run_effects [OF assms, of cfg t0 now t1 aid] obtain c w' where
    "processTransaction cfg t0 now t1 aid ev w = Inr (Some (c\<lparr>analysisTimeMs := t1 - t0\<rparr>), w')"
    "status c = COMPLETED" "map detectionMethod (riskFactors c) = allMethods"
    "analysisId c = aid" "resTransactionId c = transactionId (payload ev)"
    "resUserId c = userId (payload ev)"
    "fraudAnalysisTable w' = fraudAnalysisTable w @
           (if databaseUp w \<and> acceptsAnalysisRow w c
               \<and> transactionId (payload ev) \<notin> set (map resTransactionId (fraudAnalysisTable w))
            then [c] else [])"
    "producerConnected w \<longrightarrow>
           (\<exists>ms. producedMessages w' = producedMessages w @ ms \<and> publishedAnalyses ms = [c])"
    by blast
  then show ?thesis
    by (intro exI [of _ "c\<lparr>analysisTimeMs := t1 - t0\<rparr>"] exI [of _ c] exI [of _ w'])
       (simp only: update_time_fields simp_thms)
qed

section \<open>A run of the sample event, step by step\<close>

lemma velocity_recipientKeys:
  "recipientKeys (snd (velocityAnalyze cfg uid a cs)) = recipientKeys cs"
  by (simp add: velocityAnalyze_def incrementVelocity_def Let_def)

lemma device_absent:
  "deviceAnalyze cfg None None kd h w =
     (\<lparr> detectionMethod = DEVICE, score = Num 0.12, weight = deviceWeight cfg,
        contributedScore = Num 0.12 * deviceWeight cfg,
        details = [(''hasFingerprint'', DBool False), (''hasUserAgent'', DBool False)] \<rparr>, w)"
  by (simp add: deviceAnalyze_def truthyString_def)

lemma recipientCheck_info:
  "getRecipientInfo (snd (recipientCheckBlocklist rid acc w)) r = getRecipientInfo w r"
  by (simp add: recipientCheckBlocklist_def getRecipientInfo_def addToBlocklistCache_def
        recordMatch_def Let_def split: option.split)

lemma recipient_unknown:
  assumes "\<not> matchesActiveEntry w rid acc" and "getRecipientInfo w rid = None"
  shows "fst (recipientAnalyze cfg now rid acc None [] w) =
     \<lparr> detectionMethod = RECIPIENT, score = Num 0.20, weight = recipientWeight cfg,
       contributedScore = Num 0.20 * recipientWeight cfg, details = [] \<rparr>"
proof -
  obtain b w1 where c: "recipientCheckBlocklist rid acc w = (b, w1)" by fastforce
  have b: "b = False"
    using assms(1) recipientCheck_matches [of rid acc w] c by simp
  have i: "getRecipientInfo w1 rid = None"
    using recipientCheck_info [of rid acc w rid] c assms(2) by simp
  have raw: "recipientRawScore cfg now rid (Some (computeRecipientInfo cfg rid None)) None [] = Num 0.20"
    by (simp add: recipientRawScore_def computeRecipientInfo_def unknownRecipient_def
          checkNewRecipient_def truthyString_def addCheck_def check_simps Let_def)
  show ?thesis
    using c b i raw by (simp add: recipientAnalyze_def Let_def)
qed

lemma amount_sample:
  "amountAnalyze defaultConfig 0 110 None =
     \<lparr> detectionMethod = AMOUNT, score = Num 0, weight = Num 0.25, contributedScore = Num 0,
       details = [] \<rparr>"
  by (simp add: amountAnalyze_def amountRawScore_def getDefaultStats_def checkUnusualAmount_def
        checkExceedsMax_def checkAbsoluteLarge_def checkRoundNumber_def roundThresholds_def
        checkBelowReportingThreshold_def zScoreRule_def newAccountLarge_def isNewAccount_def
        msPerDay_def cfg addCheck_def check_simps Let_def)

lemma time_invalid_date:
  "timeAnalyze defaultConfig 0 None None (buildPreferredHours None) (buildPreferredDays None) =
     \<lparr> detectionMethod = TIME, score = Num 0, weight = Num 0.10, contributedScore = Num 0,
       details = [] \<rparr>"
  by (simp add: timeAnalyze_def timeRawScore_def checkUnusualHour_def checkUnusualDay_def
        checkLateNight_def checkWeekendPattern_def checkHoliday_def holidays_def
        checkActivityBurst_def buildPreferredHours_def buildPreferredDays_def
        hoursOf_def dayOf_def monthOf_def dateOf_def ofNat_def
        cfg addCheck_def check_simps Let_def)

lemma geographic_sample:
  "geographicAnalyze defaultConfig 0 (currentLocationOf sampleTransaction) None [] =
     \<lparr> detectionMethod = GEOGRAPHIC, score = Num 0, weight = Num 0.35, contributedScore = Num 0,
       details = [] \<rparr>"
  by (simp add: geographicAnalyze_def geographicRawScore_def sample_location
        checkNewCountry_def checkHighRiskCountry_def checkVPNIndicators_def truthyString_def
        cfg addCheck_def check_simps Let_def)

lemma velocity_sample:
  "fst (velocityAnalyze defaultConfig uid 110 sampleCache) =
     \<lparr> detectionMethod = VELOCITY, score = Num 0, weight = Num 1, contributedScore = Num 0,
       details = [(''transactionsFiveMin'', DNum 1), (''transactionsOneHour'', DNum 1),
                  (''transactionsTwentyFourHours'', DNum 1), (''amountFiveMin'', DNum 110),
                  (''amountOneHour'', DNum 110), (''amountTwentyFourHours'', DNum 110)] \<rparr>"
  by (simp add: velocity_factor velocityRawScore_def getVelocityData_def getVelocity_def
        windowScore_def checkAmountSpike_def checkRapidDiverseTransfers_def velocityDetails_def
        sampleCache_simps cfg addCheck_def check_simps)

text \<open>
  The six factors of the sample event on any world that has the sample cache and in which
  the blocklist lookup finds nothing for the recipient and the account.
\<close>

lemma sample_factors:
  assumes "cacheService w = sampleCache"
    and "\<not> matchesActiveEntry w ''rcp-1'' (Some ''acc-2'')"
  shows "fst (runAnalyzers defaultConfig 0 sampleTransaction None w) =
     [\<lparr> detectionMethod = AMOUNT, score = Num 0, weight = Num 0.25, contributedScore = Num 0,
        details = [] \<rparr>,
      \<lparr> detectionMethod = VELOCITY, score = Num 0, weight = Num 1, contributedScore = Num 0,
        details = [(''transactionsFiveMin'', DNum 1), (''transactionsOneHour'', DNum 1),
                  (''transactionsTwentyFourHours'', DNum 1), (''amountFiveMin'', DNum 110),
                  (''amountOneHour'', DNum 110), (''amountTwentyFourHours'', DNum 110)] \<rparr>,
      \<lparr> detectionMethod = DEVICE, score = Num 0.12, weight = Num 0.20,
        contributedScore = Num 0.024,
        details = [(''hasFingerprint'', DBool False), (''hasUserAgent'', DBool False)] \<rparr>,
      \<lparr> detectionMethod = GEOGRAPHIC, score = Num 0, weight = Num 0.35, contributedScore = Num 0,
        details = [] \<rparr>,
      \<lparr> detectionMethod = RECIPIENT, score = Num 0.20, weight = Num 0.30,
        contributedScore = Num 0.06, details = [] \<rparr>,
      \<lparr> detectionMethod = TIME, score = Num 0, weight = Num 0.10, contributedScore = Num 0,
        details = [] \<rparr>]"
proof -
  let ?uid = "''00000000-0000-4000-8000-000000000002''"
  let ?w1 = "w\<lparr>cacheService := snd (velocityAnalyze defaultConfig ?uid 110 sampleCache)\<rparr>"
  have "\<not> matchesActiveEntry (w\<lparr>cacheService :=
               snd (velocityAnalyze defaultConfig ?uid 110 (cacheService w))\<rparr>)
            ''rcp-1'' (Some ''acc-2'')"
    using assms(2) by (simp only: matches_velocity not_False_eq_True)
  then have nb: "\<not> matchesActiveEntry ?w1 ''rcp-1'' (Some ''acc-2'')"
    unfolding assms(1) .
  have ni: "getRecipientInfo ?w1 ''rcp-1'' = None"
    by (simp add: getRecipientInfo_def velocity_recipientKeys sampleCache_simps)
  have dv: "deviceFingerprintOf sampleTransaction = None" "userAgentOf sampleTransaction = None"
    by (simp_all add: deviceFingerprintOf_def userAgentOf_def sampleTransaction_simps)
  show ?thesis
    unfolding runAnalyzers_eq Let_def fst_conv sampleTransaction_simps dv device_absent snd_conv
      assms(1)
    by (simp add: amount_sample velocity_sample geographic_sample
          time_invalid_date recipient_unknown [OF nb ni] cfg)
qed

lemma sample_features:
  assumes "fs = fst (runAnalyzers defaultConfig 0 sampleTransaction None w)"
    and "cacheService w = sampleCache"
    and "\<not> matchesActiveEntry w ''rcp-1'' (Some ''acc-2'')"
  shows "constructMLFeatures sampleTransaction fs None TxCountFiveMin = Num 1"
    and "constructMLFeatures sampleTransaction fs None TxCountOneHour = Num 1"
    and "constructMLFeatures sampleTransaction fs None AmountRatioToAvg = Num 1"
    and "constructMLFeatures sampleTransaction fs None ImpossibleTravel = Num 0"
    and "constructMLFeatures sampleTransaction fs None IsUnusualHour = Num 0"
    and "constructMLFeatures sampleTransaction fs None RecipientRiskScore = Num 0"
    and "constructMLFeatures sampleTransaction fs None TotalTxCount = Num 0"
  unfolding assms(1) sample_factors [OF assms(2,3)]
  by (simp_all add: constructMLFeatures_def detailNumberOr_def)

lemma sample_history:
  "cacheService w = sampleCache \<Longrightarrow> getUserHistory w (userId sampleTransaction) = None"
  by (simp add: getUserHistory_def sampleCache_simps)

lemma sample_prediction:
  assumes "cacheService w = sampleCache"
    and "\<not> matchesActiveEntry w ''rcp-1'' (Some ''acc-2'')"
    and "mlModelService w = \<lparr> isLoaded = False, loadedVersion = [] \<rparr>"
    and "\<not> modelFileExists w" and "\<not> inferenceFails w"
  shows "mlPredict (ensureModelLoaded defaultConfig
                (snd (runAnalyzers defaultConfig 0 sampleTransaction None w)))
     (constructMLFeatures sampleTransaction
        (fst (runAnalyzers defaultConfig 0 sampleTransaction None w)) None)
   = Some \<lparr> predictedScore = 0, predictedConfidence = 0.7, predictedVersion = ''rule-based-v1'' \<rparr>"
proof -
  let ?w1 = "snd (runAnalyzers defaultConfig 0 sampleTransaction None w)"
  let ?f = "constructMLFeatures sampleTransaction
        (fst (runAnalyzers defaultConfig 0 sampleTransaction None w)) None"
  have u: "untouchedByAnalyzers w ?w1" by (rule untouched_runAnalyzers)
  then have e: "ensureModelLoaded defaultConfig ?w1 = loadModel defaultConfig ?w1"
    using assms(3) by (simp add: ensureModelLoaded_def untouchedByAnalyzers_def)
  have l: "mlModelService (loadModel defaultConfig ?w1) =
             \<lparr> isLoaded = True, loadedVersion = ''rule-based-v1'' \<rparr>"
    "inferenceFails (loadModel defaultConfig ?w1) = False"
    using u assms(4,5) by (simp_all add: loadModel_def untouchedByAnalyzers_def)
  have p: "ruleBasedPredict (featuresToArray ?f) = (0, 0.7)"
    unfolding ruleBasedPredict_def Let_def featureAt_array
      sample_features [OF refl assms(1,2)]
    by simp
  show ?thesis
    unfolding e mlPredict_def l p by simp
qed

lemma sample_analyse:
  assumes "cacheService w = sampleCache"
    and "\<not> matchesActiveEntry w ''rcp-1'' (Some ''acc-2'')"
    and "mlModelService w = \<lparr> isLoaded = False, loadedVersion = [] \<rparr>"
    and "\<not> modelFileExists w" and "\<not> inferenceFails w"
  shows "analyse defaultConfig 0 aid sampleTransaction w =
     Inr (calculateFinalDecision defaultConfig aid sampleTransaction
            (fst (runAnalyzers defaultConfig 0 sampleTransaction None w) @ [ruleBasedFactor])
            ''rule-based-v1'',
          ensureModelLoaded defaultConfig
            (snd (runAnalyzers defaultConfig 0 sampleTransaction None w)))"
  unfolding analyse_def sample_history [OF assms(1)] Let_def split_def
    sample_prediction [OF assms] ruleBasedFactor_def
  by simp

text \<open>The analysis of the sample event on such a world: 0.084, approved without review.\<close>

lemma sample_analysis:
  assumes "cacheService w = sampleCache"
    and "\<not> matchesActiveEntry w ''rcp-1'' (Some ''acc-2'')"
    and "mlModelService w = \<lparr> isLoaded = False, loadedVersion = [] \<rparr>"
    and "\<not> modelFileExists w" and "\<not> inferenceFails w"
  shows "\<exists>r w2. analyse defaultConfig 0 aid sampleTransaction w = Inr (r, w2)
     \<and> map contributedScore (riskFactors r)
           = [Num 0, Num 0, Num 0.024, Num 0, Num 0.06, Num 0, Num 0]
     \<and> finalScore r = Num 0.084 \<and> decision r = APPROVE \<and> \<not> requiresManualReview r"
proof -
  let ?r = "calculateFinalDecision defaultConfig aid sampleTransaction
            (fst (runAnalyzers defaultConfig 0 sampleTransaction None w) @ [ruleBasedFactor])
            ''rule-based-v1''"
  have c: "map contributedScore (riskFactors ?r)
           = [Num 0, Num 0, Num 0.024, Num 0, Num 0.06, Num 0, Num 0]"
    unfolding calc_fields sample_factors [OF assms(1,2)]
    by (simp add: ruleBasedFactor_def mlFactor_def)
  have f: "finalScore ?r = Num 0.084"
    unfolding calc_finalScore c [unfolded calc_fields] by simp
  have d: "decision ?r = APPROVE" "\<not> requiresManualReview ?r"
    unfolding calc_decision f by (simp_all add: cfg)
  show ?thesis
    unfolding sample_analyse [OF assms, of aid] using c f d by simp
qed

lemma sample_no_marker:
  "cacheService w = sampleCache \<Longrightarrow>
   getCachedAnalysis w (transactionId (payload sampleEvent)) = None"
  by (simp add: getCachedAnalysis_def sampleCache_simps)

lemma sample_not_blocked: "\<not> matchesActiveEntry sampleWorld ''rcp-1'' (Some ''acc-2'')"
  by (simp add: matchesActiveEntry_def cacheHoldsActive_def tableHoldsActive_def
        sampleWorld_simps sampleCache_simps)

lemma unreachable_not_found: "\<not> matchesActiveEntry unreachableWorld ''rcp-1'' (Some ''acc-2'')"
  by (simp add: matchesActiveEntry_def cacheHoldsActive_def unreachableWorld_simps
        sampleCache_simps)

lemma unreachable_row: "tableHoldsActive unreachableWorld ''rcp-1'' ''acc-2''"
  by (simp add: tableHoldsActive_def unreachableWorld_simps blockedRow_def)

lemma blocked_matches:
  "matchesActiveEntry blockedWorld (recipientId (payload sampleEvent))
     (destinationAccountId (payload sampleEvent))"
  by (simp add: matchesActiveEntry_def tableHoldsActive_def blockedWorld_simps blockedRow_def
        sampleEvent_def sampleTransaction_simps)

lemma sample_run_analysis:
  "map_option (map contributedScore \<circ> riskFactors) (producedAnalysis sampleRun)
     = Some [Num 0, Num 0, Num 0.024, Num 0, Num 0.06, Num 0, Num 0]"
  "map_option finalScore (producedAnalysis sampleRun) = Some (Num 0.084)"
  "map_option decision (producedAnalysis sampleRun) = Some APPROVE"
  "map_option requiresManualReview (producedAnalysis sampleRun) = Some False"
proof -
  from sample_analysis [OF sampleWorld_simps(2) sample_not_blocked sampleWorld_simps(10), of firstAnalysisId]
  obtain r w2 where
    a: "analyse defaultConfig 0 firstAnalysisId (payload sampleEvent) sampleWorld = Inr (r, w2)"
    and r: "map contributedScore (riskFactors r)
           = [Num 0, Num 0, Num 0.024, Num 0, Num 0.06, Num 0, Num 0]"
      "finalScore r = Num 0.084" "decision r = APPROVE" "\<not> requiresManualReview r"
    by (auto simp add: sampleWorld_simps sampleEvent_def)
  note pm = process_miss [OF sample_no_marker [OF sampleWorld_simps(2)] a,
      where ?t0.0 = 0 and ?t1.0 = 10]
  show "map_option (map contributedScore \<circ> riskFactors) (producedAnalysis sampleRun)
     = Some [Num 0, Num 0, Num 0.024, Num 0, Num 0.06, Num 0, Num 0]"
    "map_option finalScore (producedAnalysis sampleRun) = Some (Num 0.084)"
    "map_option decision (producedAnalysis sampleRun) = Some APPROVE"
    "map_option requiresManualReview (producedAnalysis sampleRun) = Some False"
    unfolding sampleRun_def pm producedAnalysis_def using r by simp_all
qed

lemma unreachable_run_analysis:
  "map_option finalScore (producedAnalysis unreachableRun) = Some (Num 0.084)"
  "map_option decision (producedAnalysis unreachableRun) = Some APPROVE"
  "map_option requiresManualReview (producedAnalysis unreachableRun) = Some False"
proof -
  from sample_analysis [OF unreachableWorld_simps(2) unreachable_not_found
      unreachableWorld_simps(10), of firstAnalysisId]
  obtain r w2 where
    a: "analyse defaultConfig 0 firstAnalysisId (payload sampleEvent) unreachableWorld = Inr (r, w2)"
    and r: "finalScore r = Num 0.084" "decision r = APPROVE" "\<not> requiresManualReview r"
    by (auto simp add: unreachableWorld_simps sampleEvent_def)
  note pm = process_miss [OF sample_no_marker [OF unreachableWorld_simps(2)] a,
      where ?t0.0 = 0 and ?t1.0 = 10]
  show "map_option finalScore (producedAnalysis unreachableRun) = Some (Num 0.084)"
    "map_option decision (producedAnalysis unreachableRun) = Some APPROVE"
    "map_option requiresManualReview (producedAnalysis unreachableRun) = Some False"
    unfolding unreachableRun_def pm producedAnalysis_def using r by simp_all
qed

lemma constructor_inherited: "inheritedCountryName (currentLocationOf (payload constructorEvent))"
  by (simp add: inheritedCountryName_def currentLocationOf_def constructorEvent_def
        objectPrototypeKeys_def truthyString_def)

lemma constructor_matches:
  "matchesActiveEntry blockedWorld (recipientId (payload constructorEvent))
     (destinationAccountId (payload constructorEvent))"
  by (simp add: matchesActiveEntry_def tableHoldsActive_def blockedWorld_simps blockedRow_def
        constructorEvent_def sampleTransaction_simps)

lemma constructor_run_analysis:
  "map_option finalScore (producedAnalysis constructorRun) = Some NaN"
  "map_option decision (producedAnalysis constructorRun) = Some APPROVE"
  "map_option requiresManualReview (producedAnalysis constructorRun) = Some False"
proof -
  from inherited_pipeline [OF constructor_inherited] obtain r w2 where
    a: "analyse defaultConfig 0 firstAnalysisId (payload constructorEvent) blockedWorld = Inr (r, w2)"
    and r: "finalScore r = NaN" "decision r = APPROVE" "\<not> requiresManualReview r"
    by blast
  have n: "getCachedAnalysis blockedWorld (transactionId (payload constructorEvent)) = None"
    by (simp add: getCachedAnalysis_def blockedWorld_simps sampleCache_simps)
  note pm = process_miss [OF n a, where ?t0.0 = 0 and ?t1.0 = 10]
  show "map_option finalScore (producedAnalysis constructorRun) = Some NaN"
    "map_option decision (producedAnalysis constructorRun) = Some APPROVE"
    "map_option requiresManualReview (producedAnalysis constructorRun) = Some False"
    unfolding constructorRun_def pm producedAnalysis_def using r by simp_all
qed

lemma default_ordered: "suspiciousMin defaultConfig \<le> rejectMin defaultConfig"
  by (simp add: cfg)

lemma blocked_no_marker:
  "getCachedAnalysis blockedWorld (transactionId (payload sampleEvent)) = None"
  by (simp add: getCachedAnalysis_def blockedWorld_simps sampleCache_simps)

lemma process_some:
  assumes "getCachedAnalysis w (transactionId (payload ev)) = None"
  shows "\<exists>r w'. processTransaction cfg t0 now t1 aid ev w = Inr (Some r, w')"
proof -
  from analyse_total obtain r w2 where "analyse cfg now aid (payload ev) w = Inr (r, w2)" by blast
  from process_miss [OF assms this] show ?thesis by blast
qed

section \<open>The properties on the sample runs\<close>

lemma sample_event_location:
  "\<not> inheritedCountryName (currentLocationOf (payload sampleEvent))"
  using sample_location(2) by (simp add: sampleEvent_def)

lemma sample_row_accepted:
  assumes "analysisId c = firstAnalysisId"
    and "resTransactionId c = transactionId (payload sampleEvent)"
    and "resUserId c = userId (payload sampleEvent)"
  shows "identifiersAreUuids c"
  unfolding identifiersAreUuids_def assms
  by (simp add: uuidSyntax_def hexDigit_def firstAnalysisId_def sampleEvent_def
        sampleTransaction_simps)

text \<open>
  C1 on two runs: the sample event on the sample world scores 0.084 and is approved
  without review; on the world with the blocklisted recipient it scores 1 and is rejected
  with review.
\<close>

theorem final_score_and_decision_witness:
  "map_option finalScore (producedAnalysis sampleRun) = Some (Num 0.084)
   \<and> map_option (\<lambda>r. mathMin (Num 1) (sum_list (map contributedScore (riskFactors r))))
        (producedAnalysis sampleRun) = Some (Num 0.084)
   \<and> map_option decision (producedAnalysis sampleRun) = Some APPROVE
   \<and> map_option requiresManualReview (producedAnalysis sampleRun) = Some False
   \<and> map_option finalScore (producedAnalysis blockedRun) = Some (Num 1)
   \<and> map_option decision (producedAnalysis blockedRun) = Some REJECT
   \<and> map_option requiresManualReview (producedAnalysis blockedRun) = Some True"
proof -
  from process_some [OF sample_no_marker [OF sampleWorld_simps(2)]] obtain r w' where
    run: "processTransaction defaultConfig 0 0 10 firstAnalysisId sampleEvent sampleWorld
            = Inr (Some r, w')"
    by blast
  with sample_run_analysis(2) have s: "finalScore r = Num 0.084"
    by (simp add: sampleRun_def producedAnalysis_def)
  from final_score_and_decision [OF default_ordered run] s
  have "Num 0.084 = mathMin (Num 1) (sum_list (map contributedScore (riskFactors r)))
        \<and> decision r = APPROVE \<and> \<not> requiresManualReview r"
    by (simp add: cfg)
  with s run have 1: "map_option finalScore (producedAnalysis sampleRun) = Some (Num 0.084)
   \<and> map_option (\<lambda>r. mathMin (Num 1) (sum_list (map contributedScore (riskFactors r))))
        (producedAnalysis sampleRun) = Some (Num 0.084)
   \<and> map_option decision (producedAnalysis sampleRun) = Some APPROVE
   \<and> map_option requiresManualReview (producedAnalysis sampleRun) = Some False"
    by (simp add: sampleRun_def producedAnalysis_def)
  from blocked_pipeline [OF default_weights sample_event_location blocked_matches]
  obtain rb wb where
    a: "analyse defaultConfig 0 firstAnalysisId (payload sampleEvent) blockedWorld = Inr (rb, wb)"
    and f: "finalScore rb = Num 1"
    by blast
  note runb = process_miss [OF blocked_no_marker a, where ?t0.0 = 0 and ?t1.0 = 10]
  from final_score_and_decision [OF default_ordered runb] f
  have "decision (rb\<lparr>analysisTimeMs := 10 - 0\<rparr>) = REJECT
        \<and> requiresManualReview (rb\<lparr>analysisTimeMs := 10 - 0\<rparr>)"
    by (simp add: cfg)
  with f runb have 2: "map_option finalScore (producedAnalysis blockedRun) = Some (Num 1)
   \<and> map_option decision (producedAnalysis blockedRun) = Some REJECT
   \<and> map_option requiresManualReview (producedAnalysis blockedRun) = Some True"
    by (simp add: blockedRun_def producedAnalysis_def)
  from 1 2 show ?thesis by simp
qed

text \<open>C2 (as amended) on the world whose blocklist table holds an active row for the
  recipient, with the query and the update of the match count succeeding.\<close>

theorem blocklisted_recipient_rejected_witness:
  "score (fst (recipientAnalyze defaultConfig 0 ''rcp-1'' (Some ''acc-2'') None []
        blockedWorld)) = Num 1
   \<and> contributedScore (fst (recipientAnalyze defaultConfig 0 ''rcp-1'' (Some ''acc-2'') None []
        blockedWorld)) = Num 1
   \<and> map_option decision (producedAnalysis blockedRun) = Some REJECT
   \<and> map_option finalScore (producedAnalysis blockedRun) = Some (Num 1)"
  using blocklisted_recipient_rejected [OF default_weights sample_event_location blocked_matches
      blocked_no_marker,
    where now = 0 and userHistory = None and trusted = "[]" and ?t0.0 = 0 and ?t1.0 = 10
      and aid = firstAnalysisId]
  by (simp add: blockedRun_def sampleEvent_def sampleTransaction_simps)

text \<open>
  The factors of a transaction whose recipient is found on the blocklist and whose country
  is an inherited property name: the recipient factor is the short-circuit factor, the
  geographic contribution is NaN, and so is the final score.
\<close>

lemma inherited_blocked_pipeline:
  assumes "inheritedCountryName (currentLocationOf tx)"
    and "matchesActiveEntry w (recipientId tx) (destinationAccountId tx)"
  shows "\<exists>r w2. analyse cfg now aid tx w = Inr (r, w2)
           \<and> contributedScore (riskFactors r ! 3) = NaN
           \<and> riskFactors r ! 4 =
               \<lparr> detectionMethod = RECIPIENT, score = Num 1, weight = recipientWeight cfg,
                 contributedScore = Num 1, details = [(''blocked'', DBool True)] \<rparr>
           \<and> finalScore r = NaN \<and> decision r = APPROVE \<and> \<not> requiresManualReview r"
proof -
  let ?h = "getUserHistory w (userId tx)"
  let ?w1 = "w\<lparr>cacheService := snd (velocityAnalyze cfg (userId tx) (amount tx) (cacheService w))\<rparr>"
  let ?w2 = "snd (deviceAnalyze cfg (deviceFingerprintOf tx) (userAgentOf tx) (deviceIdArgument tx)
                 HistoryEmptyArray ?w1)"
  let ?g = "geographicAnalyze cfg now (currentLocationOf tx) ?h []"
  let ?r = "fst (recipientAnalyze cfg now (recipientId tx) (destinationAccountId tx) ?h [] ?w2)"
  from analyse_eq [of cfg now tx w aid] obtain p mv where
    a: "analyse cfg now aid tx w =
         Inr (calculateFinalDecision cfg aid tx (fst (runAnalyzers cfg now tx ?h w) @ [mlFactor p]) mv,
              ensureModelLoaded cfg (snd (runAnalyzers cfg now tx ?h w)))"
    by blast
  let ?res = "calculateFinalDecision cfg aid tx (fst (runAnalyzers cfg now tx ?h w) @ [mlFactor p]) mv"
  have "matchesActiveEntry ?w2 (recipientId tx) (destinationAccountId tx)"
    by (rule matches_device) (simp only: matches_velocity assms(2))
  then have "fst (recipientCheckBlocklist (recipientId tx) (destinationAccountId tx) ?w2)"
    by (simp only: recipientCheck_matches)
  from recipient_blocked [OF this]
  have r1: "?r = \<lparr> detectionMethod = RECIPIENT, score = Num 1, weight = recipientWeight cfg,
                 contributedScore = Num 1, details = [(''blocked'', DBool True)] \<rparr>" .
  have g: "riskFactors ?res ! 3 = ?g" and r: "riskFactors ?res ! 4 = ?r"
    by (simp_all add: calc_fields runAnalyzers_eq Let_def)
  have "NaN \<in> set (map contributedScore (fst (runAnalyzers cfg now tx ?h w) @ [mlFactor p]))"
    by (simp add: runAnalyzers_eq Let_def inherited_geographic [OF assms(1)])
  then have f: "finalScore ?res = NaN"
    unfolding calc_finalScore by (simp only: sum_list_NaN mathMin_simps)
  have d: "decision ?res = APPROVE" "\<not> requiresManualReview ?res"
    unfolding calc_decision f by simp_all
  show ?thesis
    unfolding a using g r r1 f d inherited_geographic [OF assms(1), of cfg now ?h "[]"]
    by simp
qed

text \<open>
  C2 as stated fails on both of its parts. On the world with the blocklisted recipient,
  the event sent from the country \<open>constructor\<close> gets the recipient factor with raw score 1
  and contributed score 1, yet the geographic contribution is NaN, the final score is NaN
  and the decision is APPROVE: the decision does depend on the score of another analyzer.
  And while the blocklist query fails, the table holds the active row for the recipient,
  and the sample event is approved.
\<close>

theorem blocklist_override_counterexample:
  "matchesActiveEntry blockedWorld (recipientId (payload constructorEvent))
     (destinationAccountId (payload constructorEvent))
   \<and> map_option (\<lambda>r. riskFactors r ! 4) (producedAnalysis constructorRun)
       = Some blockedRecipientFactor
   \<and> map_option (\<lambda>r. contributedScore (riskFactors r ! 3)) (producedAnalysis constructorRun)
       = Some NaN
   \<and> map_option finalScore (producedAnalysis constructorRun) = Some NaN
   \<and> map_option decision (producedAnalysis constructorRun) = Some APPROVE
   \<and> tableHoldsActive unreachableWorld ''rcp-1'' ''acc-2''
   \<and> map_option finalScore (producedAnalysis unreachableRun) = Some (Num 0.084)
   \<and> map_option decision (producedAnalysis unreachableRun) = Some APPROVE"
proof -
  from inherited_blocked_pipeline [OF constructor_inherited constructor_matches]
  obtain r w2 where
    a: "analyse defaultConfig 0 firstAnalysisId (payload constructorEvent) blockedWorld = Inr (r, w2)"
    and r: "contributedScore (riskFactors r ! 3) = NaN"
      "riskFactors r ! 4 =
               \<lparr> detectionMethod = RECIPIENT, score = Num 1, weight = recipientWeight defaultConfig,
                 contributedScore = Num 1, details = [(''blocked'', DBool True)] \<rparr>"
      "finalScore r = NaN" "decision r = APPROVE"
    by blast
  have n: "getCachedAnalysis blockedWorld (transactionId (payload constructorEvent)) = None"
    by (simp add: getCachedAnalysis_def blockedWorld_simps sampleCache_simps)
  note pm = process_miss [OF n a, where ?t0.0 = 0 and ?t1.0 = 10]
  have "map_option (\<lambda>r. riskFactors r ! 4) (producedAnalysis constructorRun)
       = Some blockedRecipientFactor"
    "map_option (\<lambda>r. contributedScore (riskFactors r ! 3)) (producedAnalysis constructorRun)
       = Some NaN"
    "map_option finalScore (producedAnalysis constructorRun) = Some NaN"
    "map_option decision (producedAnalysis constructorRun) = Some APPROVE"
    unfolding constructorRun_def pm producedAnalysis_def using r
    by (simp_all add: blockedRecipientFactor_def cfg)
  with constructor_matches unreachable_row unreachable_run_analysis(1,2) show ?thesis
    by simp
qed

section \<open>Published events\<close>

text \<open>
  C3 (as amended). With the producer connected, the messages published for a completed
  analysis are: for APPROVE exactly one FraudAnalysisComplete event on the fraudAnalysis
  topic; for SUSPICIOUS a FraudSuspected event on fraudSuspected followed by a
  ManualReviewRequired event on fraudManualReview, whose priority is HIGH when the score
  exceeds 0.8 and MEDIUM otherwise; for REJECT exactly one FraudSuspected event on
  fraudSuspected, whether or not a blocklist hit caused the rejection. Every message is
  keyed by the transaction id.
\<close>

theorem publish_by_decision:
  assumes "producerConnected w" and "r = calculateFinalDecision cfg aid tx fs mv"
  shows "producedMessages (publishResult cfg r cid w) =
     producedMessages w @
       (case decision r of
          APPROVE \<Rightarrow>
            [\<lparr> topic = topicFraudAnalysis cfg, messageKey = transactionId tx,
               eventType = FraudAnalysisComplete, eventCorrelationId = cid,
               eventPayload = AnalysisPayload r \<rparr>]
        | SUSPICIOUS \<Rightarrow>
            [\<lparr> topic = topicFraudSuspected cfg, messageKey = transactionId tx,
               eventType = FraudSuspected, eventCorrelationId = cid,
               eventPayload = AnalysisPayload r \<rparr>,
             \<lparr> topic = topicFraudManualReview cfg, messageKey = transactionId tx,
               eventType = ManualReviewRequired, eventCorrelationId = cid,
               eventPayload = ReviewPayload (reviewRequestOf r) \<rparr>]
        | REJECT \<Rightarrow>
            [\<lparr> topic = topicFraudSuspected cfg, messageKey = transactionId tx,
               eventType = FraudSuspected, eventCorrelationId = cid,
               eventPayload = AnalysisPayload r \<rparr>])
    \<and> priority (reviewRequestOf r)
        = (if finalScore r > Num 0.8 then PriorityHIGH else PriorityMEDIUM)"
proof -
  have k: "resTransactionId r = transactionId tx"
    unfolding assms(2) by (rule calc_fields)
  have a: "decision r = APPROVE \<Longrightarrow> \<not> requiresManualReview r"
    unfolding assms(2) calc_decision by (simp split: if_splits)
  have "producedMessages (publishResult cfg r cid w) =
     producedMessages w @
       (case decision r of
          APPROVE \<Rightarrow>
            [\<lparr> topic = topicFraudAnalysis cfg, messageKey = transactionId tx,
               eventType = FraudAnalysisComplete, eventCorrelationId = cid,
               eventPayload = AnalysisPayload r \<rparr>]
        | SUSPICIOUS \<Rightarrow>
            [\<lparr> topic = topicFraudSuspected cfg, messageKey = transactionId tx,
               eventType = FraudSuspected, eventCorrelationId = cid,
               eventPayload = AnalysisPayload r \<rparr>,
             \<lparr> topic = topicFraudManualReview cfg, messageKey = transactionId tx,
               eventType = ManualReviewRequired, eventCorrelationId = cid,
               eventPayload = ReviewPayload (reviewRequestOf r) \<rparr>]
        | REJECT \<Rightarrow>
            [\<lparr> topic = topicFraudSuspected cfg, messageKey = transactionId tx,
               eventType = FraudSuspected, eventCorrelationId = cid,
               eventPayload = AnalysisPayload r \<rparr>])"
    unfolding publishResult_messages [OF assms(1)] k using a
    by (cases "decision r") simp_all
  then show ?thesis by (simp add: reviewRequestOf_def)
qed

lemma calc_samples:
  "finalScore (calculateFinalDecision defaultConfig aid tx [newRecipientFactor] mv) = Num 0.06"
  "finalScore (calculateFinalDecision defaultConfig aid tx
                 [busyVelocityFactor, newRecipientFactor] mv) = Num 0.51"
  "finalScore (calculateFinalDecision defaultConfig aid tx [blockedRecipientFactor] mv) = Num 1"
  by (simp_all add: calc_finalScore newRecipientFactor_def busyVelocityFactor_def
        blockedRecipientFactor_def)

text \<open>C3 (as amended) on an approved, a suspicious and a rejected analysis.\<close>

theorem publish_by_decision_witness:
  "map eventType (producedMessages (publishResult defaultConfig
       (calculateFinalDecision defaultConfig firstAnalysisId sampleTransaction
          [newRecipientFactor] ''v'')
       None sampleWorld)) = [FraudAnalysisComplete]
   \<and> map topic (producedMessages (publishResult defaultConfig
       (calculateFinalDecision defaultConfig firstAnalysisId sampleTransaction
          [newRecipientFactor] ''v'')
       None sampleWorld)) = [''banking.fraud.analysis'']
   \<and> map eventType (producedMessages (publishResult defaultConfig
       (calculateFinalDecision defaultConfig firstAnalysisId sampleTransaction
          [busyVelocityFactor, newRecipientFactor] ''v'')
       None sampleWorld)) = [FraudSuspected, ManualReviewRequired]
   \<and> map topic (producedMessages (publishResult defaultConfig
       (calculateFinalDecision defaultConfig firstAnalysisId sampleTransaction
          [busyVelocityFactor, newRecipientFactor] ''v'')
       None sampleWorld)) = [''banking.fraud.suspected'', ''banking.fraud.manual_review'']
   \<and> priority (reviewRequestOf
       (calculateFinalDecision defaultConfig firstAnalysisId sampleTransaction
          [busyVelocityFactor, newRecipientFactor] ''v'')) = PriorityMEDIUM
   \<and> map eventType (producedMessages (publishResult defaultConfig
       (calculateFinalDecision defaultConfig firstAnalysisId sampleTransaction
          [blockedRecipientFactor] ''v'')
       None sampleWorld)) = [FraudSuspected]
   \<and> map topic (producedMessages (publishResult defaultConfig
       (calculateFinalDecision defaultConfig firstAnalysisId sampleTransaction
          [blockedRecipientFactor] ''v'')
       None sampleWorld)) = [''banking.fraud.suspected'']"
proof -
  have pc: "producerConnected sampleWorld" by (simp add: sampleWorld_simps)
  note p = publish_by_decision [OF pc refl, where cfg = defaultConfig and aid = firstAnalysisId
      and tx = sampleTransaction and mv = "''v''" and cid = None]
  show ?thesis
    using p [where fs = "[newRecipientFactor]"]
      p [where fs = "[busyVelocityFactor, newRecipientFactor]"]
      p [where fs = "[blockedRecipientFactor]"]
    by (simp add: calc_decision calc_samples cfg sampleWorld_simps)
qed

text \<open>
  C3 as stated fails: the run on the world with the blocklisted recipient is rejected
  because of the blocklist hit, and the only message it publishes is a FraudSuspected
  event; no BlocklistMatch event is published.
\<close>

theorem blocklist_event_counterexample:
  "map_option decision (producedAnalysis blockedRun) = Some REJECT
   \<and> map_option (map eventType \<circ> producedMessages) (worldAfter blockedRun) = Some [FraudSuspected]
   \<and> map_option (map topic \<circ> producedMessages) (worldAfter blockedRun)
        = Some [''banking.fraud.suspected'']"
proof -
  from blocked_pipeline [OF default_weights sample_event_location blocked_matches]
  obtain r w2 where
    a: "analyse defaultConfig 0 firstAnalysisId (payload sampleEvent) blockedWorld = Inr (r, w2)"
    and d: "decision r = REJECT"
    by blast
  note run = process_miss [OF blocked_no_marker a, where ?t0.0 = 0 and ?t1.0 = 10]
  have "producerConnected (saveAnalysis r w2)"
    by (simp add: saveAnalysis_frame analyse_frame(1) [OF a] blockedWorld_simps)
  from publishResult_messages [OF this, of defaultConfig r "correlationId sampleEvent"] d
  have "producedMessages (publishResult defaultConfig r (correlationId sampleEvent)
           (saveAnalysis r w2)) =
        [\<lparr> topic = topicFraudSuspected defaultConfig, messageKey = resTransactionId r,
           eventType = FraudSuspected, eventCorrelationId = correlationId sampleEvent,
           eventPayload = AnalysisPayload r \<rparr>]"
    by (simp add: saveAnalysis_frame analyse_frame(2) [OF a] blockedWorld_simps)
  then show ?thesis
    unfolding blockedRun_def run
    by (simp add: producedAnalysis_def worldAfter_def cacheAnalysis_frame d cfg)
qed

section \<open>Redelivery and deadline on the sample run\<close>

lemma sample_run_effects:
  "\<exists>c w'. processTransaction defaultConfig 0 0 t1 firstAnalysisId sampleEvent sampleWorld
             = Inr (Some (c\<lparr>analysisTimeMs := t1\<rparr>), w')
      \<and> status c = COMPLETED \<and> decision c = APPROVE \<and> \<not> requiresManualReview c
      \<and> fraudAnalysisTable w' = [c]
      \<and> map eventType (producedMessages w') = [FraudAnalysisComplete]
      \<and> publishedAnalyses (producedMessages w') = [c]"
proof -
  from sample_analysis [OF sampleWorld_simps(2) sample_not_blocked sampleWorld_simps(10),
      of firstAnalysisId]
  obtain c w2 where
    a: "analyse defaultConfig 0 firstAnalysisId (payload sampleEvent) sampleWorld = Inr (c, w2)"
    and d: "decision c = APPROVE" "\<not> requiresManualReview c"
    by (auto simp add: sampleWorld_simps sampleEvent_def)
  note run = process_miss [OF sample_no_marker [OF sampleWorld_simps(2)] a,
      where ?t0.0 = 0 and ?t1.0 = t1]
  have acc: "identifiersAreUuids c"
    by (rule sample_row_accepted [OF analyse_result(4) [OF a] analyse_result(3) [OF a]
          analyse_result(5) [OF a]])
  have pc: "producerConnected (saveAnalysis c w2)"
    by (simp add: saveAnalysis_frame analyse_frame(1) [OF a] sampleWorld_simps)
  have m: "producedMessages (publishResult defaultConfig c (correlationId sampleEvent)
             (saveAnalysis c w2)) =
        [\<lparr> topic = topicFraudAnalysis defaultConfig, messageKey = resTransactionId c,
           eventType = FraudAnalysisComplete, eventCorrelationId = correlationId sampleEvent,
           eventPayload = AnalysisPayload c \<rparr>]"
    unfolding publishResult_messages [OF pc]
    by (simp add: d saveAnalysis_frame analyse_frame(2) [OF a] sampleWorld_simps)
  have t: "fraudAnalysisTable (publishResult defaultConfig c (correlationId sampleEvent)
             (saveAnalysis c w2)) = [c]"
    by (simp add: publishResult_frame saveAnalysis_table analyse_frame(3,4,7) [OF a]
          sampleWorld_simps acc)
  show ?thesis
    unfolding run
    by (simp add: cacheAnalysis_frame m t d analyse_result(1) [OF a] publishedAnalyses_def)
qed

text \<open>
  C4 on the sample event: the first run publishes one message and inserts one row; the
  second run, on the world the first one left, returns that world unchanged.
\<close>

theorem idempotent_redelivery_witness:
  "map_option (length \<circ> producedMessages) (worldAfter sampleRun) = Some 1
   \<and> map_option (length \<circ> fraudAnalysisTable) (worldAfter sampleRun) = Some 1
   \<and> processTransaction defaultConfig 20 20 30 secondAnalysisId sampleEvent
        (the (worldAfter sampleRun))
        = Inr (None, the (worldAfter sampleRun))"
proof -
  have rc: "redisConnected (cacheService sampleWorld)"
    by (simp add: sampleWorld_simps sampleCache_simps)
  from idempotent_redelivery [of sampleWorld sampleEvent defaultConfig 0 0 10 firstAnalysisId
      20 20 30 secondAnalysisId] rc
  obtain res w1 where
    first: "processTransaction defaultConfig 0 0 10 firstAnalysisId sampleEvent sampleWorld
              = Inr (res, w1)"
    and second: "processTransaction defaultConfig 20 20 30 secondAnalysisId sampleEvent w1
              = Inr (None, w1)"
    by blast
  from sample_run_effects [of 10] first
  have "length (producedMessages w1) = 1" "length (fraudAnalysisTable w1) = 1"
    by (auto dest: arg_cong [where f = length])
  with first second show ?thesis
    by (simp add: sampleRun_def worldAfter_def)
qed

text \<open>
  C5 (as amended) on the run that takes 6000 ms: the analysis returned, the row inserted
  and the analysis published have status COMPLETED, and the factors are those of the six
  analyzers and the ML scorer.
\<close>

theorem no_deadline_status_completed_witness:
  "map_option status (producedAnalysis lateRun) = Some COMPLETED
   \<and> map_option (map detectionMethod \<circ> riskFactors) (producedAnalysis lateRun) = Some allMethods
   \<and> map_option (map status \<circ> fraudAnalysisTable) (worldAfter lateRun) = Some [COMPLETED]
   \<and> map_option (map status \<circ> publishedAnalyses \<circ> producedMessages) (worldAfter lateRun)
        = Some [COMPLETED]"
proof -
  from no_deadline_status_completed [OF sample_no_marker [OF sampleWorld_simps(2)],
      where cfg = defaultConfig and ?t0.0 = 0 and now = 0 and ?t1.0 = 6000
        and aid = firstAnalysisId]
  obtain r c w' where
    run: "processTransaction defaultConfig 0 0 6000 firstAnalysisId sampleEvent sampleWorld
            = Inr (Some r, w')"
    and r: "status r = COMPLETED" "map detectionMethod (riskFactors r) = allMethods"
    and c: "status c = COMPLETED"
    and ids: "analysisId c = firstAnalysisId"
      "resTransactionId c = transactionId (payload sampleEvent)"
      "resUserId c = userId (payload sampleEvent)"
    and t: "fraudAnalysisTable w' = fraudAnalysisTable sampleWorld @
           (if databaseUp sampleWorld \<and> acceptsAnalysisRow sampleWorld c
               \<and> transactionId (payload sampleEvent)
                    \<notin> set (map resTransactionId (fraudAnalysisTable sampleWorld))
            then [c] else [])"
    and m: "producerConnected sampleWorld \<longrightarrow>
           (\<exists>ms. producedMessages w' = producedMessages sampleWorld @ ms
                  \<and> publishedAnalyses ms = [c])"
    by blast
  from t sample_row_accepted [OF ids] have t': "fraudAnalysisTable w' = [c]"
    by (simp add: sampleWorld_simps)
  from m have m': "publishedAnalyses (producedMessages w') = [c]"
    by (auto simp add: sampleWorld_simps)
  from run r c t' m' show ?thesis
    by (simp add: lateRun_def producedAnalysis_def worldAfter_def)
qed

text \<open>
  C5 as stated fails: a run measured at 6000 ms, above the configured 5000 ms, returns an
  analysis with status COMPLETED, not TIMEOUT, and the row it has inserted has status
  COMPLETED as well.
\<close>

theorem deadline_counterexample:
  "map_option analysisTimeMs (producedAnalysis lateRun) = Some 6000
   \<and> processingTimeoutMs defaultConfig = Num 5000
   \<and> map_option status (producedAnalysis lateRun) = Some COMPLETED
   \<and> map_option (map status \<circ> fraudAnalysisTable) (worldAfter lateRun) = Some [COMPLETED]"
proof -
  from sample_run_effects [of 6000] obtain c w' where
    run: "processTransaction defaultConfig 0 0 6000 firstAnalysisId sampleEvent sampleWorld
            = Inr (Some (c\<lparr>analysisTimeMs := 6000\<rparr>), w')"
    and c: "status c = COMPLETED" "fraudAnalysisTable w' = [c]"
    by blast
  show ?thesis
    unfolding lateRun_def run by (simp add: producedAnalysis_def worldAfter_def cfg c)
qed

section \<open>Invalid messages\<close>

text \<open>
  C9. A message whose body is not JSON, or whose parsed event fails \<open>validateEvent\<close>, makes
  \<open>handleMessage\<close> log a warning and return normally with the state behind the handler
  unchanged: the handler is not invoked and nothing is thrown, so the message is not
  retried. An event whose payload lacks \<open>transactionId\<close>, \<open>userId\<close> or \<open>recipientId\<close>, or
  whose amount is a number not above 0, fails \<open>validateEvent\<close>.
\<close>

theorem invalid_message_skipped:
  "(jsonParse raw = None \<or> (\<exists>event. jsonParse raw = Some event \<and> \<not> validateEvent event)
      \<longrightarrow> snd (handleMessage jsonParse handler (Some raw) st) = Inr st
          \<and> LogWarn \<in> fst ` set (fst (handleMessage jsonParse handler (Some raw) st)))
   \<and> (property event ''payload'' = Some pl
        \<and> (property pl ''transactionId'' = None \<or> property pl ''userId'' = None
             \<or> property pl ''recipientId'' = None
             \<or> (\<exists>x. property pl ''amount'' = Some (JNumber x) \<and> x \<le> 0))
      \<longrightarrow> \<not> validateEvent event)"
proof (intro conjI impI)
  assume "jsonParse raw = None \<or> (\<exists>event. jsonParse raw = Some event \<and> \<not> validateEvent event)"
  then show "snd (handleMessage jsonParse handler (Some raw) st) = Inr st"
    by (auto simp add: handleMessage_def parseMessage_def)
next
  assume "jsonParse raw = None \<or> (\<exists>event. jsonParse raw = Some event \<and> \<not> validateEvent event)"
  then show "LogWarn \<in> fst ` set (fst (handleMessage jsonParse handler (Some raw) st))"
    by (auto simp add: handleMessage_def parseMessage_def)
next
  assume "property event ''payload'' = Some pl
        \<and> (property pl ''transactionId'' = None \<or> property pl ''userId'' = None
             \<or> property pl ''recipientId'' = None
             \<or> (\<exists>x. property pl ''amount'' = Some (JNumber x) \<and> x \<le> 0))"
  then show "\<not> validateEvent event"
    by (auto simp add: validateEvent_def nonEmptyString_def positiveNumber_def)
qed

lemma sample_events:
  "validateEvent validEvent" "\<not> validateEvent negativeAmountEvent" "\<not> validateEvent (JObject [])"
  by (simp_all add: validateEvent_def validEvent_def negativeAmountEvent_def truthy_def
        property_def nonEmptyString_def positiveNumber_def)

lemma sample_truthy:
  "truthy validEvent" "truthy negativeAmountEvent" "truthy (JObject [])"
  by (simp_all add: truthy_def validEvent_def negativeAmountEvent_def)

text \<open>
  C9 on four messages: a body that is no JSON, an object without payload and an event
  with a negative amount are skipped with a warning and the handler's counter stays 0; a
  valid event reaches the handler.
\<close>

theorem invalid_message_skipped_witness:
  "handleMessage sampleJsonParse (Some countingHandler) (Some ''not json'') 0
     = ([(LogError, ''Failed to parse message''), (LogWarn, ''Failed to parse message'')], Inr 0)
   \<and> handleMessage sampleJsonParse (Some countingHandler) (Some ''empty object'') 0
     = ([(LogWarn, ''Invalid event structure'')], Inr 0)
   \<and> handleMessage sampleJsonParse (Some countingHandler) (Some ''negative amount'') 0
     = ([(LogWarn, ''Invalid event structure'')], Inr 0)
   \<and> snd (handleMessage sampleJsonParse (Some countingHandler) (Some ''valid'') 0) = Inr 1"
proof -
  have 1: "snd (handleMessage sampleJsonParse (Some countingHandler) (Some ''not json'') 0) = Inr 0"
    using invalid_message_skipped [of sampleJsonParse "''not json''" "Some countingHandler" 0]
    by (simp add: sampleJsonParse_def)
  have 2: "snd (handleMessage sampleJsonParse (Some countingHandler) (Some ''negative amount'') 0)
             = Inr 0"
    using invalid_message_skipped [of sampleJsonParse "''negative amount''" "Some countingHandler" 0]
      sample_events(2)
    by (simp add: sampleJsonParse_def)
  have 3: "snd (handleMessage sampleJsonParse (Some countingHandler) (Some ''empty object'') 0)
             = Inr 0"
    using invalid_message_skipped [of sampleJsonParse "''empty object''" "Some countingHandler" 0]
      sample_events(3)
    by (simp add: sampleJsonParse_def)
  have l: "fst (handleMessage sampleJsonParse (Some countingHandler) (Some ''not json'') 0)
             = [(LogError, ''Failed to parse message''), (LogWarn, ''Failed to parse message'')]"
    "fst (handleMessage sampleJsonParse (Some countingHandler) (Some ''negative amount'') 0)
             = [(LogWarn, ''Invalid event structure'')]"
    "fst (handleMessage sampleJsonParse (Some countingHandler) (Some ''empty object'') 0)
             = [(LogWarn, ''Invalid event structure'')]"
    by (simp_all add: handleMessage_def parseMessage_def sampleJsonParse_def sample_events
          sample_truthy)
  have v: "snd (handleMessage sampleJsonParse (Some countingHandler) (Some ''valid'') 0) = Inr 1"
    by (simp add: handleMessage_def parseMessage_def sampleJsonParse_def sample_events
          sample_truthy countingHandler_def)
  from 1 2 3 l v show ?thesis by (simp add: prod_eq_iff)
qed


end
